theory Spec2Isabelle
  imports Main "HOL-Library.Word"
begin

section \<open>Values exchanged with the SDK and the node\<close>

text \<open>
  The repository is a collection of JavaScript functions over the Algorand SDK
  (\<^verbatim>\<open>const algosdk = require('algosdk')\<close>) and a remote node. Neither the SDK nor the
  node is part of the repository: both are parameters of the model (the records
  \<open>algosdk\<close> and \<open>algod\<close> below), and nothing is assumed about them in the definitions.
  JavaScript numbers are \<open>int\<close>, strings are \<open>string\<close>, a \<^verbatim>\<open>Uint8Array\<close> is a list of
  bytes, a property that may be \<^verbatim>\<open>undefined\<close> is an \<open>option\<close>.
\<close>

type_synonym bytes = "8 word list"

text \<open>A thrown JavaScript value.\<close>

datatype error = Error string | TypeError string

text \<open>An SDK \<^verbatim>\<open>Address\<close> object, identified by its text form.\<close>

datatype address = Address string

fun toString :: "address \<Rightarrow> string" where
  "toString (Address s) = s"

record account =
  addr :: address
  sk :: bytes

text \<open>The SDK's builders take \<^verbatim>\<open>string | Address\<close> where an address is expected.\<close>

datatype addr_arg = AddrText string | AddrObject address

text \<open>An argument documented as \<^verbatim>\<open>{string|Object}\<close>: an address string or an account.\<close>

datatype party = PartyText string | PartyAccount account

record suggested_params =
  sp_fee :: int
  sp_firstValid :: int
  sp_lastValid :: int
  sp_genesisID :: string

record algod_client =
  client_token :: string
  client_server :: string
  client_port :: string

subsection \<open>Request objects handed to the SDK's transaction builders\<close>

record payment_req =
  pay_sender :: addr_arg
  pay_receiver :: addr_arg
  pay_amount :: int
  pay_note :: "bytes option"
  pay_rekeyTo :: "addr_arg option"
  pay_lease :: "bytes option"
  pay_suggestedParams :: suggested_params

record asset_create_req =
  ac_sender :: addr_arg
  ac_total :: int
  ac_decimals :: int
  ac_defaultFrozen :: bool
  ac_manager :: addr_arg
  ac_reserve :: addr_arg
  ac_freeze :: addr_arg
  ac_clawback :: addr_arg
  ac_unitName :: string
  ac_assetName :: string
  ac_assetURL :: string
  ac_assetMetadataHash :: "bytes option"
  ac_suggestedParams :: suggested_params

record asset_config_req =
  cfg_sender :: addr_arg
  cfg_assetIndex :: int
  cfg_manager :: "addr_arg option"
  cfg_reserve :: "addr_arg option"
  cfg_freeze :: "addr_arg option"
  cfg_clawback :: "addr_arg option"
  cfg_strictEmptyAddressChecking :: bool
  cfg_suggestedParams :: suggested_params

record asset_transfer_req =
  xfer_sender :: addr_arg
  xfer_receiver :: addr_arg
  xfer_assetSender :: "addr_arg option"
  xfer_amount :: int
  xfer_assetIndex :: int
  xfer_suggestedParams :: suggested_params

record asset_freeze_req =
  frz_sender :: addr_arg
  frz_freezeTarget :: addr_arg
  frz_assetIndex :: int
  frz_frozen :: bool
  frz_suggestedParams :: suggested_params

record asset_destroy_req =
  des_sender :: addr_arg
  des_assetIndex :: int
  des_suggestedParams :: suggested_params

datatype on_complete = NoOpOC | OptInOC | CloseOutOC | ClearStateOC | UpdateApplicationOC | DeleteApplicationOC

record app_create_req =
  apc_sender :: addr_arg
  apc_suggestedParams :: suggested_params
  apc_onComplete :: on_complete
  apc_approvalProgram :: bytes
  apc_clearProgram :: bytes
  apc_numGlobalByteSlices :: int
  apc_numGlobalInts :: int
  apc_numLocalByteSlices :: int
  apc_numLocalInts :: int

record app_update_req =
  apu_sender :: addr_arg
  apu_suggestedParams :: suggested_params
  apu_appIndex :: int
  apu_approvalProgram :: bytes
  apu_clearProgram :: bytes

text \<open>The opt-in, delete, close-out and clear-state builders take the same three fields.\<close>

record app_index_req =
  api_sender :: addr_arg
  api_suggestedParams :: suggested_params
  api_appIndex :: int

record app_noop_req =
  apn_sender :: addr_arg
  apn_suggestedParams :: suggested_params
  apn_appIndex :: int
  apn_appArgs :: "bytes list"
  apn_accounts :: "string list option"
  apn_foreignApps :: "int list option"
  apn_foreignAssets :: "int list option"

text \<open>One constructor for each SDK builder the repository calls.\<close>

datatype request =
    PaymentTxn payment_req
  | AssetCreateTxn asset_create_req
  | AssetConfigTxn asset_config_req
  | AssetTransferTxn asset_transfer_req
  | AssetFreezeTxn asset_freeze_req
  | AssetDestroyTxn asset_destroy_req
  | ApplicationCreateTxn app_create_req
  | ApplicationUpdateTxn app_update_req
  | ApplicationOptInTxn app_index_req
  | ApplicationNoOpTxn app_noop_req
  | ApplicationDeleteTxn app_index_req
  | ApplicationCloseOutTxn app_index_req
  | ApplicationClearStateTxn app_index_req

text \<open>An SDK \<^verbatim>\<open>Transaction\<close> object: what it was built from, and its group field.\<close>

record transaction =
  txn_fields :: request
  txn_group :: "bytes option"

text \<open>The record the node reports once a transaction is included.\<close>

record confirmation =
  confirmedRound :: "int option"
  assetIndex :: "int option"
  applicationIndex :: "int option"


subsection \<open>Other SDK and node values\<close>

record msig_params =
  msig_version :: int
  msig_threshold :: int
  msig_addrs :: "addr_arg list"

text \<open>A signed multisig or logic-signature transaction: \<^verbatim>\<open>{ txID, blob }\<close>.\<close>

record signed_blob =
  blob_txID :: string
  blob :: bytes

record lsig_account =
  lsig_program :: bytes
  lsig_args :: "bytes list"
  lsig_sig :: "bytes option"

text \<open>\<^verbatim>\<open>sendRawTransaction\<close> takes one signed transaction or an array of them.\<close>

datatype raw = OneTxn bytes | TxnGroup "bytes list"

record compile_response =
  compiled_result :: string

record teal_value =
  tv_type :: int
  tv_bytes :: string
  tv_uint :: int

record state_item =
  si_key :: string
  si_value :: teal_value

record application_params =
  global_state :: "state_item list option"

record application =
  app_id :: int
  app_params :: application_params

record app_local_state =
  als_id :: int
  als_key_value :: "state_item list option"

record asset_holding =
  holding_asset_id :: int
  holding_amount :: int

record account_info =
  ai_amount :: int
  ai_status :: string
  ai_assets :: "asset_holding list option"
  ai_created_apps :: "application list option"
  ai_apps_local_state :: "app_local_state list option"

text \<open>A decoded state value: text for a byte value, a number for an integer value.\<close>

datatype state_value = TextValue string | IntValue int

datatype abi_value = AbiText string | AbiUint int | AbiBytes bytes

record abi_method =
  method_name :: string
  method_args :: "(string \<times> string) list"
  method_returns :: string

record abi_contract =
  contract_name :: string
  contract_methods :: "abi_method list"

datatype signer = BasicAccountTransactionSigner account

record method_call =
  mc_appID :: int
  mc_method :: abi_method
  mc_methodArgs :: "abi_value list"
  mc_sender :: addr_arg
  mc_suggestedParams :: suggested_params
  mc_signer :: signer

text \<open>An \<^verbatim>\<open>AtomicTransactionComposer\<close>: the method calls added so far.\<close>

type_synonym composer = "method_call list"

record method_result =
  returnValue :: "abi_value option"

record atc_result =
  res_confirmedRound :: int
  res_txIDs :: "string list"
  res_methodResults :: "method_result list"

section \<open>The trace of a run\<close>

text \<open>
  Every call that leaves the repository's own code is recorded, with its arguments:
  \<open>Called c\<close> when it returned, \<open>Failed c e\<close> when it threw \<open>e\<close>. Console output is
  recorded too. The trace is the only state the functions share.
\<close>

datatype call =
    GenerateAccount
  | SecretKeyToMnemonic bytes
  | MnemonicToSecretKey string
  | MultisigAddress msig_params
  | MakeTxn request
  | SignTxn transaction bytes
  | AssignGroupID "transaction list"
  | SignMultisigTransaction transaction msig_params bytes
  | AppendSignMultisigTransaction bytes msig_params bytes
  | NewLogicSigAccount bytes "bytes list option"
  | LogicSigSign lsig_account bytes
  | SignLogicSigTransaction transaction lsig_account
  | NewABIContract abi_contract
  | GetMethodByName abi_contract string
  | AddMethodCall composer method_call
  | GetTransactionParams algod_client
  | SendRawTransaction algod_client raw
  | WaitForConfirmation algod_client string int
  | Compile algod_client string
  | GetApplicationByID algod_client int
  | AccountInformation algod_client string
  | AtcExecute algod_client composer int
  | PropertyOfUndefined string

text \<open>What \<^verbatim>\<open>console.log\<close> was given after its first (text) argument.\<close>

datatype shown =
    ShownUndefined
  | ShownText string
  | ShownNumber int
  | ShownBoolean bool
  | ShownAbi abi_value
  | ShownState "string \<Rightarrow> state_value option"

datatype event =
    Called call
  | Failed call error
  | ConsoleLog string "shown list"
  | ConsoleError string error

type_synonym trace = "event list"

text \<open>
  The SDK, as far as the repository uses it; a call that throws is \<open>Inl\<close> of what it
  throws. \<open>sdk_generateAccount\<close> draws fresh randomness, so its outcome may depend on
  everything that happened before; the other functions are functions of their
  arguments. \<open>sdk_assignGroupID\<close> and \<open>sdk_lsig_sign\<close>
  change the objects they are given in place: the model takes the state of those objects
  after the call (for \<open>sdk_assignGroupID\<close> in the order of the array). The last three
  fields are the platform's \<^verbatim>\<open>TextEncoder\<close> and \<^verbatim>\<open>Buffer\<close>.
\<close>

record algosdk =
  sdk_generateAccount :: "trace \<Rightarrow> error + account"
  sdk_secretKeyToMnemonic :: "bytes \<Rightarrow> error + string"
  sdk_mnemonicToSecretKey :: "string \<Rightarrow> error + account"
  sdk_multisigAddress :: "msig_params \<Rightarrow> error + address"
  sdk_makeTxn :: "request \<Rightarrow> error + transaction"
  sdk_signTxn :: "transaction \<Rightarrow> bytes \<Rightarrow> error + bytes"
  sdk_assignGroupID :: "transaction list \<Rightarrow> error + transaction list"
  sdk_signMultisigTransaction :: "transaction \<Rightarrow> msig_params \<Rightarrow> bytes \<Rightarrow> error + signed_blob"
  sdk_appendSignMultisigTransaction :: "bytes \<Rightarrow> msig_params \<Rightarrow> bytes \<Rightarrow> error + signed_blob"
  sdk_LogicSigAccount :: "bytes \<Rightarrow> bytes list option \<Rightarrow> error + lsig_account"
  sdk_lsig_sign :: "lsig_account \<Rightarrow> bytes \<Rightarrow> error + lsig_account"
  sdk_lsig_address :: "lsig_account \<Rightarrow> address"
  sdk_signLogicSigTransaction :: "transaction \<Rightarrow> lsig_account \<Rightarrow> error + signed_blob"
  sdk_ABIContract :: "abi_contract \<Rightarrow> error + abi_contract"
  sdk_getMethodByName :: "abi_contract \<Rightarrow> string \<Rightarrow> error + abi_method"
  sdk_addMethodCall :: "composer \<Rightarrow> method_call \<Rightarrow> error + composer"
  TextEncoder_encode :: "string \<Rightarrow> bytes"
  Buffer_from_base64 :: "string \<Rightarrow> bytes"
  Buffer_toString :: "bytes \<Rightarrow> string"

text \<open>
  The node reached through a client. Its answers may depend on everything that happened
  before (the trace), so two equal requests need not get equal answers.
  \<open>node_waitForConfirmation\<close> is the outcome of the SDK's polling
  \<^verbatim>\<open>algosdk.waitForConfirmation(client, txId, rounds)\<close>, \<open>node_execute\<close> that of
  \<^verbatim>\<open>atc.execute(client, rounds)\<close>.
\<close>

record algod =
  node_getTransactionParams :: "trace \<Rightarrow> error + suggested_params"
  node_sendRawTransaction :: "trace \<Rightarrow> raw \<Rightarrow> error + string"
  node_waitForConfirmation :: "trace \<Rightarrow> string \<Rightarrow> int \<Rightarrow> error + confirmation"
  node_compile :: "trace \<Rightarrow> string \<Rightarrow> error + compile_response"
  node_getApplicationByID :: "trace \<Rightarrow> int \<Rightarrow> error + application"
  node_accountInformation :: "trace \<Rightarrow> string \<Rightarrow> error + account_info"
  node_execute :: "trace \<Rightarrow> composer \<Rightarrow> int \<Rightarrow> error + atc_result"

type_synonym network = "algod_client \<Rightarrow> algod"

section \<open>Sequencing, exceptions and the primitive calls\<close>

text \<open>
  A JavaScript function body is a function from the trace so far to its outcome
  (\<open>Inl\<close> a thrown value, \<open>Inr\<close> a returned one) and the extended trace.
\<close>

type_synonym 'a io = "trace \<Rightarrow> (error + 'a) \<times> trace"

definition done_with :: "'a \<Rightarrow> 'a io" where
  "done_with v tr = (Inr v, tr)"

definition raise :: "error \<Rightarrow> 'a io" where
  "raise e tr = (Inl e, tr)"

definition and_then :: "'a io \<Rightarrow> ('a \<Rightarrow> 'b io) \<Rightarrow> 'b io" where
  "and_then m f tr = (case m tr of (Inl e, tr') \<Rightarrow> (Inl e, tr') | (Inr v, tr') \<Rightarrow> f v tr')"

definition try_catch :: "'a io \<Rightarrow> (error \<Rightarrow> 'a io) \<Rightarrow> 'a io" where
  "try_catch m handler tr = (case m tr of (Inl e, tr') \<Rightarrow> handler e tr' | (Inr v, tr') \<Rightarrow> (Inr v, tr'))"

definition external :: "call \<Rightarrow> (trace \<Rightarrow> error + 'a) \<Rightarrow> 'a io" where
  "external c answer tr =
     (case answer tr of Inl e \<Rightarrow> (Inl e, tr @ [Failed c e]) | Inr v \<Rightarrow> (Inr v, tr @ [Called c]))"

definition console_log :: "string \<Rightarrow> shown list \<Rightarrow> unit io" where
  "console_log text vs tr = (Inr (), tr @ [ConsoleLog text vs])"

definition console_error :: "string \<Rightarrow> error \<Rightarrow> unit io" where
  "console_error text e tr = (Inr (), tr @ [ConsoleError text e])"

text \<open>Reading a property of \<^verbatim>\<open>undefined\<close> throws a \<^verbatim>\<open>TypeError\<close>.\<close>

definition property_of_undefined :: "string \<Rightarrow> 'a io" where
  "property_of_undefined what = external (PropertyOfUndefined what) (\<lambda>_. Inl (TypeError what))"

text \<open>\<^verbatim>\<open>xs.map(f)\<close> with a callback that may throw: left to right, stopping at the first throw.\<close>

fun map_io :: "('a \<Rightarrow> 'b io) \<Rightarrow> 'a list \<Rightarrow> 'b list io" where
  "map_io f [] = done_with []"
| "map_io f (x # xs) = and_then (f x) (\<lambda>y. and_then (map_io f xs) (\<lambda>ys. done_with (y # ys)))"

subsection \<open>Calls into the SDK\<close>

definition algosdk_generateAccount :: "algosdk \<Rightarrow> account io" where
  "algosdk_generateAccount sdk = external GenerateAccount (sdk_generateAccount sdk)"

definition algosdk_secretKeyToMnemonic :: "algosdk \<Rightarrow> bytes \<Rightarrow> string io" where
  "algosdk_secretKeyToMnemonic sdk key =
     external (SecretKeyToMnemonic key) (\<lambda>_. sdk_secretKeyToMnemonic sdk key)"

definition algosdk_mnemonicToSecretKey :: "algosdk \<Rightarrow> string \<Rightarrow> account io" where
  "algosdk_mnemonicToSecretKey sdk mn =
     external (MnemonicToSecretKey mn) (\<lambda>_. sdk_mnemonicToSecretKey sdk mn)"

definition algosdk_multisigAddress :: "algosdk \<Rightarrow> msig_params \<Rightarrow> address io" where
  "algosdk_multisigAddress sdk p = external (MultisigAddress p) (\<lambda>_. sdk_multisigAddress sdk p)"

definition algosdk_makeTxn :: "algosdk \<Rightarrow> request \<Rightarrow> transaction io" where
  "algosdk_makeTxn sdk req = external (MakeTxn req) (\<lambda>_. sdk_makeTxn sdk req)"

definition signTxn :: "algosdk \<Rightarrow> transaction \<Rightarrow> bytes \<Rightarrow> bytes io" where
  "signTxn sdk txn key = external (SignTxn txn key) (\<lambda>_. sdk_signTxn sdk txn key)"

definition algosdk_assignGroupID :: "algosdk \<Rightarrow> transaction list \<Rightarrow> transaction list io" where
  "algosdk_assignGroupID sdk txns = external (AssignGroupID txns) (\<lambda>_. sdk_assignGroupID sdk txns)"

definition algosdk_signMultisigTransaction ::
    "algosdk \<Rightarrow> transaction \<Rightarrow> msig_params \<Rightarrow> bytes \<Rightarrow> signed_blob io" where
  "algosdk_signMultisigTransaction sdk txn p key =
     external (SignMultisigTransaction txn p key) (\<lambda>_. sdk_signMultisigTransaction sdk txn p key)"

definition algosdk_appendSignMultisigTransaction ::
    "algosdk \<Rightarrow> bytes \<Rightarrow> msig_params \<Rightarrow> bytes \<Rightarrow> signed_blob io" where
  "algosdk_appendSignMultisigTransaction sdk b p key =
     external (AppendSignMultisigTransaction b p key)
       (\<lambda>_. sdk_appendSignMultisigTransaction sdk b p key)"

definition algosdk_LogicSigAccount :: "algosdk \<Rightarrow> bytes \<Rightarrow> bytes list option \<Rightarrow> lsig_account io" where
  "algosdk_LogicSigAccount sdk program args =
     external (NewLogicSigAccount program args) (\<lambda>_. sdk_LogicSigAccount sdk program args)"

definition lsig_sign :: "algosdk \<Rightarrow> lsig_account \<Rightarrow> bytes \<Rightarrow> lsig_account io" where
  "lsig_sign sdk l key = external (LogicSigSign l key) (\<lambda>_. sdk_lsig_sign sdk l key)"

definition algosdk_signLogicSigTransaction ::
    "algosdk \<Rightarrow> transaction \<Rightarrow> lsig_account \<Rightarrow> signed_blob io" where
  "algosdk_signLogicSigTransaction sdk txn l =
     external (SignLogicSigTransaction txn l) (\<lambda>_. sdk_signLogicSigTransaction sdk txn l)"

definition algosdk_ABIContract :: "algosdk \<Rightarrow> abi_contract \<Rightarrow> abi_contract io" where
  "algosdk_ABIContract sdk c = external (NewABIContract c) (\<lambda>_. sdk_ABIContract sdk c)"

definition getMethodByName :: "algosdk \<Rightarrow> abi_contract \<Rightarrow> string \<Rightarrow> abi_method io" where
  "getMethodByName sdk c n = external (GetMethodByName c n) (\<lambda>_. sdk_getMethodByName sdk c n)"

definition addMethodCall :: "algosdk \<Rightarrow> composer \<Rightarrow> method_call \<Rightarrow> composer io" where
  "addMethodCall sdk atc mc = external (AddMethodCall atc mc) (\<lambda>_. sdk_addMethodCall sdk atc mc)"

subsection \<open>Calls to the node\<close>

definition getTransactionParams_do :: "network \<Rightarrow> algod_client \<Rightarrow> suggested_params io" where
  "getTransactionParams_do net client =
     external (GetTransactionParams client) (node_getTransactionParams (net client))"

definition sendRawTransaction_do :: "network \<Rightarrow> algod_client \<Rightarrow> raw \<Rightarrow> string io" where
  "sendRawTransaction_do net client stxn =
     external (SendRawTransaction client stxn) (\<lambda>tr. node_sendRawTransaction (net client) tr stxn)"

definition algosdk_waitForConfirmation ::
    "network \<Rightarrow> algod_client \<Rightarrow> string \<Rightarrow> int \<Rightarrow> confirmation io" where
  "algosdk_waitForConfirmation net client txId rounds =
     external (WaitForConfirmation client txId rounds)
       (\<lambda>tr. node_waitForConfirmation (net client) tr txId rounds)"

definition compile_do :: "network \<Rightarrow> algod_client \<Rightarrow> string \<Rightarrow> compile_response io" where
  "compile_do net client src =
     external (Compile client src) (\<lambda>tr. node_compile (net client) tr src)"

definition getApplicationByID_do :: "network \<Rightarrow> algod_client \<Rightarrow> int \<Rightarrow> application io" where
  "getApplicationByID_do net client appId =
     external (GetApplicationByID client appId) (\<lambda>tr. node_getApplicationByID (net client) tr appId)"

definition accountInformation_do :: "network \<Rightarrow> algod_client \<Rightarrow> string \<Rightarrow> account_info io" where
  "accountInformation_do net client a =
     external (AccountInformation client a) (\<lambda>tr. node_accountInformation (net client) tr a)"

definition atc_execute :: "network \<Rightarrow> composer \<Rightarrow> algod_client \<Rightarrow> int \<Rightarrow> atc_result io" where
  "atc_execute net atc client rounds =
     external (AtcExecute client atc rounds) (\<lambda>tr. node_execute (net client) tr atc rounds)"

section \<open>Account management (the account examples file)\<close>

text \<open>
  \<^verbatim>\<open>new algosdk.Algodv2('', 'https://testnet-api.algonode.cloud', '')\<close>: the client every
  function builds, through \<^verbatim>\<open>getAlgodClient()\<close> (defined alike in three files) or inline.
\<close>

definition getAlgodClient :: algod_client where
  "getAlgodClient =
     \<lparr>client_token = '''', client_server = ''https://testnet-api.algonode.cloud'', client_port = ''''\<rparr>"

definition getIndexerClient :: algod_client where
  "getIndexerClient =
     \<lparr>client_token = '''', client_server = ''https://testnet-idx.algonode.cloud'', client_port = ''''\<rparr>"

definition generateAccount :: "algosdk \<Rightarrow> (account \<times> string) io" where
  "generateAccount sdk =
     and_then (algosdk_generateAccount sdk) (\<lambda>account.
     and_then (console_log ''Generated Account Address:'' [ShownText (toString (addr account))]) (\<lambda>_.
     and_then (algosdk_secretKeyToMnemonic sdk (sk account)) (\<lambda>mnemonic.
     and_then (console_log ''Account Mnemonic:'' [ShownText mnemonic]) (\<lambda>_.
     done_with (account, mnemonic)))))"

definition recoverAccount :: "algosdk \<Rightarrow> string \<Rightarrow> account io" where
  "recoverAccount sdk mnemonic =
     and_then (algosdk_mnemonicToSecretKey sdk mnemonic) (\<lambda>recoveredAccount.
     and_then (console_log ''Recovered Account Address:'' [ShownText (toString (addr recoveredAccount))]) (\<lambda>_.
     done_with recoveredAccount))"

definition createMultisigAccount ::
    "algosdk \<Rightarrow> addr_arg list \<Rightarrow> int \<Rightarrow> (msig_params \<times> address) io" where
  "createMultisigAccount sdk addresses threshold =
     (let multisigParams = \<lparr>msig_version = 1, msig_threshold = threshold, msig_addrs = addresses\<rparr> in
      and_then (algosdk_multisigAddress sdk multisigParams) (\<lambda>multisigAddress.
      and_then (console_log ''Multisig Address:'' [ShownText (toString multisigAddress)]) (\<lambda>_.
      done_with (multisigParams, multisigAddress))))"

text \<open>\<^verbatim>\<open>xs.forEach(f)\<close>.\<close>

fun for_each :: "('a \<Rightarrow> unit io) \<Rightarrow> 'a list \<Rightarrow> unit io" where
  "for_each f [] = done_with ()"
| "for_each f (x # xs) = and_then (f x) (\<lambda>_. for_each f xs)"

definition checkAccountInfo :: "network \<Rightarrow> string \<Rightarrow> account_info io" where
  "checkAccountInfo net address =
     try_catch
       (let algodClient = getAlgodClient in
        and_then (accountInformation_do net algodClient address) (\<lambda>accountInfo.
        and_then (console_log ''Account Balance:'' [ShownNumber (ai_amount accountInfo), ShownText ''microAlgos'']) (\<lambda>_.
        and_then (console_log ''Account Status:'' [ShownText (ai_status accountInfo)]) (\<lambda>_.
        and_then (case ai_assets accountInfo of
                    None \<Rightarrow> done_with ()
                  | Some assets \<Rightarrow>
                      if length assets > 0 then
                        and_then (console_log ''Account Assets:'' []) (\<lambda>_.
                        for_each (\<lambda>asset. console_log ''- Asset ID: ${asset['asset-id']}, Amount: ${asset.amount}''
                                    [ShownNumber (holding_asset_id asset), ShownNumber (holding_amount asset)]) assets)
                      else done_with ()) (\<lambda>_.
        and_then (case ai_created_apps accountInfo of
                    None \<Rightarrow> done_with ()
                  | Some apps \<Rightarrow>
                      if length apps > 0 then
                        console_log ''Created Applications:'' [ShownNumber (int (length apps))]
                      else done_with ()) (\<lambda>_.
        done_with accountInfo))))))
       (\<lambda>error. and_then (console_error ''Error checking account info:'' error) (\<lambda>_. raise error))"

text \<open>
  The round a confirmation record shows: \<^verbatim>\<open>confirmedTxn.confirmedRound\<close>, possibly
  \<^verbatim>\<open>undefined\<close>.
\<close>

definition shown_opt :: "int option \<Rightarrow> shown" where
  "shown_opt n = (case n of None \<Rightarrow> ShownUndefined | Some k \<Rightarrow> ShownNumber k)"

definition rekeyAccount :: "algosdk \<Rightarrow> network \<Rightarrow> account \<Rightarrow> account \<Rightarrow> confirmation io" where
  "rekeyAccount sdk net account authAccount =
     try_catch
       (let algodClient = getAlgodClient in
        and_then (getTransactionParams_do net algodClient) (\<lambda>suggestedParams.
        and_then (algosdk_makeTxn sdk (PaymentTxn
                    \<lparr>pay_sender = AddrObject (addr account),
                     pay_receiver = AddrObject (addr account),
                     pay_amount = 0,
                     pay_note = None,
                     pay_rekeyTo = Some (AddrObject (addr authAccount)),
                     pay_lease = None,
                     pay_suggestedParams = suggestedParams\<rparr>)) (\<lambda>txn.
        and_then (signTxn sdk txn (sk account)) (\<lambda>signedTxn.
        and_then (sendRawTransaction_do net algodClient (OneTxn signedTxn)) (\<lambda>txId.
        and_then (console_log ''Rekey Transaction ID:'' [ShownText txId]) (\<lambda>_.
        and_then (algosdk_waitForConfirmation net algodClient txId 5) (\<lambda>confirmedTxn.
        and_then (console_log ''Rekey transaction confirmed in round:'' [shown_opt (confirmedRound confirmedTxn)]) (\<lambda>_.
        and_then (console_log ''Account ${account.addr.toString()} has been rekeyed to ${authAccount.addr.toString()}''
                    [ShownText (toString (addr account)), ShownText (toString (addr authAccount))]) (\<lambda>_.
        done_with confirmedTxn)))))))))
       (\<lambda>error. and_then (console_error ''Error rekeying account:'' error) (\<lambda>_. raise error))"

definition sendWithRekeyedAccount ::
    "algosdk \<Rightarrow> network \<Rightarrow> account \<Rightarrow> account \<Rightarrow> string \<Rightarrow> int \<Rightarrow> confirmation io" where
  "sendWithRekeyedAccount sdk net originalAccount authAccount receiverAddress amount =
     try_catch
       (let algodClient = getAlgodClient in
        and_then (getTransactionParams_do net algodClient) (\<lambda>suggestedParams.
        and_then (algosdk_makeTxn sdk (PaymentTxn
                    \<lparr>pay_sender = AddrObject (addr originalAccount),
                     pay_receiver = AddrText receiverAddress,
                     pay_amount = amount,
                     pay_note = None,
                     pay_rekeyTo = None,
                     pay_lease = None,
                     pay_suggestedParams = suggestedParams\<rparr>)) (\<lambda>txn.
        and_then (signTxn sdk txn (sk authAccount)) (\<lambda>signedTxn.
        and_then (sendRawTransaction_do net algodClient (OneTxn signedTxn)) (\<lambda>txId.
        and_then (console_log ''Transaction ID:'' [ShownText txId]) (\<lambda>_.
        and_then (algosdk_waitForConfirmation net algodClient txId 5) (\<lambda>confirmedTxn.
        and_then (console_log ''Transaction confirmed in round:'' [shown_opt (confirmedRound confirmedTxn)]) (\<lambda>_.
        done_with confirmedTxn))))))))
       (\<lambda>error. and_then (console_error ''Error sending with rekeyed account:'' error) (\<lambda>_. raise error))"

text \<open>
  The driver of the file. Its body past the multisig example is commented out in the
  source. Its \<^verbatim>\<open>catch\<close> logs and does not throw again.
\<close>

definition runAccountExamples :: "algosdk \<Rightarrow> unit io" where
  "runAccountExamples sdk =
     try_catch
       (and_then (console_log ''===== ALGORAND ACCOUNT MANAGEMENT EXAMPLES ====='' []) (\<lambda>_.
        and_then (console_log (CHR 0x0A # ''----- Generating Accounts -----'') []) (\<lambda>_.
        and_then (generateAccount sdk) (\<lambda>(account1, mnemonic1).
        and_then (generateAccount sdk) (\<lambda>(account2, _).
        and_then (generateAccount sdk) (\<lambda>(account3, _).
        and_then (console_log (CHR 0x0A # ''----- Recovering Account -----'') []) (\<lambda>_.
        and_then (recoverAccount sdk mnemonic1) (\<lambda>recoveredAccount.
        and_then (console_log ''Account recovery successful:''
                    [ShownBoolean (toString (addr account1) = toString (addr recoveredAccount))]) (\<lambda>_.
        and_then (console_log (CHR 0x0A # ''----- Creating Multisig Account -----'') []) (\<lambda>_.
        and_then (createMultisigAccount sdk
                    [AddrObject (addr account1), AddrObject (addr account2), AddrObject (addr account3)] 2) (\<lambda>_.
        and_then (console_log (CHR 0x0A # ''The following examples require funded accounts on TestNet and won't execute successfully without them.'') []) (\<lambda>_.
        and_then (console_log ''To fund test accounts, use the Algorand TestNet faucet: https://bank.testnet.algorand.network/'' []) (\<lambda>_.
        console_log (CHR 0x0A # ''===== ACCOUNT EXAMPLES COMPLETE ====='') [])))))))))))))
       (\<lambda>error. console_error ''Error running account examples:'' error)"

section \<open>Transaction operations (the transaction operations file)\<close>

text \<open>\<^verbatim>\<open>typeof x === 'string' ? x : x.addr.toString()\<close>, written out in most of the functions.\<close>

definition address_string :: "party \<Rightarrow> string" where
  "address_string p = (case p of PartyText s \<Rightarrow> s | PartyAccount a \<Rightarrow> toString (addr a))"

text \<open>
  \<^verbatim>\<open>x ? (typeof x === 'string' ? x : x.addr.toString()) : undefined\<close>: an omitted argument
  and the empty string are falsy, an account object is truthy.
\<close>

definition address_string_or_undefined :: "party option \<Rightarrow> addr_arg option" where
  "address_string_or_undefined x =
     (case x of
        None \<Rightarrow> None
      | Some (PartyText s) \<Rightarrow> (if s = [] then None else Some (AddrText s))
      | Some (PartyAccount a) \<Rightarrow> Some (AddrText (toString (addr a))))"

definition sendPayment ::
    "algosdk \<Rightarrow> network \<Rightarrow> account \<Rightarrow> party \<Rightarrow> int \<Rightarrow> string option \<Rightarrow> confirmation io" where
  "sendPayment sdk net sender receiver amount note_arg =
     (let note = (case note_arg of None \<Rightarrow> '''' | Some s \<Rightarrow> s) in
      try_catch
        (let algodClient = getAlgodClient in
         and_then (getTransactionParams_do net algodClient) (\<lambda>suggestedParams.
         let receiverAddress = address_string receiver in
         and_then (algosdk_makeTxn sdk (PaymentTxn
                     \<lparr>pay_sender = AddrObject (addr sender),
                      pay_receiver = AddrText receiverAddress,
                      pay_amount = amount,
                      pay_note = (if note \<noteq> [] then Some (TextEncoder_encode sdk note) else None),
                      pay_rekeyTo = None,
                      pay_lease = None,
                      pay_suggestedParams = suggestedParams\<rparr>)) (\<lambda>txn.
         and_then (signTxn sdk txn (sk sender)) (\<lambda>signedTxn.
         and_then (sendRawTransaction_do net algodClient (OneTxn signedTxn)) (\<lambda>txId.
         and_then (console_log ''Payment Transaction ID:'' [ShownText txId]) (\<lambda>_.
         and_then (algosdk_waitForConfirmation net algodClient txId 5) (\<lambda>confirmedTxn.
         and_then (console_log ''Transaction confirmed in round:'' [shown_opt (confirmedRound confirmedTxn)]) (\<lambda>_.
         done_with confirmedTxn))))))))
        (\<lambda>error. and_then (console_error ''Error sending payment:'' error) (\<lambda>_. raise error)))"

definition createAsset ::
    "algosdk \<Rightarrow> network \<Rightarrow> account \<Rightarrow> string \<Rightarrow> string \<Rightarrow> int \<Rightarrow> int \<Rightarrow> string option \<Rightarrow> bytes option
      \<Rightarrow> int option io" where
  "createAsset sdk net creator assetName unitName totalIssuance decimals url_arg metadataHash =
     (let url = (case url_arg of None \<Rightarrow> '''' | Some s \<Rightarrow> s) in
      try_catch
        (let algodClient = getAlgodClient in
         and_then (getTransactionParams_do net algodClient) (\<lambda>suggestedParams.
         and_then (algosdk_makeTxn sdk (AssetCreateTxn
                     \<lparr>ac_sender = AddrObject (addr creator),
                      ac_total = totalIssuance,
                      ac_decimals = decimals,
                      ac_defaultFrozen = False,
                      ac_manager = AddrObject (addr creator),
                      ac_reserve = AddrObject (addr creator),
                      ac_freeze = AddrObject (addr creator),
                      ac_clawback = AddrObject (addr creator),
                      ac_unitName = unitName,
                      ac_assetName = assetName,
                      ac_assetURL = url,
                      ac_assetMetadataHash = metadataHash,
                      ac_suggestedParams = suggestedParams\<rparr>)) (\<lambda>txn.
         and_then (signTxn sdk txn (sk creator)) (\<lambda>signedTxn.
         and_then (sendRawTransaction_do net algodClient (OneTxn signedTxn)) (\<lambda>txId.
         and_then (console_log ''Asset Creation Transaction ID:'' [ShownText txId]) (\<lambda>_.
         and_then (algosdk_waitForConfirmation net algodClient txId 5) (\<lambda>confirmedTxn.
         and_then (console_log ''Asset created in round:'' [shown_opt (confirmedRound confirmedTxn)]) (\<lambda>_.
         let assetId = assetIndex confirmedTxn in
         and_then (console_log ''Asset ID:'' [shown_opt assetId]) (\<lambda>_.
         done_with assetId)))))))))
        (\<lambda>error. and_then (console_error ''Error creating asset:'' error) (\<lambda>_. raise error)))"

definition configureAsset ::
    "algosdk \<Rightarrow> network \<Rightarrow> account \<Rightarrow> int \<Rightarrow> party option \<Rightarrow> party option \<Rightarrow> party option \<Rightarrow> party option
      \<Rightarrow> confirmation io" where
  "configureAsset sdk net manager assetId newManager newReserve newFreeze newClawback =
     try_catch
       (let algodClient = getAlgodClient in
        and_then (getTransactionParams_do net algodClient) (\<lambda>suggestedParams.
        let managerAddr = address_string_or_undefined newManager;
            reserveAddr = address_string_or_undefined newReserve;
            freezeAddr = address_string_or_undefined newFreeze;
            clawbackAddr = address_string_or_undefined newClawback in
        and_then (algosdk_makeTxn sdk (AssetConfigTxn
                    \<lparr>cfg_sender = AddrObject (addr manager),
                     cfg_assetIndex = assetId,
                     cfg_manager = managerAddr,
                     cfg_reserve = reserveAddr,
                     cfg_freeze = freezeAddr,
                     cfg_clawback = clawbackAddr,
                     cfg_strictEmptyAddressChecking = False,
                     cfg_suggestedParams = suggestedParams\<rparr>)) (\<lambda>txn.
        and_then (signTxn sdk txn (sk manager)) (\<lambda>signedTxn.
        and_then (sendRawTransaction_do net algodClient (OneTxn signedTxn)) (\<lambda>txId.
        and_then (console_log ''Asset Configuration Transaction ID:'' [ShownText txId]) (\<lambda>_.
        and_then (algosdk_waitForConfirmation net algodClient txId 5) (\<lambda>confirmedTxn.
        and_then (console_log ''Asset configuration updated in round:'' [shown_opt (confirmedRound confirmedTxn)]) (\<lambda>_.
        done_with confirmedTxn))))))))
       (\<lambda>error. and_then (console_error ''Error configuring asset:'' error) (\<lambda>_. raise error))"

definition optInToAsset :: "algosdk \<Rightarrow> network \<Rightarrow> account \<Rightarrow> int \<Rightarrow> confirmation io" where
  "optInToAsset sdk net account assetId =
     try_catch
       (let algodClient = getAlgodClient in
        and_then (getTransactionParams_do net algodClient) (\<lambda>suggestedParams.
        and_then (algosdk_makeTxn sdk (AssetTransferTxn
                    \<lparr>xfer_sender = AddrObject (addr account),
                     xfer_receiver = AddrObject (addr account),
                     xfer_assetSender = None,
                     xfer_amount = 0,
                     xfer_assetIndex = assetId,
                     xfer_suggestedParams = suggestedParams\<rparr>)) (\<lambda>txn.
        and_then (signTxn sdk txn (sk account)) (\<lambda>signedTxn.
        and_then (sendRawTransaction_do net algodClient (OneTxn signedTxn)) (\<lambda>txId.
        and_then (console_log ''Opt-in Transaction ID:'' [ShownText txId]) (\<lambda>_.
        and_then (algosdk_waitForConfirmation net algodClient txId 5) (\<lambda>confirmedTxn.
        and_then (console_log ''Opt-in confirmed in round:'' [shown_opt (confirmedRound confirmedTxn)]) (\<lambda>_.
        done_with confirmedTxn))))))))
       (\<lambda>error. and_then (console_error ''Error opting in to asset:'' error) (\<lambda>_. raise error))"

definition transferAsset ::
    "algosdk \<Rightarrow> network \<Rightarrow> account \<Rightarrow> party \<Rightarrow> int \<Rightarrow> int \<Rightarrow> confirmation io" where
  "transferAsset sdk net sender receiver assetId amount =
     try_catch
       (let algodClient = getAlgodClient in
        and_then (getTransactionParams_do net algodClient) (\<lambda>suggestedParams.
        let receiverAddress = address_string receiver in
        and_then (algosdk_makeTxn sdk (AssetTransferTxn
                    \<lparr>xfer_sender = AddrObject (addr sender),
                     xfer_receiver = AddrText receiverAddress,
                     xfer_assetSender = None,
                     xfer_amount = amount,
                     xfer_assetIndex = assetId,
                     xfer_suggestedParams = suggestedParams\<rparr>)) (\<lambda>txn.
        and_then (signTxn sdk txn (sk sender)) (\<lambda>signedTxn.
        and_then (sendRawTransaction_do net algodClient (OneTxn signedTxn)) (\<lambda>txId.
        and_then (console_log ''Asset Transfer Transaction ID:'' [ShownText txId]) (\<lambda>_.
        and_then (algosdk_waitForConfirmation net algodClient txId 5) (\<lambda>confirmedTxn.
        and_then (console_log ''Asset transfer confirmed in round:'' [shown_opt (confirmedRound confirmedTxn)]) (\<lambda>_.
        done_with confirmedTxn))))))))
       (\<lambda>error. and_then (console_error ''Error transferring asset:'' error) (\<lambda>_. raise error))"

definition freezeAsset ::
    "algosdk \<Rightarrow> network \<Rightarrow> account \<Rightarrow> party \<Rightarrow> int \<Rightarrow> bool \<Rightarrow> confirmation io" where
  "freezeAsset sdk net freezeManager accountToFreeze assetId freeze =
     try_catch
       (let algodClient = getAlgodClient in
        and_then (getTransactionParams_do net algodClient) (\<lambda>suggestedParams.
        let accountAddress = address_string accountToFreeze in
        and_then (algosdk_makeTxn sdk (AssetFreezeTxn
                    \<lparr>frz_sender = AddrObject (addr freezeManager),
                     frz_freezeTarget = AddrText accountAddress,
                     frz_assetIndex = assetId,
                     frz_frozen = freeze,
                     frz_suggestedParams = suggestedParams\<rparr>)) (\<lambda>txn.
        and_then (signTxn sdk txn (sk freezeManager)) (\<lambda>signedTxn.
        and_then (sendRawTransaction_do net algodClient (OneTxn signedTxn)) (\<lambda>txId.
        and_then (console_log ''Asset Freeze Transaction ID:'' [ShownText txId]) (\<lambda>_.
        and_then (algosdk_waitForConfirmation net algodClient txId 5) (\<lambda>confirmedTxn.
        and_then (console_log ''Asset freeze operation confirmed in round:'' [shown_opt (confirmedRound confirmedTxn)]) (\<lambda>_.
        done_with confirmedTxn))))))))
       (\<lambda>error. and_then (console_error ''Error freezing asset:'' error) (\<lambda>_. raise error))"

definition revokeAsset ::
    "algosdk \<Rightarrow> network \<Rightarrow> account \<Rightarrow> party \<Rightarrow> party \<Rightarrow> int \<Rightarrow> int \<Rightarrow> confirmation io" where
  "revokeAsset sdk net clawbackManager revokeFrom revokeTo assetId amount =
     try_catch
       (let algodClient = getAlgodClient in
        and_then (getTransactionParams_do net algodClient) (\<lambda>suggestedParams.
        let revokeFromAddress = address_string revokeFrom;
            revokeToAddress = address_string revokeTo in
        and_then (algosdk_makeTxn sdk (AssetTransferTxn
                    \<lparr>xfer_sender = AddrObject (addr clawbackManager),
                     xfer_receiver = AddrText revokeToAddress,
                     xfer_assetSender = Some (AddrText revokeFromAddress),
                     xfer_amount = amount,
                     xfer_assetIndex = assetId,
                     xfer_suggestedParams = suggestedParams\<rparr>)) (\<lambda>txn.
        and_then (signTxn sdk txn (sk clawbackManager)) (\<lambda>signedTxn.
        and_then (sendRawTransaction_do net algodClient (OneTxn signedTxn)) (\<lambda>txId.
        and_then (console_log ''Asset Revoke Transaction ID:'' [ShownText txId]) (\<lambda>_.
        and_then (algosdk_waitForConfirmation net algodClient txId 5) (\<lambda>confirmedTxn.
        and_then (console_log ''Asset revoke operation confirmed in round:'' [shown_opt (confirmedRound confirmedTxn)]) (\<lambda>_.
        done_with confirmedTxn))))))))
       (\<lambda>error. and_then (console_error ''Error revoking asset:'' error) (\<lambda>_. raise error))"

definition destroyAsset :: "algosdk \<Rightarrow> network \<Rightarrow> account \<Rightarrow> int \<Rightarrow> confirmation io" where
  "destroyAsset sdk net manager assetId =
     try_catch
       (let algodClient = getAlgodClient in
        and_then (getTransactionParams_do net algodClient) (\<lambda>suggestedParams.
        and_then (algosdk_makeTxn sdk (AssetDestroyTxn
                    \<lparr>des_sender = AddrObject (addr manager),
                     des_assetIndex = assetId,
                     des_suggestedParams = suggestedParams\<rparr>)) (\<lambda>txn.
        and_then (signTxn sdk txn (sk manager)) (\<lambda>signedTxn.
        and_then (sendRawTransaction_do net algodClient (OneTxn signedTxn)) (\<lambda>txId.
        and_then (console_log ''Asset Destroy Transaction ID:'' [ShownText txId]) (\<lambda>_.
        and_then (algosdk_waitForConfirmation net algodClient txId 5) (\<lambda>confirmedTxn.
        and_then (console_log ''Asset destroyed in round:'' [shown_opt (confirmedRound confirmedTxn)]) (\<lambda>_.
        done_with confirmedTxn))))))))
       (\<lambda>error. and_then (console_error ''Error destroying asset:'' error) (\<lambda>_. raise error))"

text \<open>A non-negative integer in decimal, as a template literal prints it.\<close>

fun decimal :: "nat \<Rightarrow> string" where
  "decimal n = (if n < 10 then [char_of (48 + n)] else decimal (n div 10) @ [char_of (48 + n mod 10)])"

declare decimal.simps [simp del]

text \<open>\<^verbatim>\<open>xs.map((x, index) => ...)\<close>: each element with its index.\<close>

definition with_index :: "'a list \<Rightarrow> ('a \<times> nat) list" where
  "with_index xs = zip xs [0 ..< length xs]"

text \<open>
  \<^verbatim>\<open>algosdk.assignGroupID(txns)\<close> changes the transaction objects of the array in place, and
  the source goes on with the same array: \<open>created\<close> is the array before the call,
  \<open>txns\<close> the same array after it.
\<close>

definition sendAtomicTransactions ::
    "algosdk \<Rightarrow> network \<Rightarrow> account \<Rightarrow> party list \<Rightarrow> int \<Rightarrow> confirmation io" where
  "sendAtomicTransactions sdk net sender receivers amount =
     try_catch
       (let algodClient = getAlgodClient in
        and_then (getTransactionParams_do net algodClient) (\<lambda>suggestedParams.
        and_then (map_io (\<lambda>(receiver, index).
                    algosdk_makeTxn sdk (PaymentTxn
                      \<lparr>pay_sender = AddrObject (addr sender),
                       pay_receiver = (case receiver of PartyText s \<Rightarrow> AddrText s
                                       | PartyAccount a \<Rightarrow> AddrObject (addr a)),
                       pay_amount = amount,
                       pay_note = Some (TextEncoder_encode sdk
                                          (''Payment '' @ decimal (index + 1) @ '' in atomic group'')),
                       pay_rekeyTo = None,
                       pay_lease = None,
                       pay_suggestedParams = suggestedParams\<rparr>))
                    (with_index receivers)) (\<lambda>created.
        and_then (algosdk_assignGroupID sdk created) (\<lambda>txns.
        and_then (map_io (\<lambda>txn. signTxn sdk txn (sk sender)) txns) (\<lambda>signedTxns.
        and_then (sendRawTransaction_do net algodClient (TxnGroup signedTxns)) (\<lambda>txId.
        and_then (console_log ''Atomic Transaction Group ID:'' [ShownText txId]) (\<lambda>_.
        and_then (algosdk_waitForConfirmation net algodClient txId 5) (\<lambda>confirmedTxn.
        and_then (console_log ''Atomic transactions confirmed in round:'' [shown_opt (confirmedRound confirmedTxn)]) (\<lambda>_.
        done_with confirmedTxn)))))))))
       (\<lambda>error. and_then (console_error ''Error sending atomic transactions:'' error) (\<lambda>_. raise error))"

definition sendTransactionWithLease ::
    "algosdk \<Rightarrow> network \<Rightarrow> account \<Rightarrow> party \<Rightarrow> int \<Rightarrow> bytes \<Rightarrow> confirmation io" where
  "sendTransactionWithLease sdk net sender receiver amount lease =
     try_catch
       (let algodClient = getAlgodClient in
        and_then (getTransactionParams_do net algodClient) (\<lambda>suggestedParams.
        let receiverAddress = address_string receiver in
        and_then (algosdk_makeTxn sdk (PaymentTxn
                    \<lparr>pay_sender = AddrObject (addr sender),
                     pay_receiver = AddrText receiverAddress,
                     pay_amount = amount,
                     pay_note = None,
                     pay_rekeyTo = None,
                     pay_lease = Some lease,
                     pay_suggestedParams = suggestedParams\<rparr>)) (\<lambda>txn.
        and_then (signTxn sdk txn (sk sender)) (\<lambda>signedTxn.
        and_then (sendRawTransaction_do net algodClient (OneTxn signedTxn)) (\<lambda>txId.
        and_then (console_log ''Transaction with Lease ID:'' [ShownText txId]) (\<lambda>_.
        and_then (algosdk_waitForConfirmation net algodClient txId 5) (\<lambda>confirmedTxn.
        and_then (console_log ''Transaction confirmed in round:'' [shown_opt (confirmedRound confirmedTxn)]) (\<lambda>_.
        done_with confirmedTxn))))))))
       (\<lambda>error. and_then (console_error ''Error sending transaction with lease:'' error) (\<lambda>_. raise error))"

definition runTransactionExamples :: "algosdk \<Rightarrow> unit io" where
  "runTransactionExamples sdk =
     try_catch
       (and_then (console_log ''===== ALGORAND TRANSACTION EXAMPLES ====='' []) (\<lambda>_.
        and_then (algosdk_generateAccount sdk) (\<lambda>account1.
        and_then (algosdk_generateAccount sdk) (\<lambda>account2.
        and_then (algosdk_generateAccount sdk) (\<lambda>account3.
        and_then (console_log ''Account 1:'' [ShownText (toString (addr account1))]) (\<lambda>_.
        and_then (console_log ''Account 2:'' [ShownText (toString (addr account2))]) (\<lambda>_.
        and_then (console_log ''Account 3:'' [ShownText (toString (addr account3))]) (\<lambda>_.
        and_then (console_log (CHR 0x0A # ''The following examples require funded accounts on TestNet and won't execute successfully without them.'') []) (\<lambda>_.
        and_then (console_log ''To fund test accounts, use the Algorand TestNet faucet: https://bank.testnet.algorand.network/'' []) (\<lambda>_.
        console_log (CHR 0x0A # ''===== TRANSACTION EXAMPLES COMPLETE ====='') []))))))))))
       (\<lambda>error. console_error ''Error running transaction examples:'' error)"

section \<open>Smart contracts (the smart contracts file)\<close>

definition compileProgram :: "algosdk \<Rightarrow> network \<Rightarrow> string \<Rightarrow> bytes io" where
  "compileProgram sdk net programSource =
     try_catch
       (let algodClient = getAlgodClient in
        and_then (compile_do net algodClient programSource) (\<lambda>compiledProgram.
        and_then (console_log ''Program compiled successfully'' []) (\<lambda>_.
        let programBytes = Buffer_from_base64 sdk (compiled_result compiledProgram) in
        done_with programBytes)))
       (\<lambda>error. and_then (console_error ''Error compiling program:'' error) (\<lambda>_. raise error))"

text \<open>A parameter with the default value \<^verbatim>\<open>[]\<close>.\<close>

definition or_empty :: "'a list option \<Rightarrow> 'a list" where
  "or_empty xs = (case xs of None \<Rightarrow> [] | Some ys \<Rightarrow> ys)"

definition createLogicSignature ::
    "algosdk \<Rightarrow> network \<Rightarrow> string \<Rightarrow> bytes list option \<Rightarrow> lsig_account io" where
  "createLogicSignature sdk net programSource args_arg =
     (let args = or_empty args_arg in
      try_catch
        (and_then (compileProgram sdk net programSource) (\<lambda>programBytes.
         and_then (algosdk_LogicSigAccount sdk programBytes (Some args)) (\<lambda>logicSigAccount.
         and_then (console_log ''LogicSig Address:''
                     [ShownText (toString (sdk_lsig_address sdk logicSigAccount))]) (\<lambda>_.
         done_with logicSigAccount))))
        (\<lambda>error. and_then (console_error ''Error creating logic signature:'' error) (\<lambda>_. raise error)))"

text \<open>
  \<^verbatim>\<open>logicSigAccount.sign(sk)\<close> changes the object in place; \<open>signedAccount\<close> is the same
  object after the call.
\<close>

definition createDelegatedLogicSignature ::
    "algosdk \<Rightarrow> network \<Rightarrow> string \<Rightarrow> account \<Rightarrow> bytes list option \<Rightarrow> lsig_account io" where
  "createDelegatedLogicSignature sdk net programSource delegatingAccount args_arg =
     (let args = or_empty args_arg in
      try_catch
        (and_then (compileProgram sdk net programSource) (\<lambda>programBytes.
         and_then (algosdk_LogicSigAccount sdk programBytes (Some args)) (\<lambda>logicSigAccount.
         and_then (lsig_sign sdk logicSigAccount (sk delegatingAccount)) (\<lambda>signedAccount.
         and_then (console_log ''Delegated LogicSig created for account:''
                     [ShownText (toString (addr delegatingAccount))]) (\<lambda>_.
         done_with signedAccount)))))
        (\<lambda>error. and_then (console_error ''Error creating delegated logic signature:'' error) (\<lambda>_. raise error)))"

definition sendWithLogicSignature ::
    "algosdk \<Rightarrow> network \<Rightarrow> lsig_account \<Rightarrow> party \<Rightarrow> int \<Rightarrow> confirmation io" where
  "sendWithLogicSignature sdk net logicSigAccount receiver amount =
     try_catch
       (let algodClient = getAlgodClient in
        and_then (getTransactionParams_do net algodClient) (\<lambda>suggestedParams.
        let receiverAddress = address_string receiver in
        and_then (algosdk_makeTxn sdk (PaymentTxn
                    \<lparr>pay_sender = AddrText (toString (sdk_lsig_address sdk logicSigAccount)),
                     pay_receiver = AddrText receiverAddress,
                     pay_amount = amount,
                     pay_note = None,
                     pay_rekeyTo = None,
                     pay_lease = None,
                     pay_suggestedParams = suggestedParams\<rparr>)) (\<lambda>txn.
        and_then (algosdk_signLogicSigTransaction sdk txn logicSigAccount) (\<lambda>signedTxn.
        and_then (sendRawTransaction_do net algodClient (OneTxn (blob signedTxn))) (\<lambda>txId.
        and_then (console_log ''LogicSig Transaction ID:'' [ShownText txId]) (\<lambda>_.
        and_then (algosdk_waitForConfirmation net algodClient txId 5) (\<lambda>confirmedTxn.
        and_then (console_log ''LogicSig transaction confirmed in round:'' [shown_opt (confirmedRound confirmedTxn)]) (\<lambda>_.
        done_with confirmedTxn))))))))
       (\<lambda>error. and_then (console_error ''Error sending with LogicSig:'' error) (\<lambda>_. raise error))"

text \<open>A parameter with the default value \<^verbatim>\<open>1\<close>.\<close>

definition or_one :: "int option \<Rightarrow> int" where
  "or_one n = (case n of None \<Rightarrow> 1 | Some k \<Rightarrow> k)"

definition createApplication ::
    "algosdk \<Rightarrow> network \<Rightarrow> account \<Rightarrow> string \<Rightarrow> string \<Rightarrow> int option \<Rightarrow> int option \<Rightarrow> int option \<Rightarrow> int option
      \<Rightarrow> int option io" where
  "createApplication sdk net creator approvalProgram clearProgram globalInts_arg globalBytes_arg
       localInts_arg localBytes_arg =
     (let globalInts = or_one globalInts_arg; globalBytes = or_one globalBytes_arg;
          localInts = or_one localInts_arg; localBytes = or_one localBytes_arg in
      try_catch
        (let algodClient = getAlgodClient in
         and_then (compileProgram sdk net approvalProgram) (\<lambda>compiledApprovalProgram.
         and_then (compileProgram sdk net clearProgram) (\<lambda>compiledClearProgram.
         and_then (getTransactionParams_do net algodClient) (\<lambda>suggestedParams.
         and_then (algosdk_makeTxn sdk (ApplicationCreateTxn
                     \<lparr>apc_sender = AddrObject (addr creator),
                      apc_suggestedParams = suggestedParams,
                      apc_onComplete = NoOpOC,
                      apc_approvalProgram = compiledApprovalProgram,
                      apc_clearProgram = compiledClearProgram,
                      apc_numGlobalByteSlices = globalBytes,
                      apc_numGlobalInts = globalInts,
                      apc_numLocalByteSlices = localBytes,
                      apc_numLocalInts = localInts\<rparr>)) (\<lambda>txn.
         and_then (signTxn sdk txn (sk creator)) (\<lambda>signedTxn.
         and_then (sendRawTransaction_do net algodClient (OneTxn signedTxn)) (\<lambda>txId.
         and_then (console_log ''Application Creation Transaction ID:'' [ShownText txId]) (\<lambda>_.
         and_then (algosdk_waitForConfirmation net algodClient txId 5) (\<lambda>confirmedTxn.
         and_then (console_log ''Application created in round:'' [shown_opt (confirmedRound confirmedTxn)]) (\<lambda>_.
         let appId = applicationIndex confirmedTxn in
         and_then (console_log ''Application ID:'' [shown_opt appId]) (\<lambda>_.
         done_with appId)))))))))))
        (\<lambda>error. and_then (console_error ''Error creating application:'' error) (\<lambda>_. raise error)))"

definition updateApplication ::
    "algosdk \<Rightarrow> network \<Rightarrow> account \<Rightarrow> int \<Rightarrow> string \<Rightarrow> string \<Rightarrow> confirmation io" where
  "updateApplication sdk net creator appId approvalProgram clearProgram =
     try_catch
       (let algodClient = getAlgodClient in
        and_then (compileProgram sdk net approvalProgram) (\<lambda>compiledApprovalProgram.
        and_then (compileProgram sdk net clearProgram) (\<lambda>compiledClearProgram.
        and_then (getTransactionParams_do net algodClient) (\<lambda>suggestedParams.
        and_then (algosdk_makeTxn sdk (ApplicationUpdateTxn
                    \<lparr>apu_sender = AddrObject (addr creator),
                     apu_suggestedParams = suggestedParams,
                     apu_appIndex = appId,
                     apu_approvalProgram = compiledApprovalProgram,
                     apu_clearProgram = compiledClearProgram\<rparr>)) (\<lambda>txn.
        and_then (signTxn sdk txn (sk creator)) (\<lambda>signedTxn.
        and_then (sendRawTransaction_do net algodClient (OneTxn signedTxn)) (\<lambda>txId.
        and_then (console_log ''Application Update Transaction ID:'' [ShownText txId]) (\<lambda>_.
        and_then (algosdk_waitForConfirmation net algodClient txId 5) (\<lambda>confirmedTxn.
        and_then (console_log ''Application updated in round:'' [shown_opt (confirmedRound confirmedTxn)]) (\<lambda>_.
        done_with confirmedTxn))))))))))
       (\<lambda>error. and_then (console_error ''Error updating application:'' error) (\<lambda>_. raise error))"

definition optInToApplication :: "algosdk \<Rightarrow> network \<Rightarrow> account \<Rightarrow> int \<Rightarrow> confirmation io" where
  "optInToApplication sdk net account appId =
     try_catch
       (let algodClient = getAlgodClient in
        and_then (getTransactionParams_do net algodClient) (\<lambda>suggestedParams.
        and_then (algosdk_makeTxn sdk (ApplicationOptInTxn
                    \<lparr>api_sender = AddrObject (addr account),
                     api_suggestedParams = suggestedParams,
                     api_appIndex = appId\<rparr>)) (\<lambda>txn.
        and_then (signTxn sdk txn (sk account)) (\<lambda>signedTxn.
        and_then (sendRawTransaction_do net algodClient (OneTxn signedTxn)) (\<lambda>txId.
        and_then (console_log ''Application Opt-in Transaction ID:'' [ShownText txId]) (\<lambda>_.
        and_then (algosdk_waitForConfirmation net algodClient txId 5) (\<lambda>confirmedTxn.
        and_then (console_log ''Application opt-in confirmed in round:'' [shown_opt (confirmedRound confirmedTxn)]) (\<lambda>_.
        done_with confirmedTxn))))))))
       (\<lambda>error. and_then (console_error ''Error opting in to application:'' error) (\<lambda>_. raise error))"

text \<open>An application argument documented as \<^verbatim>\<open>{string|Uint8Array}\<close>.\<close>

datatype app_arg = ArgText string | ArgBytes bytes

definition callApplication ::
    "algosdk \<Rightarrow> network \<Rightarrow> account \<Rightarrow> int \<Rightarrow> app_arg list option \<Rightarrow> party list option \<Rightarrow> int list option
      \<Rightarrow> int list option \<Rightarrow> confirmation io" where
  "callApplication sdk net sender appId appArgs_arg accounts_arg foreignApps_arg foreignAssets_arg =
     (let appArgs = or_empty appArgs_arg; accounts = or_empty accounts_arg;
          foreignApps = or_empty foreignApps_arg; foreignAssets = or_empty foreignAssets_arg in
      try_catch
        (let algodClient = getAlgodClient in
         and_then (getTransactionParams_do net algodClient) (\<lambda>suggestedParams.
         let convertedArgs = map (\<lambda>arg. case arg of ArgText s \<Rightarrow> TextEncoder_encode sdk s
                                        | ArgBytes b \<Rightarrow> b) appArgs;
             convertedAccounts = map address_string accounts in
         and_then (algosdk_makeTxn sdk (ApplicationNoOpTxn
                     \<lparr>apn_sender = AddrObject (addr sender),
                      apn_suggestedParams = suggestedParams,
                      apn_appIndex = appId,
                      apn_appArgs = convertedArgs,
                      apn_accounts = Some convertedAccounts,
                      apn_foreignApps = Some foreignApps,
                      apn_foreignAssets = Some foreignAssets\<rparr>)) (\<lambda>txn.
         and_then (signTxn sdk txn (sk sender)) (\<lambda>signedTxn.
         and_then (sendRawTransaction_do net algodClient (OneTxn signedTxn)) (\<lambda>txId.
         and_then (console_log ''Application Call Transaction ID:'' [ShownText txId]) (\<lambda>_.
         and_then (algosdk_waitForConfirmation net algodClient txId 5) (\<lambda>confirmedTxn.
         and_then (console_log ''Application call confirmed in round:'' [shown_opt (confirmedRound confirmedTxn)]) (\<lambda>_.
         done_with confirmedTxn))))))))
        (\<lambda>error. and_then (console_error ''Error calling application:'' error) (\<lambda>_. raise error)))"

definition deleteApplication :: "algosdk \<Rightarrow> network \<Rightarrow> account \<Rightarrow> int \<Rightarrow> confirmation io" where
  "deleteApplication sdk net creator appId =
     try_catch
       (let algodClient = getAlgodClient in
        and_then (getTransactionParams_do net algodClient) (\<lambda>suggestedParams.
        and_then (algosdk_makeTxn sdk (ApplicationDeleteTxn
                    \<lparr>api_sender = AddrObject (addr creator),
                     api_suggestedParams = suggestedParams,
                     api_appIndex = appId\<rparr>)) (\<lambda>txn.
        and_then (signTxn sdk txn (sk creator)) (\<lambda>signedTxn.
        and_then (sendRawTransaction_do net algodClient (OneTxn signedTxn)) (\<lambda>txId.
        and_then (console_log ''Application Deletion Transaction ID:'' [ShownText txId]) (\<lambda>_.
        and_then (algosdk_waitForConfirmation net algodClient txId 5) (\<lambda>confirmedTxn.
        and_then (console_log ''Application deleted in round:'' [shown_opt (confirmedRound confirmedTxn)]) (\<lambda>_.
        done_with confirmedTxn))))))))
       (\<lambda>error. and_then (console_error ''Error deleting application:'' error) (\<lambda>_. raise error))"

definition closeOutFromApplication :: "algosdk \<Rightarrow> network \<Rightarrow> account \<Rightarrow> int \<Rightarrow> confirmation io" where
  "closeOutFromApplication sdk net account appId =
     try_catch
       (let algodClient = getAlgodClient in
        and_then (getTransactionParams_do net algodClient) (\<lambda>suggestedParams.
        and_then (algosdk_makeTxn sdk (ApplicationCloseOutTxn
                    \<lparr>api_sender = AddrObject (addr account),
                     api_suggestedParams = suggestedParams,
                     api_appIndex = appId\<rparr>)) (\<lambda>txn.
        and_then (signTxn sdk txn (sk account)) (\<lambda>signedTxn.
        and_then (sendRawTransaction_do net algodClient (OneTxn signedTxn)) (\<lambda>txId.
        and_then (console_log ''Application Close Out Transaction ID:'' [ShownText txId]) (\<lambda>_.
        and_then (algosdk_waitForConfirmation net algodClient txId 5) (\<lambda>confirmedTxn.
        and_then (console_log ''Application close out confirmed in round:'' [shown_opt (confirmedRound confirmedTxn)]) (\<lambda>_.
        done_with confirmedTxn))))))))
       (\<lambda>error. and_then (console_error ''Error closing out from application:'' error) (\<lambda>_. raise error))"

definition clearApplicationState :: "algosdk \<Rightarrow> network \<Rightarrow> account \<Rightarrow> int \<Rightarrow> confirmation io" where
  "clearApplicationState sdk net account appId =
     try_catch
       (let algodClient = getAlgodClient in
        and_then (getTransactionParams_do net algodClient) (\<lambda>suggestedParams.
        and_then (algosdk_makeTxn sdk (ApplicationClearStateTxn
                    \<lparr>api_sender = AddrObject (addr account),
                     api_suggestedParams = suggestedParams,
                     api_appIndex = appId\<rparr>)) (\<lambda>txn.
        and_then (signTxn sdk txn (sk account)) (\<lambda>signedTxn.
        and_then (sendRawTransaction_do net algodClient (OneTxn signedTxn)) (\<lambda>txId.
        and_then (console_log ''Application Clear State Transaction ID:'' [ShownText txId]) (\<lambda>_.
        and_then (algosdk_waitForConfirmation net algodClient txId 5) (\<lambda>confirmedTxn.
        and_then (console_log ''Application clear state confirmed in round:'' [shown_opt (confirmedRound confirmedTxn)]) (\<lambda>_.
        done_with confirmedTxn))))))))
       (\<lambda>error. and_then (console_error ''Error clearing application state:'' error) (\<lambda>_. raise error))"

subsection \<open>Reading state\<close>

text \<open>\<^verbatim>\<open>Buffer.from(s, 'base64').toString()\<close>.\<close>

definition base64_text :: "algosdk \<Rightarrow> string \<Rightarrow> string" where
  "base64_text sdk s = Buffer_toString sdk (Buffer_from_base64 sdk s)"

text \<open>
  The value the loop body computes for one entry:
  \<^verbatim>\<open>if (stateItem.value.type === 1) value = Buffer.from(stateItem.value.bytes, 'base64').toString();
     else value = stateItem.value.uint;\<close>
\<close>

definition state_item_value :: "algosdk \<Rightarrow> state_item \<Rightarrow> state_value" where
  "state_item_value sdk stateItem =
     (if tv_type (si_value stateItem) = 1
      then TextValue (base64_text sdk (tv_bytes (si_value stateItem)))
      else IntValue (tv_uint (si_value stateItem)))"

text \<open>
  \<^verbatim>\<open>obj[key] = value\<close> on an object created by \<^verbatim>\<open>{}\<close>, for a string or number value: it
  sets the property, except for the key \<^verbatim>\<open>__proto__\<close>, where assigning a primitive does
  nothing.
\<close>

definition set_property :: "(string \<Rightarrow> 'v option) \<Rightarrow> string \<Rightarrow> 'v \<Rightarrow> (string \<Rightarrow> 'v option)" where
  "set_property obj key v = (if key = ''__proto__'' then obj else obj(key \<mapsto> v))"

text \<open>
  The \<^verbatim>\<open>for (const stateItem of ...)\<close> loop of \<^verbatim>\<open>readGlobalState\<close> and
  \<^verbatim>\<open>readLocalState\<close> (the same loop in both), started with the object built so far.
\<close>

fun decode_state :: "algosdk \<Rightarrow> state_item list \<Rightarrow> (string \<Rightarrow> state_value option) \<Rightarrow> (string \<Rightarrow> state_value option)" where
  "decode_state sdk [] state = state"
| "decode_state sdk (stateItem # rest) state =
     (let key = base64_text sdk (si_key stateItem);
          v = state_item_value sdk stateItem
      in decode_state sdk rest (set_property state key v))"

definition readGlobalState :: "algosdk \<Rightarrow> network \<Rightarrow> int \<Rightarrow> (string \<Rightarrow> state_value option) io" where
  "readGlobalState sdk net appId =
     try_catch
       (let algodClient = getAlgodClient in
        and_then (getApplicationByID_do net algodClient appId) (\<lambda>application.
        let globalState =
              (case global_state (app_params application) of
                 None \<Rightarrow> Map.empty
               | Some items \<Rightarrow> decode_state sdk items Map.empty) in
        and_then (console_log ''Global State:'' [ShownState globalState]) (\<lambda>_.
        done_with globalState)))
       (\<lambda>error. and_then (console_error ''Error reading global state:'' error) (\<lambda>_. raise error))"

definition readLocalState ::
    "algosdk \<Rightarrow> network \<Rightarrow> party \<Rightarrow> int \<Rightarrow> (string \<Rightarrow> state_value option) io" where
  "readLocalState sdk net account appId =
     try_catch
       (let algodClient = getAlgodClient;
            accountAddress = address_string account in
        and_then (accountInformation_do net algodClient accountAddress) (\<lambda>accountInfo.
        let localState =
              (case ai_apps_local_state accountInfo of
                 None \<Rightarrow> Map.empty
               | Some apps \<Rightarrow>
                   (case find (\<lambda>app. als_id app = appId) apps of
                      None \<Rightarrow> Map.empty
                    | Some appLocalState \<Rightarrow>
                        (case als_key_value appLocalState of
                           None \<Rightarrow> Map.empty
                         | Some items \<Rightarrow> decode_state sdk items Map.empty))) in
        and_then (console_log ''Local State:'' [ShownState localState]) (\<lambda>_.
        done_with localState)))
       (\<lambda>error. and_then (console_error ''Error reading local state:'' error) (\<lambda>_. raise error))"

definition runSmartContractExamples :: "algosdk \<Rightarrow> unit io" where
  "runSmartContractExamples sdk =
     try_catch
       (and_then (console_log ''===== ALGORAND SMART CONTRACT EXAMPLES ====='' []) (\<lambda>_.
        and_then (algosdk_generateAccount sdk) (\<lambda>creator.
        and_then (algosdk_generateAccount sdk) (\<lambda>user.
        and_then (console_log ''Creator Account:'' [ShownText (toString (addr creator))]) (\<lambda>_.
        and_then (console_log ''User Account:'' [ShownText (toString (addr user))]) (\<lambda>_.
        and_then (console_log (CHR 0x0A # ''The following examples require funded accounts on TestNet and won't execute successfully without them.'') []) (\<lambda>_.
        and_then (console_log ''To fund test accounts, use the Algorand TestNet faucet: https://bank.testnet.algorand.network/'' []) (\<lambda>_.
        console_log (CHR 0x0A # ''===== SMART CONTRACT EXAMPLES COMPLETE ====='') []))))))))
       (\<lambda>error. console_error ''Error running smart contract examples:'' error)"

section \<open>The combined examples file\<close>

text \<open>
  This file repeats several functions of the other three under the same names, with
  small differences; its versions carry the prefix \<open>examples_\<close>. Its
  \<^verbatim>\<open>recoverAccount\<close>, \<^verbatim>\<open>optInToAsset\<close>, \<^verbatim>\<open>compileProgram\<close> and
  \<^verbatim>\<open>createMultisigAccount\<close> are written out again as they stand there.
\<close>

definition examples_generateAccount :: "algosdk \<Rightarrow> (account \<times> string) io" where
  "examples_generateAccount sdk =
     and_then (algosdk_generateAccount sdk) (\<lambda>account.
     and_then (console_log ''Account Address:'' [ShownText (toString (addr account))]) (\<lambda>_.
     and_then (algosdk_secretKeyToMnemonic sdk (sk account)) (\<lambda>mnemonic.
     and_then (console_log ''Account Mnemonic:'' [ShownText mnemonic]) (\<lambda>_.
     done_with (account, mnemonic)))))"

definition examples_recoverAccount :: "algosdk \<Rightarrow> string \<Rightarrow> account io" where
  "examples_recoverAccount sdk mnemonic =
     and_then (algosdk_mnemonicToSecretKey sdk mnemonic) (\<lambda>recoveredAccount.
     and_then (console_log ''Recovered Account Address:'' [ShownText (toString (addr recoveredAccount))]) (\<lambda>_.
     done_with recoveredAccount))"

text \<open>
  Here \<^verbatim>\<open>note\<close> has no default and is always encoded; \<^verbatim>\<open>encode(undefined)\<close> encodes
  the empty string. The receiver is an account.
\<close>

definition examples_sendPayment ::
    "algosdk \<Rightarrow> network \<Rightarrow> account \<Rightarrow> account \<Rightarrow> int \<Rightarrow> string option \<Rightarrow> confirmation io" where
  "examples_sendPayment sdk net sender receiver amount note =
     try_catch
       (let algodClient = getAlgodClient in
        and_then (getTransactionParams_do net algodClient) (\<lambda>suggestedParams.
        and_then (algosdk_makeTxn sdk (PaymentTxn
                    \<lparr>pay_sender = AddrObject (addr sender),
                     pay_receiver = AddrObject (addr receiver),
                     pay_amount = amount,
                     pay_note = Some (TextEncoder_encode sdk (case note of None \<Rightarrow> '''' | Some s \<Rightarrow> s)),
                     pay_rekeyTo = None,
                     pay_lease = None,
                     pay_suggestedParams = suggestedParams\<rparr>)) (\<lambda>txn.
        and_then (signTxn sdk txn (sk sender)) (\<lambda>signedTxn.
        and_then (sendRawTransaction_do net algodClient (OneTxn signedTxn)) (\<lambda>txId.
        and_then (console_log ''Transaction ID:'' [ShownText txId]) (\<lambda>_.
        and_then (algosdk_waitForConfirmation net algodClient txId 5) (\<lambda>confirmedTxn.
        and_then (console_log ''Transaction confirmed in round:'' [shown_opt (confirmedRound confirmedTxn)]) (\<lambda>_.
        done_with confirmedTxn))))))))
       (\<lambda>error. and_then (console_error ''Error sending payment:'' error) (\<lambda>_. raise error))"

definition examples_createAsset ::
    "algosdk \<Rightarrow> network \<Rightarrow> account \<Rightarrow> string \<Rightarrow> string \<Rightarrow> int \<Rightarrow> int \<Rightarrow> int option io" where
  "examples_createAsset sdk net creator assetName unitName totalIssuance decimals =
     try_catch
       (let algodClient = getAlgodClient in
        and_then (getTransactionParams_do net algodClient) (\<lambda>suggestedParams.
        and_then (algosdk_makeTxn sdk (AssetCreateTxn
                    \<lparr>ac_sender = AddrObject (addr creator),
                     ac_total = totalIssuance,
                     ac_decimals = decimals,
                     ac_defaultFrozen = False,
                     ac_manager = AddrObject (addr creator),
                     ac_reserve = AddrObject (addr creator),
                     ac_freeze = AddrObject (addr creator),
                     ac_clawback = AddrObject (addr creator),
                     ac_unitName = unitName,
                     ac_assetName = assetName,
                     ac_assetURL = ''https://example.com'',
                     ac_assetMetadataHash = None,
                     ac_suggestedParams = suggestedParams\<rparr>)) (\<lambda>txn.
        and_then (signTxn sdk txn (sk creator)) (\<lambda>signedTxn.
        and_then (sendRawTransaction_do net algodClient (OneTxn signedTxn)) (\<lambda>txId.
        and_then (console_log ''Asset Creation Transaction ID:'' [ShownText txId]) (\<lambda>_.
        and_then (algosdk_waitForConfirmation net algodClient txId 5) (\<lambda>confirmedTxn.
        and_then (console_log ''Asset created in round:'' [shown_opt (confirmedRound confirmedTxn)]) (\<lambda>_.
        let assetId = assetIndex confirmedTxn in
        and_then (console_log ''Asset ID:'' [shown_opt assetId]) (\<lambda>_.
        done_with assetId)))))))))
       (\<lambda>error. and_then (console_error ''Error creating asset:'' error) (\<lambda>_. raise error))"

definition examples_optInToAsset :: "algosdk \<Rightarrow> network \<Rightarrow> account \<Rightarrow> int \<Rightarrow> confirmation io" where
  "examples_optInToAsset sdk net account assetId =
     try_catch
       (let algodClient = getAlgodClient in
        and_then (getTransactionParams_do net algodClient) (\<lambda>suggestedParams.
        and_then (algosdk_makeTxn sdk (AssetTransferTxn
                    \<lparr>xfer_sender = AddrObject (addr account),
                     xfer_receiver = AddrObject (addr account),
                     xfer_assetSender = None,
                     xfer_amount = 0,
                     xfer_assetIndex = assetId,
                     xfer_suggestedParams = suggestedParams\<rparr>)) (\<lambda>txn.
        and_then (signTxn sdk txn (sk account)) (\<lambda>signedTxn.
        and_then (sendRawTransaction_do net algodClient (OneTxn signedTxn)) (\<lambda>txId.
        and_then (console_log ''Opt-in Transaction ID:'' [ShownText txId]) (\<lambda>_.
        and_then (algosdk_waitForConfirmation net algodClient txId 5) (\<lambda>confirmedTxn.
        and_then (console_log ''Opt-in confirmed in round:'' [shown_opt (confirmedRound confirmedTxn)]) (\<lambda>_.
        done_with confirmedTxn))))))))
       (\<lambda>error. and_then (console_error ''Error opting in to asset:'' error) (\<lambda>_. raise error))"

definition examples_transferAsset ::
    "algosdk \<Rightarrow> network \<Rightarrow> account \<Rightarrow> account \<Rightarrow> int \<Rightarrow> int \<Rightarrow> confirmation io" where
  "examples_transferAsset sdk net sender receiver assetId amount =
     try_catch
       (let algodClient = getAlgodClient in
        and_then (getTransactionParams_do net algodClient) (\<lambda>suggestedParams.
        and_then (algosdk_makeTxn sdk (AssetTransferTxn
                    \<lparr>xfer_sender = AddrObject (addr sender),
                     xfer_receiver = AddrObject (addr receiver),
                     xfer_assetSender = None,
                     xfer_amount = amount,
                     xfer_assetIndex = assetId,
                     xfer_suggestedParams = suggestedParams\<rparr>)) (\<lambda>txn.
        and_then (signTxn sdk txn (sk sender)) (\<lambda>signedTxn.
        and_then (sendRawTransaction_do net algodClient (OneTxn signedTxn)) (\<lambda>txId.
        and_then (console_log ''Asset Transfer Transaction ID:'' [ShownText txId]) (\<lambda>_.
        and_then (algosdk_waitForConfirmation net algodClient txId 5) (\<lambda>confirmedTxn.
        and_then (console_log ''Asset transfer confirmed in round:'' [shown_opt (confirmedRound confirmedTxn)]) (\<lambda>_.
        done_with confirmedTxn))))))))
       (\<lambda>error. and_then (console_error ''Error transferring asset:'' error) (\<lambda>_. raise error))"

text \<open>
  The state of the \<open>i\<close>-th object of an array after a call that changed the array's
  objects in place and left \<open>after\<close>; an object the call did not reach is as before.
\<close>

definition object_after :: "'a list \<Rightarrow> nat \<Rightarrow> 'a \<Rightarrow> 'a" where
  "object_after after i untouched = (if i < length after then after ! i else untouched)"

text \<open>
  Two fixed receivers. \<^verbatim>\<open>algosdk.assignGroupID(txnGroup)\<close> changes \<^verbatim>\<open>txn1\<close> and
  \<^verbatim>\<open>txn2\<close> through the array \<^verbatim>\<open>[txn1, txn2]\<close>; the transactions signed afterwards are
  the first and second object of that array after the call.
\<close>

definition examples_sendAtomicTransactions ::
    "algosdk \<Rightarrow> network \<Rightarrow> account \<Rightarrow> account \<Rightarrow> account \<Rightarrow> int \<Rightarrow> confirmation io" where
  "examples_sendAtomicTransactions sdk net sender receiver1 receiver2 amount =
     try_catch
       (let algodClient = getAlgodClient in
        and_then (getTransactionParams_do net algodClient) (\<lambda>suggestedParams.
        and_then (algosdk_makeTxn sdk (PaymentTxn
                    \<lparr>pay_sender = AddrObject (addr sender),
                     pay_receiver = AddrObject (addr receiver1),
                     pay_amount = amount,
                     pay_note = Some (TextEncoder_encode sdk ''First payment in atomic group''),
                     pay_rekeyTo = None,
                     pay_lease = None,
                     pay_suggestedParams = suggestedParams\<rparr>)) (\<lambda>created1.
        and_then (algosdk_makeTxn sdk (PaymentTxn
                    \<lparr>pay_sender = AddrObject (addr sender),
                     pay_receiver = AddrObject (addr receiver2),
                     pay_amount = amount,
                     pay_note = Some (TextEncoder_encode sdk ''Second payment in atomic group''),
                     pay_rekeyTo = None,
                     pay_lease = None,
                     pay_suggestedParams = suggestedParams\<rparr>)) (\<lambda>created2.
        and_then (algosdk_assignGroupID sdk [created1, created2]) (\<lambda>txnGroup.
        let txn1 = object_after txnGroup 0 created1; txn2 = object_after txnGroup 1 created2 in
        and_then (signTxn sdk txn1 (sk sender)) (\<lambda>signedTxn1.
        and_then (signTxn sdk txn2 (sk sender)) (\<lambda>signedTxn2.
        let signedTxnGroup = [signedTxn1, signedTxn2] in
        and_then (sendRawTransaction_do net algodClient (TxnGroup signedTxnGroup)) (\<lambda>txId.
        and_then (console_log ''Atomic Transaction Group ID:'' [ShownText txId]) (\<lambda>_.
        and_then (algosdk_waitForConfirmation net algodClient txId 5) (\<lambda>confirmedTxn.
        and_then (console_log ''Atomic transactions confirmed in round:'' [shown_opt (confirmedRound confirmedTxn)]) (\<lambda>_.
        done_with confirmedTxn)))))))))))
       (\<lambda>error. and_then (console_error ''Error sending atomic transactions:'' error) (\<lambda>_. raise error))"

definition examples_compileProgram :: "algosdk \<Rightarrow> network \<Rightarrow> string \<Rightarrow> bytes io" where
  "examples_compileProgram sdk net programSource =
     try_catch
       (let algodClient = getAlgodClient in
        and_then (compile_do net algodClient programSource) (\<lambda>compiledProgram.
        and_then (console_log ''Program compiled successfully'' []) (\<lambda>_.
        let programBytes = Buffer_from_base64 sdk (compiled_result compiledProgram) in
        done_with programBytes)))
       (\<lambda>error. and_then (console_error ''Error compiling program:'' error) (\<lambda>_. raise error))"

definition examples_createLogicSignature :: "algosdk \<Rightarrow> network \<Rightarrow> string \<Rightarrow> lsig_account io" where
  "examples_createLogicSignature sdk net programSource =
     try_catch
       (and_then (examples_compileProgram sdk net programSource) (\<lambda>programBytes.
        and_then (algosdk_LogicSigAccount sdk programBytes None) (\<lambda>logicSigAccount.
        and_then (console_log ''LogicSig Address:''
                    [ShownText (toString (sdk_lsig_address sdk logicSigAccount))]) (\<lambda>_.
        done_with logicSigAccount))))
       (\<lambda>error. and_then (console_error ''Error creating logic signature:'' error) (\<lambda>_. raise error))"

definition examples_createApplication ::
    "algosdk \<Rightarrow> network \<Rightarrow> account \<Rightarrow> string \<Rightarrow> string \<Rightarrow> int option io" where
  "examples_createApplication sdk net creator approvalProgram clearProgram =
     try_catch
       (let algodClient = getAlgodClient in
        and_then (examples_compileProgram sdk net approvalProgram) (\<lambda>compiledApprovalProgram.
        and_then (examples_compileProgram sdk net clearProgram) (\<lambda>compiledClearProgram.
        and_then (getTransactionParams_do net algodClient) (\<lambda>suggestedParams.
        and_then (algosdk_makeTxn sdk (ApplicationCreateTxn
                    \<lparr>apc_sender = AddrObject (addr creator),
                     apc_suggestedParams = suggestedParams,
                     apc_onComplete = NoOpOC,
                     apc_approvalProgram = compiledApprovalProgram,
                     apc_clearProgram = compiledClearProgram,
                     apc_numGlobalByteSlices = 1,
                     apc_numGlobalInts = 1,
                     apc_numLocalByteSlices = 1,
                     apc_numLocalInts = 1\<rparr>)) (\<lambda>txn.
        and_then (signTxn sdk txn (sk creator)) (\<lambda>signedTxn.
        and_then (sendRawTransaction_do net algodClient (OneTxn signedTxn)) (\<lambda>txId.
        and_then (console_log ''Application Creation Transaction ID:'' [ShownText txId]) (\<lambda>_.
        and_then (algosdk_waitForConfirmation net algodClient txId 5) (\<lambda>confirmedTxn.
        and_then (console_log ''Application created in round:'' [shown_opt (confirmedRound confirmedTxn)]) (\<lambda>_.
        let appId = applicationIndex confirmedTxn in
        and_then (console_log ''Application ID:'' [shown_opt appId]) (\<lambda>_.
        done_with appId)))))))))))
       (\<lambda>error. and_then (console_error ''Error creating application:'' error) (\<lambda>_. raise error))"

definition examples_callApplication ::
    "algosdk \<Rightarrow> network \<Rightarrow> account \<Rightarrow> int \<Rightarrow> string list \<Rightarrow> confirmation io" where
  "examples_callApplication sdk net sender appId appArgs =
     try_catch
       (let algodClient = getAlgodClient in
        and_then (getTransactionParams_do net algodClient) (\<lambda>suggestedParams.
        and_then (algosdk_makeTxn sdk (ApplicationNoOpTxn
                    \<lparr>apn_sender = AddrObject (addr sender),
                     apn_suggestedParams = suggestedParams,
                     apn_appIndex = appId,
                     apn_appArgs = map (\<lambda>arg. TextEncoder_encode sdk arg) appArgs,
                     apn_accounts = None,
                     apn_foreignApps = None,
                     apn_foreignAssets = None\<rparr>)) (\<lambda>txn.
        and_then (signTxn sdk txn (sk sender)) (\<lambda>signedTxn.
        and_then (sendRawTransaction_do net algodClient (OneTxn signedTxn)) (\<lambda>txId.
        and_then (console_log ''Application Call Transaction ID:'' [ShownText txId]) (\<lambda>_.
        and_then (algosdk_waitForConfirmation net algodClient txId 5) (\<lambda>confirmedTxn.
        and_then (console_log ''Application call confirmed in round:'' [shown_opt (confirmedRound confirmedTxn)]) (\<lambda>_.
        done_with confirmedTxn))))))))
       (\<lambda>error. and_then (console_error ''Error calling application:'' error) (\<lambda>_. raise error))"

definition examples_createMultisigAccount ::
    "algosdk \<Rightarrow> addr_arg list \<Rightarrow> int \<Rightarrow> (msig_params \<times> address) io" where
  "examples_createMultisigAccount sdk addresses threshold =
     (let multisigParams = \<lparr>msig_version = 1, msig_threshold = threshold, msig_addrs = addresses\<rparr> in
      and_then (algosdk_multisigAddress sdk multisigParams) (\<lambda>multisigAddress.
      and_then (console_log ''Multisig Address:'' [ShownText (toString multisigAddress)]) (\<lambda>_.
      done_with (multisigParams, multisigAddress))))"

text \<open>
  The \<^verbatim>\<open>for (let i = 1; i < signers.length; i++)\<close> loop of \<^verbatim>\<open>sendMultisigTransaction\<close>,
  over the signers after the first.
\<close>

fun append_signatures :: "algosdk \<Rightarrow> msig_params \<Rightarrow> signed_blob \<Rightarrow> account list \<Rightarrow> signed_blob io" where
  "append_signatures sdk multisigParams signedTxn [] = done_with signedTxn"
| "append_signatures sdk multisigParams signedTxn (s # rest) =
     and_then (algosdk_appendSignMultisigTransaction sdk (blob signedTxn) multisigParams (sk s)) (\<lambda>signedTxn'.
     append_signatures sdk multisigParams signedTxn' rest)"

text \<open>With no signer, \<^verbatim>\<open>signers[0].sk\<close> reads a property of \<^verbatim>\<open>undefined\<close>.\<close>

definition sendMultisigTransaction ::
    "algosdk \<Rightarrow> network \<Rightarrow> msig_params \<Rightarrow> account list \<Rightarrow> account \<Rightarrow> int \<Rightarrow> confirmation io" where
  "sendMultisigTransaction sdk net multisigParams signers receiver amount =
     try_catch
       (let algodClient = getAlgodClient in
        and_then (getTransactionParams_do net algodClient) (\<lambda>suggestedParams.
        and_then (algosdk_multisigAddress sdk multisigParams) (\<lambda>senderAddress.
        and_then (algosdk_makeTxn sdk (PaymentTxn
                    \<lparr>pay_sender = AddrText (toString senderAddress),
                     pay_receiver = AddrObject (addr receiver),
                     pay_amount = amount,
                     pay_note = Some (TextEncoder_encode sdk ''Multisig transaction''),
                     pay_rekeyTo = None,
                     pay_lease = None,
                     pay_suggestedParams = suggestedParams\<rparr>)) (\<lambda>txn.
        and_then (case signers of
                    [] \<Rightarrow> property_of_undefined ''sk''
                  | first # rest \<Rightarrow>
                      and_then (algosdk_signMultisigTransaction sdk txn multisigParams (sk first)) (\<lambda>signedTxn.
                      append_signatures sdk multisigParams signedTxn rest)) (\<lambda>signedTxn.
        and_then (sendRawTransaction_do net algodClient (OneTxn (blob signedTxn))) (\<lambda>txId.
        and_then (console_log ''Multisig Transaction ID:'' [ShownText txId]) (\<lambda>_.
        and_then (algosdk_waitForConfirmation net algodClient txId 5) (\<lambda>confirmedTxn.
        and_then (console_log ''Multisig transaction confirmed in round:'' [shown_opt (confirmedRound confirmedTxn)]) (\<lambda>_.
        done_with confirmedTxn)))))))))
       (\<lambda>error. and_then (console_error ''Error sending multisig transaction:'' error) (\<lambda>_. raise error))"

text \<open>
  \<^verbatim>\<open>result.txIDs[0]\<close> is \<^verbatim>\<open>undefined\<close> for an empty array; with no method result,
  \<^verbatim>\<open>result.methodResults[0].returnValue\<close> reads a property of \<^verbatim>\<open>undefined\<close>.
\<close>

definition callABIMethod ::
    "algosdk \<Rightarrow> network \<Rightarrow> account \<Rightarrow> int \<Rightarrow> string \<Rightarrow> abi_value list \<Rightarrow> atc_result io" where
  "callABIMethod sdk net sender appId methodName methodArgs =
     try_catch
       (let algodClient = getAlgodClient in
        and_then (algosdk_ABIContract sdk
                    \<lparr>contract_name = ''Example Contract'',
                     contract_methods =
                       [\<lparr>method_name = methodName,
                         method_args = [(''string'', ''message'')],
                         method_returns = ''uint64''\<rparr>]\<rparr>) (\<lambda>contract.
        and_then (getMethodByName sdk contract methodName) (\<lambda>method.
        and_then (getTransactionParams_do net algodClient) (\<lambda>suggestedParams.
        let atc = [] in
        and_then (addMethodCall sdk atc
                    \<lparr>mc_appID = appId,
                     mc_method = method,
                     mc_methodArgs = methodArgs,
                     mc_sender = AddrObject (addr sender),
                     mc_suggestedParams = suggestedParams,
                     mc_signer = BasicAccountTransactionSigner sender\<rparr>) (\<lambda>atc.
        and_then (atc_execute net atc algodClient 5) (\<lambda>result.
        and_then (console_log ''ABI Method Call Transaction ID:''
                    [case res_txIDs result of [] \<Rightarrow> ShownUndefined | txID # _ \<Rightarrow> ShownText txID]) (\<lambda>_.
        and_then (case res_methodResults result of
                    [] \<Rightarrow> property_of_undefined ''returnValue''
                  | methodResult # _ \<Rightarrow>
                      console_log ''ABI Method Call Result:''
                        [case returnValue methodResult of None \<Rightarrow> ShownUndefined | Some v \<Rightarrow> ShownAbi v]) (\<lambda>_.
        done_with result))))))))
       (\<lambda>error. and_then (console_error ''Error calling ABI method:'' error) (\<lambda>_. raise error))"

definition runExamples :: "algosdk \<Rightarrow> unit io" where
  "runExamples sdk =
     try_catch
       (and_then (console_log ''===== ALGORAND SDK EXAMPLES ====='' []) (\<lambda>_.
        and_then (console_log (CHR 0x0A # ''----- Account Management -----'') []) (\<lambda>_.
        and_then (examples_generateAccount sdk) (\<lambda>(account1, mnemonic1).
        and_then (examples_generateAccount sdk) (\<lambda>(account2, _).
        and_then (examples_generateAccount sdk) (\<lambda>(account3, _).
        and_then (examples_recoverAccount sdk mnemonic1) (\<lambda>recoveredAccount.
        and_then (console_log ''Account recovery successful:''
                    [ShownBoolean (toString (addr account1) = toString (addr recoveredAccount))]) (\<lambda>_.
        and_then (console_log (CHR 0x0A # ''The following examples require funded accounts on TestNet and won't execute successfully without them.'') []) (\<lambda>_.
        and_then (console_log ''To fund test accounts, use the Algorand TestNet faucet: https://bank.testnet.algorand.network/'' []) (\<lambda>_.
        console_log (CHR 0x0A # ''===== EXAMPLES COMPLETE ====='') []))))))))))
       (\<lambda>error. console_error ''Error running examples:'' error)"

section \<open>The exported operations as one family\<close>

text \<open>
  A call of one of the functions the four files export, with its arguments; an omitted
  optional argument is \<open>None\<close>. \<^verbatim>\<open>getAlgodClient\<close> is exported by three files with one
  and the same body.
\<close>

datatype account_op =
    Do_generateAccount
  | Do_recoverAccount string
  | Do_createMultisigAccount "addr_arg list" int
  | Do_checkAccountInfo string
  | Do_rekeyAccount account account
  | Do_sendWithRekeyedAccount account account string int
  | Do_runAccountExamples

datatype transaction_op =
    Do_getAlgodClient
  | Do_sendPayment account party int "string option"
  | Do_createAsset account string string int int "string option" "bytes option"
  | Do_configureAsset account int "party option" "party option" "party option" "party option"
  | Do_optInToAsset account int
  | Do_transferAsset account party int int
  | Do_freezeAsset account party int bool
  | Do_revokeAsset account party party int int
  | Do_destroyAsset account int
  | Do_sendAtomicTransactions account "party list" int
  | Do_sendTransactionWithLease account party int bytes
  | Do_runTransactionExamples

datatype contract_op =
    Do_compileProgram string
  | Do_createLogicSignature string "bytes list option"
  | Do_createDelegatedLogicSignature string account "bytes list option"
  | Do_sendWithLogicSignature lsig_account party int
  | Do_createApplication account string string "int option" "int option" "int option" "int option"
  | Do_updateApplication account int string string
  | Do_optInToApplication account int
  | Do_callApplication account int "app_arg list option" "party list option" "int list option" "int list option"
  | Do_deleteApplication account int
  | Do_closeOutFromApplication account int
  | Do_clearApplicationState account int
  | Do_readGlobalState int
  | Do_readLocalState party int
  | Do_runSmartContractExamples

datatype examples_op =
    Do_examples_generateAccount
  | Do_examples_recoverAccount string
  | Do_getIndexerClient
  | Do_examples_sendPayment account account int "string option"
  | Do_examples_createAsset account string string int int
  | Do_examples_optInToAsset account int
  | Do_examples_transferAsset account account int int
  | Do_examples_sendAtomicTransactions account account account int
  | Do_examples_compileProgram string
  | Do_examples_createLogicSignature string
  | Do_examples_createApplication account string string
  | Do_examples_callApplication account int "string list"
  | Do_examples_createMultisigAccount "addr_arg list" int
  | Do_sendMultisigTransaction msig_params "account list" account int
  | Do_callABIMethod account int string "abi_value list"
  | Do_runExamples

datatype operation =
    AccountOp account_op
  | TransactionOp transaction_op
  | ContractOp contract_op
  | ExamplesOp examples_op

text \<open>What a call returned.\<close>

datatype outcome =
    NoValue
  | ClientValue algod_client
  | AccountValue account
  | GeneratedValue "account \<times> string"
  | MultisigValue "msig_params \<times> address"
  | AccountInfoValue account_info
  | ConfirmationValue confirmation
  | IdValue "int option"
  | BytesValue bytes
  | LogicSigValue lsig_account
  | StateValue "string \<Rightarrow> state_value option"
  | AtcResultValue atc_result

definition returning :: "('a \<Rightarrow> outcome) \<Rightarrow> 'a io \<Rightarrow> outcome io" where
  "returning wrap m = and_then m (\<lambda>v. done_with (wrap v))"

fun run_account_op :: "algosdk \<Rightarrow> network \<Rightarrow> account_op \<Rightarrow> outcome io" where
  "run_account_op sdk net Do_generateAccount = returning GeneratedValue (generateAccount sdk)"
| "run_account_op sdk net (Do_recoverAccount mnemonic) = returning AccountValue (recoverAccount sdk mnemonic)"
| "run_account_op sdk net (Do_createMultisigAccount addresses threshold) =
     returning MultisigValue (createMultisigAccount sdk addresses threshold)"
| "run_account_op sdk net (Do_checkAccountInfo address) =
     returning AccountInfoValue (checkAccountInfo net address)"
| "run_account_op sdk net (Do_rekeyAccount account authAccount) =
     returning ConfirmationValue (rekeyAccount sdk net account authAccount)"
| "run_account_op sdk net (Do_sendWithRekeyedAccount originalAccount authAccount receiverAddress amount) =
     returning ConfirmationValue (sendWithRekeyedAccount sdk net originalAccount authAccount receiverAddress amount)"
| "run_account_op sdk net Do_runAccountExamples = returning (\<lambda>_. NoValue) (runAccountExamples sdk)"

fun run_transaction_op :: "algosdk \<Rightarrow> network \<Rightarrow> transaction_op \<Rightarrow> outcome io" where
  "run_transaction_op sdk net Do_getAlgodClient = done_with (ClientValue getAlgodClient)"
| "run_transaction_op sdk net (Do_sendPayment sender receiver amount note) =
     returning ConfirmationValue (sendPayment sdk net sender receiver amount note)"
| "run_transaction_op sdk net (Do_createAsset creator assetName unitName totalIssuance decimals url metadataHash) =
     returning IdValue (createAsset sdk net creator assetName unitName totalIssuance decimals url metadataHash)"
| "run_transaction_op sdk net (Do_configureAsset manager assetId newManager newReserve newFreeze newClawback) =
     returning ConfirmationValue (configureAsset sdk net manager assetId newManager newReserve newFreeze newClawback)"
| "run_transaction_op sdk net (Do_optInToAsset account assetId) =
     returning ConfirmationValue (optInToAsset sdk net account assetId)"
| "run_transaction_op sdk net (Do_transferAsset sender receiver assetId amount) =
     returning ConfirmationValue (transferAsset sdk net sender receiver assetId amount)"
| "run_transaction_op sdk net (Do_freezeAsset freezeManager accountToFreeze assetId freeze) =
     returning ConfirmationValue (freezeAsset sdk net freezeManager accountToFreeze assetId freeze)"
| "run_transaction_op sdk net (Do_revokeAsset clawbackManager revokeFrom revokeTo assetId amount) =
     returning ConfirmationValue (revokeAsset sdk net clawbackManager revokeFrom revokeTo assetId amount)"
| "run_transaction_op sdk net (Do_destroyAsset manager assetId) =
     returning ConfirmationValue (destroyAsset sdk net manager assetId)"
| "run_transaction_op sdk net (Do_sendAtomicTransactions sender receivers amount) =
     returning ConfirmationValue (sendAtomicTransactions sdk net sender receivers amount)"
| "run_transaction_op sdk net (Do_sendTransactionWithLease sender receiver amount lease) =
     returning ConfirmationValue (sendTransactionWithLease sdk net sender receiver amount lease)"
| "run_transaction_op sdk net Do_runTransactionExamples = returning (\<lambda>_. NoValue) (runTransactionExamples sdk)"

fun run_contract_op :: "algosdk \<Rightarrow> network \<Rightarrow> contract_op \<Rightarrow> outcome io" where
  "run_contract_op sdk net (Do_compileProgram programSource) =
     returning BytesValue (compileProgram sdk net programSource)"
| "run_contract_op sdk net (Do_createLogicSignature programSource args) =
     returning LogicSigValue (createLogicSignature sdk net programSource args)"
| "run_contract_op sdk net (Do_createDelegatedLogicSignature programSource delegatingAccount args) =
     returning LogicSigValue (createDelegatedLogicSignature sdk net programSource delegatingAccount args)"
| "run_contract_op sdk net (Do_sendWithLogicSignature logicSigAccount receiver amount) =
     returning ConfirmationValue (sendWithLogicSignature sdk net logicSigAccount receiver amount)"
| "run_contract_op sdk net (Do_createApplication creator approvalProgram clearProgram globalInts globalBytes localInts localBytes) =
     returning IdValue (createApplication sdk net creator approvalProgram clearProgram globalInts globalBytes localInts localBytes)"
| "run_contract_op sdk net (Do_updateApplication creator appId approvalProgram clearProgram) =
     returning ConfirmationValue (updateApplication sdk net creator appId approvalProgram clearProgram)"
| "run_contract_op sdk net (Do_optInToApplication account appId) =
     returning ConfirmationValue (optInToApplication sdk net account appId)"
| "run_contract_op sdk net (Do_callApplication sender appId appArgs accounts foreignApps foreignAssets) =
     returning ConfirmationValue (callApplication sdk net sender appId appArgs accounts foreignApps foreignAssets)"
| "run_contract_op sdk net (Do_deleteApplication creator appId) =
     returning ConfirmationValue (deleteApplication sdk net creator appId)"
| "run_contract_op sdk net (Do_closeOutFromApplication account appId) =
     returning ConfirmationValue (closeOutFromApplication sdk net account appId)"
| "run_contract_op sdk net (Do_clearApplicationState account appId) =
     returning ConfirmationValue (clearApplicationState sdk net account appId)"
| "run_contract_op sdk net (Do_readGlobalState appId) = returning StateValue (readGlobalState sdk net appId)"
| "run_contract_op sdk net (Do_readLocalState account appId) =
     returning StateValue (readLocalState sdk net account appId)"
| "run_contract_op sdk net Do_runSmartContractExamples = returning (\<lambda>_. NoValue) (runSmartContractExamples sdk)"

fun run_examples_op :: "algosdk \<Rightarrow> network \<Rightarrow> examples_op \<Rightarrow> outcome io" where
  "run_examples_op sdk net Do_examples_generateAccount = returning GeneratedValue (examples_generateAccount sdk)"
| "run_examples_op sdk net (Do_examples_recoverAccount mnemonic) =
     returning AccountValue (examples_recoverAccount sdk mnemonic)"
| "run_examples_op sdk net Do_getIndexerClient = done_with (ClientValue getIndexerClient)"
| "run_examples_op sdk net (Do_examples_sendPayment sender receiver amount note) =
     returning ConfirmationValue (examples_sendPayment sdk net sender receiver amount note)"
| "run_examples_op sdk net (Do_examples_createAsset creator assetName unitName totalIssuance decimals) =
     returning IdValue (examples_createAsset sdk net creator assetName unitName totalIssuance decimals)"
| "run_examples_op sdk net (Do_examples_optInToAsset account assetId) =
     returning ConfirmationValue (examples_optInToAsset sdk net account assetId)"
| "run_examples_op sdk net (Do_examples_transferAsset sender receiver assetId amount) =
     returning ConfirmationValue (examples_transferAsset sdk net sender receiver assetId amount)"
| "run_examples_op sdk net (Do_examples_sendAtomicTransactions sender receiver1 receiver2 amount) =
     returning ConfirmationValue (examples_sendAtomicTransactions sdk net sender receiver1 receiver2 amount)"
| "run_examples_op sdk net (Do_examples_compileProgram programSource) =
     returning BytesValue (examples_compileProgram sdk net programSource)"
| "run_examples_op sdk net (Do_examples_createLogicSignature programSource) =
     returning LogicSigValue (examples_createLogicSignature sdk net programSource)"
| "run_examples_op sdk net (Do_examples_createApplication creator approvalProgram clearProgram) =
     returning IdValue (examples_createApplication sdk net creator approvalProgram clearProgram)"
| "run_examples_op sdk net (Do_examples_callApplication sender appId appArgs) =
     returning ConfirmationValue (examples_callApplication sdk net sender appId appArgs)"
| "run_examples_op sdk net (Do_examples_createMultisigAccount addresses threshold) =
     returning MultisigValue (examples_createMultisigAccount sdk addresses threshold)"
| "run_examples_op sdk net (Do_sendMultisigTransaction multisigParams signers receiver amount) =
     returning ConfirmationValue (sendMultisigTransaction sdk net multisigParams signers receiver amount)"
| "run_examples_op sdk net (Do_callABIMethod sender appId methodName methodArgs) =
     returning AtcResultValue (callABIMethod sdk net sender appId methodName methodArgs)"
| "run_examples_op sdk net Do_runExamples = returning (\<lambda>_. NoValue) (runExamples sdk)"

fun run :: "algosdk \<Rightarrow> network \<Rightarrow> operation \<Rightarrow> outcome io" where
  "run sdk net (AccountOp op) = run_account_op sdk net op"
| "run sdk net (TransactionOp op) = run_transaction_op sdk net op"
| "run sdk net (ContractOp op) = run_contract_op sdk net op"
| "run sdk net (ExamplesOp op) = run_examples_op sdk net op"

section \<open>Observations on a trace\<close>

text \<open>The request objects handed to the SDK's builders, in order, whether the builder accepted them or threw.\<close>

fun built :: "event \<Rightarrow> request list" where
  "built (Called (MakeTxn r)) = [r]"
| "built (Failed (MakeTxn r) e) = [r]"
| "built _ = []"

definition requests_built :: "trace \<Rightarrow> request list" where
  "requests_built tr = concat (map built tr)"

text \<open>The transactions given to \<^verbatim>\<open>txn.signTxn\<close>, as they were at that moment.\<close>

fun signing :: "event \<Rightarrow> transaction list" where
  "signing (Called (SignTxn t k)) = [t]"
| "signing (Failed (SignTxn t k) e) = [t]"
| "signing _ = []"

text \<open>The round budget of a call that waits for inclusion.\<close>

fun budget_of :: "call \<Rightarrow> int option" where
  "budget_of (WaitForConfirmation client txId rounds) = Some rounds"
| "budget_of (AtcExecute client atc rounds) = Some rounds"
| "budget_of _ = None"

fun wait_budget :: "event \<Rightarrow> int option" where
  "wait_budget (Called c) = budget_of c"
| "wait_budget (Failed c e) = budget_of c"
| "wait_budget _ = None"

text \<open>Calls that go to the node.\<close>

fun network_call :: "call \<Rightarrow> bool" where
  "network_call (GetTransactionParams client) = True"
| "network_call (SendRawTransaction client stxn) = True"
| "network_call (WaitForConfirmation client txId rounds) = True"
| "network_call (Compile client src) = True"
| "network_call (GetApplicationByID client appId) = True"
| "network_call (AccountInformation client a) = True"
| "network_call (AtcExecute client atc rounds) = True"
| "network_call _ = False"

fun touches_network :: "event \<Rightarrow> bool" where
  "touches_network (Called c) = network_call c"
| "touches_network (Failed c e) = network_call c"
| "touches_network _ = False"

fun failure :: "event \<Rightarrow> bool" where
  "failure (Failed c e) = True"
| "failure _ = False"

fun error_log :: "event \<Rightarrow> bool" where
  "error_log (ConsoleError text e) = True"
| "error_log _ = False"

text \<open>Everything a computation adds to the trace satisfies \<open>P\<close>.\<close>

definition only :: "(event \<Rightarrow> bool) \<Rightarrow> 'a io \<Rightarrow> bool" where
  "only P m \<longleftrightarrow> (\<forall>tr. \<exists>evs. snd (m tr) = tr @ evs \<and> (\<forall>e \<in> set evs. P e))"

text \<open>
  A run that ends in the error \<open>err\<close> after exactly one failed step: no step failed
  before it, and after it nothing happened but \<^verbatim>\<open>console.error\<close> of that same error.
\<close>

definition fails_once :: "error \<Rightarrow> event list \<Rightarrow> bool" where
  "fails_once err evs \<longleftrightarrow>
     (\<exists>before c logs. evs = before @ Failed c err # logs \<and> (\<forall>e \<in> set before. \<not> failure e) \<and>
        (\<forall>l \<in> set logs. \<exists>text. l = ConsoleError text err))"

text \<open>
  A computation that returns only when no step failed, and that throws the error of
  its one failed step otherwise.
\<close>

definition disciplined :: "'a io \<Rightarrow> bool" where
  "disciplined m \<longleftrightarrow>
     (\<forall>tr. \<exists>evs. snd (m tr) = tr @ evs \<and>
        (case fst (m tr) of Inr v \<Rightarrow> (\<forall>e \<in> set evs. \<not> failure e) | Inl err \<Rightarrow> fails_once err evs))"

text \<open>A waiting call with the round budget five, or no waiting call at all.\<close>

definition waits_five :: "event \<Rightarrow> bool" where
  "waits_five e \<longleftrightarrow> wait_budget e = None \<or> wait_budget e = Some 5"

text \<open>
  Scanning a trace from the left: a transaction is signed only after
  \<^verbatim>\<open>algosdk.assignGroupID\<close> has returned (\<open>assigned\<close> says whether it already has).
\<close>

fun assigns :: "event \<Rightarrow> bool" where
  "assigns (Called (AssignGroupID txns)) = True"
| "assigns _ = False"

fun signed_after_assignment :: "bool \<Rightarrow> event list \<Rightarrow> bool" where
  "signed_after_assignment assigned [] = True"
| "signed_after_assignment assigned (e # es) =
     ((signing e = [] \<or> assigned) \<and> signed_after_assignment (assigned \<or> assigns e) es)"

definition well_grouped :: "event list \<Rightarrow> bool" where
  "well_grouped evs \<longleftrightarrow>
     signed_after_assignment False evs \<and>
     (\<exists>g. \<forall>e \<in> set evs. \<forall>t \<in> set (signing e). txn_group t = Some g)"

text \<open>A computation that adds to the trace and can return nothing but \<open>v\<close>.\<close>

definition passes :: "'a \<Rightarrow> 'a io \<Rightarrow> bool" where
  "passes v m \<longleftrightarrow>
     (\<forall>tr. \<exists>evs. snd (m tr) = tr @ evs) \<and> (\<forall>tr out tr'. m tr = (Inr out, tr') \<longrightarrow> out = v)"

text \<open>
  A computation that, when it returns, returns \<open>g\<close> of what one of the calls \<open>W\<close>
  describes was answered at the moment it was made.
\<close>

definition returns_answer ::
    "(call \<Rightarrow> (trace \<Rightarrow> error + 'r) \<Rightarrow> bool) \<Rightarrow> ('r \<Rightarrow> 'a) \<Rightarrow> 'a io \<Rightarrow> bool" where
  "returns_answer W g m \<longleftrightarrow>
     (\<forall>tr out tr'. m tr = (Inr out, tr') \<longrightarrow>
        (\<exists>pre post c a v. W c a \<and> tr' = tr @ pre @ Called c # post \<and> a (tr @ pre) = Inr v \<and> out = g v))"

text \<open>The wait for a confirmation, and the execution of a composed group, with five rounds.\<close>

definition confirmation_wait :: "network \<Rightarrow> call \<Rightarrow> (trace \<Rightarrow> error + confirmation) \<Rightarrow> bool" where
  "confirmation_wait net c a \<longleftrightarrow>
     (\<exists>client txId. c = WaitForConfirmation client txId 5 \<and>
        a = (\<lambda>tr. node_waitForConfirmation (net client) tr txId 5))"

definition group_execution :: "network \<Rightarrow> call \<Rightarrow> (trace \<Rightarrow> error + atc_result) \<Rightarrow> bool" where
  "group_execution net c a \<longleftrightarrow>
     (\<exists>client atc. c = AtcExecute client atc 5 \<and> a = (\<lambda>tr. node_execute (net client) tr atc 5))"

text \<open>The four drivers, whose \<^verbatim>\<open>catch\<close> logs and does not throw again.\<close>

fun driver :: "operation \<Rightarrow> bool" where
  "driver (AccountOp Do_runAccountExamples) = True"
| "driver (TransactionOp Do_runTransactionExamples) = True"
| "driver (ContractOp Do_runSmartContractExamples) = True"
| "driver (ExamplesOp Do_runExamples) = True"
| "driver _ = False"

text \<open>
  The text an operation's \<^verbatim>\<open>catch\<close> block gives to \<^verbatim>\<open>console.error\<close>; \<open>None\<close> for the
  functions written without \<^verbatim>\<open>try\<close>.
\<close>

fun account_context :: "account_op \<Rightarrow> string option" where
  "account_context Do_generateAccount = None"
| "account_context (Do_recoverAccount mnemonic) = None"
| "account_context (Do_createMultisigAccount addresses threshold) = None"
| "account_context (Do_checkAccountInfo address) = Some ''Error checking account info:''"
| "account_context (Do_rekeyAccount account authAccount) = Some ''Error rekeying account:''"
| "account_context (Do_sendWithRekeyedAccount originalAccount authAccount receiverAddress amount) =
     Some ''Error sending with rekeyed account:''"
| "account_context Do_runAccountExamples = Some ''Error running account examples:''"

fun transaction_context :: "transaction_op \<Rightarrow> string option" where
  "transaction_context Do_getAlgodClient = None"
| "transaction_context (Do_sendPayment sender receiver amount note) = Some ''Error sending payment:''"
| "transaction_context (Do_createAsset creator assetName unitName totalIssuance decimals url metadataHash) =
     Some ''Error creating asset:''"
| "transaction_context (Do_configureAsset manager assetId newManager newReserve newFreeze newClawback) =
     Some ''Error configuring asset:''"
| "transaction_context (Do_optInToAsset account assetId) = Some ''Error opting in to asset:''"
| "transaction_context (Do_transferAsset sender receiver assetId amount) = Some ''Error transferring asset:''"
| "transaction_context (Do_freezeAsset freezeManager accountToFreeze assetId freeze) = Some ''Error freezing asset:''"
| "transaction_context (Do_revokeAsset clawbackManager revokeFrom revokeTo assetId amount) =
     Some ''Error revoking asset:''"
| "transaction_context (Do_destroyAsset manager assetId) = Some ''Error destroying asset:''"
| "transaction_context (Do_sendAtomicTransactions sender receivers amount) =
     Some ''Error sending atomic transactions:''"
| "transaction_context (Do_sendTransactionWithLease sender receiver amount lease) =
     Some ''Error sending transaction with lease:''"
| "transaction_context Do_runTransactionExamples = Some ''Error running transaction examples:''"

fun contract_context :: "contract_op \<Rightarrow> string option" where
  "contract_context (Do_compileProgram programSource) = Some ''Error compiling program:''"
| "contract_context (Do_createLogicSignature programSource args) = Some ''Error creating logic signature:''"
| "contract_context (Do_createDelegatedLogicSignature programSource delegatingAccount args) =
     Some ''Error creating delegated logic signature:''"
| "contract_context (Do_sendWithLogicSignature logicSigAccount receiver amount) =
     Some ''Error sending with LogicSig:''"
| "contract_context (Do_createApplication creator approvalProgram clearProgram globalInts globalBytes localInts localBytes) =
     Some ''Error creating application:''"
| "contract_context (Do_updateApplication creator appId approvalProgram clearProgram) =
     Some ''Error updating application:''"
| "contract_context (Do_optInToApplication account appId) = Some ''Error opting in to application:''"
| "contract_context (Do_callApplication sender appId appArgs accounts foreignApps foreignAssets) =
     Some ''Error calling application:''"
| "contract_context (Do_deleteApplication creator appId) = Some ''Error deleting application:''"
| "contract_context (Do_closeOutFromApplication account appId) = Some ''Error closing out from application:''"
| "contract_context (Do_clearApplicationState account appId) = Some ''Error clearing application state:''"
| "contract_context (Do_readGlobalState appId) = Some ''Error reading global state:''"
| "contract_context (Do_readLocalState account appId) = Some ''Error reading local state:''"
| "contract_context Do_runSmartContractExamples = Some ''Error running smart contract examples:''"

fun examples_context :: "examples_op \<Rightarrow> string option" where
  "examples_context Do_examples_generateAccount = None"
| "examples_context (Do_examples_recoverAccount mnemonic) = None"
| "examples_context Do_getIndexerClient = None"
| "examples_context (Do_examples_sendPayment sender receiver amount note) = Some ''Error sending payment:''"
| "examples_context (Do_examples_createAsset creator assetName unitName totalIssuance decimals) =
     Some ''Error creating asset:''"
| "examples_context (Do_examples_optInToAsset account assetId) = Some ''Error opting in to asset:''"
| "examples_context (Do_examples_transferAsset sender receiver assetId amount) = Some ''Error transferring asset:''"
| "examples_context (Do_examples_sendAtomicTransactions sender receiver1 receiver2 amount) =
     Some ''Error sending atomic transactions:''"
| "examples_context (Do_examples_compileProgram programSource) = Some ''Error compiling program:''"
| "examples_context (Do_examples_createLogicSignature programSource) = Some ''Error creating logic signature:''"
| "examples_context (Do_examples_createApplication creator approvalProgram clearProgram) =
     Some ''Error creating application:''"
| "examples_context (Do_examples_callApplication sender appId appArgs) = Some ''Error calling application:''"
| "examples_context (Do_examples_createMultisigAccount addresses threshold) = None"
| "examples_context (Do_sendMultisigTransaction multisigParams signers receiver amount) =
     Some ''Error sending multisig transaction:''"
| "examples_context (Do_callABIMethod sender appId methodName methodArgs) = Some ''Error calling ABI method:''"
| "examples_context Do_runExamples = Some ''Error running examples:''"

fun error_context :: "operation \<Rightarrow> string option" where
  "error_context (AccountOp op) = account_context op"
| "error_context (TransactionOp op) = transaction_context op"
| "error_context (ContractOp op) = contract_context op"
| "error_context (ExamplesOp op) = examples_context op"

text \<open>
  The operations that send a signed transaction and wait for its confirmation with
  \<^verbatim>\<open>algosdk.waitForConfirmation\<close>, and what each returns from the confirmation
  record: the two asset-creating functions return \<^verbatim>\<open>confirmedTxn.assetIndex\<close>, the two
  application-creating functions \<^verbatim>\<open>confirmedTxn.applicationIndex\<close>, the others the
  record itself.
\<close>

fun returned_from :: "operation \<Rightarrow> (confirmation \<Rightarrow> outcome) option" where
  "returned_from (AccountOp (Do_rekeyAccount account authAccount)) = Some ConfirmationValue"
| "returned_from (AccountOp (Do_sendWithRekeyedAccount originalAccount authAccount receiverAddress amount)) =
     Some ConfirmationValue"
| "returned_from (AccountOp _) = None"
| "returned_from (TransactionOp Do_getAlgodClient) = None"
| "returned_from (TransactionOp Do_runTransactionExamples) = None"
| "returned_from (TransactionOp (Do_createAsset creator assetName unitName totalIssuance decimals url metadataHash)) =
     Some (\<lambda>c. IdValue (assetIndex c))"
| "returned_from (TransactionOp _) = Some ConfirmationValue"
| "returned_from (ContractOp (Do_sendWithLogicSignature logicSigAccount receiver amount)) =
     Some ConfirmationValue"
| "returned_from (ContractOp (Do_createApplication creator approvalProgram clearProgram globalInts globalBytes localInts localBytes)) =
     Some (\<lambda>c. IdValue (applicationIndex c))"
| "returned_from (ContractOp (Do_updateApplication creator appId approvalProgram clearProgram)) =
     Some ConfirmationValue"
| "returned_from (ContractOp (Do_optInToApplication account appId)) = Some ConfirmationValue"
| "returned_from (ContractOp (Do_callApplication sender appId appArgs accounts foreignApps foreignAssets)) =
     Some ConfirmationValue"
| "returned_from (ContractOp (Do_deleteApplication creator appId)) = Some ConfirmationValue"
| "returned_from (ContractOp (Do_closeOutFromApplication account appId)) = Some ConfirmationValue"
| "returned_from (ContractOp (Do_clearApplicationState account appId)) = Some ConfirmationValue"
| "returned_from (ContractOp _) = None"
| "returned_from (ExamplesOp (Do_examples_sendPayment sender receiver amount note)) = Some ConfirmationValue"
| "returned_from (ExamplesOp (Do_examples_createAsset creator assetName unitName totalIssuance decimals)) =
     Some (\<lambda>c. IdValue (assetIndex c))"
| "returned_from (ExamplesOp (Do_examples_optInToAsset account assetId)) = Some ConfirmationValue"
| "returned_from (ExamplesOp (Do_examples_transferAsset sender receiver assetId amount)) =
     Some ConfirmationValue"
| "returned_from (ExamplesOp (Do_examples_sendAtomicTransactions sender receiver1 receiver2 amount)) =
     Some ConfirmationValue"
| "returned_from (ExamplesOp (Do_examples_createApplication creator approvalProgram clearProgram)) =
     Some (\<lambda>c. IdValue (applicationIndex c))"
| "returned_from (ExamplesOp (Do_examples_callApplication sender appId appArgs)) = Some ConfirmationValue"
| "returned_from (ExamplesOp (Do_sendMultisigTransaction multisigParams signers receiver amount)) =
     Some ConfirmationValue"
| "returned_from (ExamplesOp _) = None"

section \<open>What the spec requires of the SDK\<close>

text \<open>
  Modelled from the spec: the SDK's key generation and its conversions between a
  secret key and a backup phrase (\<^verbatim>\<open>generateAccount\<close>, \<^verbatim>\<open>secretKeyToMnemonic\<close>,
  \<^verbatim>\<open>mnemonicToSecretKey\<close>) are not part of the repository. The spec asks of them a
  "deterministic round-trip: phrase \<rightarrow> keys \<rightarrow> same address": the phrase derived from the key
  of a generated account decodes to an account with the same address.
\<close>

definition phrase_round_trip :: "algosdk \<Rightarrow> bool" where
  "phrase_round_trip sdk \<longleftrightarrow>
     (\<forall>h account mnemonic.
        sdk_generateAccount sdk h = Inr account \<and>
        sdk_secretKeyToMnemonic sdk (sk account) = Inr mnemonic \<longrightarrow>
          (\<exists>recovered. sdk_mnemonicToSecretKey sdk mnemonic = Inr recovered \<and>
             toString (addr recovered) = toString (addr account)))"

text \<open>
  Modelled from the spec: \<^verbatim>\<open>algosdk.assignGroupID\<close> is not part of the repository. The
  spec asks that "assigning a group identifier to a set of prepared requests must make
  every request in the set carry the same identifier": when the call returns, the array
  holds as many transactions as before, all carrying one group identifier. For the empty
  array the spec allows the call to fail or to mean nothing, so nothing is asked there
  beyond the length.
\<close>

definition assigns_one_group :: "algosdk \<Rightarrow> bool" where
  "assigns_one_group sdk \<longleftrightarrow>
     (\<forall>txns after. sdk_assignGroupID sdk txns = Inr after \<longrightarrow>
        length after = length txns \<and> (\<exists>g. \<forall>t \<in> set after. txn_group t = Some g))"

section \<open>A scripted SDK and node\<close>

text \<open>
  Small stand-ins for the SDK and the node, to run the functions on concrete inputs. The
  scripted SDK accepts a phrase made of the letter \<open>w\<close> only, refuses to group an empty
  array, and builds and signs everything else; its stand-ins for \<^verbatim>\<open>TextEncoder\<close> and
  \<^verbatim>\<open>Buffer\<close> pass characters through as bytes and back. The scripted node answers
  every request; application 5 is the only one with state.
\<close>

definition scripted_sdk :: algosdk where
  "scripted_sdk =
     \<lparr>sdk_generateAccount = (\<lambda>tr. Inr \<lparr>addr = Address (replicate (Suc (length tr)) CHR ''A''),
                                        sk = replicate (Suc (length tr)) 1\<rparr>),
      sdk_secretKeyToMnemonic = (\<lambda>key. Inr (replicate (length key) CHR ''w'')),
      sdk_mnemonicToSecretKey = (\<lambda>mn. if mn \<noteq> [] \<and> list_all (\<lambda>c. c = CHR ''w'') mn
                                   then Inr \<lparr>addr = Address (replicate (length mn) CHR ''A''),
                                            sk = replicate (length mn) 1\<rparr>
                                   else Inl (Error ''invalid mnemonic'')),
      sdk_multisigAddress = (\<lambda>p. if msig_addrs p = [] then Inl (Error ''no addresses'')
                                else Inr (Address ''MULTISIG'')),
      sdk_makeTxn = (\<lambda>req. Inr \<lparr>txn_fields = req, txn_group = None\<rparr>),
      sdk_signTxn = (\<lambda>txn key. Inr key),
      sdk_assignGroupID = (\<lambda>txns. if txns = [] then Inl (Error ''empty group'')
                                 else Inr (map (\<lambda>t. t\<lparr>txn_group := Some [1]\<rparr>) txns)),
      sdk_signMultisigTransaction = (\<lambda>txn p key. Inr \<lparr>blob_txID = ''TXID'', blob = key\<rparr>),
      sdk_appendSignMultisigTransaction = (\<lambda>b p key. Inr \<lparr>blob_txID = ''TXID'', blob = b @ key\<rparr>),
      sdk_LogicSigAccount = (\<lambda>program args. Inr \<lparr>lsig_program = program, lsig_args = or_empty args,
                                                   lsig_sig = None\<rparr>),
      sdk_lsig_sign = (\<lambda>l key. Inr (l\<lparr>lsig_sig := Some key\<rparr>)),
      sdk_lsig_address = (\<lambda>l. Address ''LOGICSIG''),
      sdk_signLogicSigTransaction = (\<lambda>txn l. Inr \<lparr>blob_txID = ''TXID'', blob = lsig_program l\<rparr>),
      sdk_ABIContract = (\<lambda>c. Inr c),
      sdk_getMethodByName = (\<lambda>c n. case find (\<lambda>m. method_name m = n) (contract_methods c) of
                                     None \<Rightarrow> Inl (Error ''no such method'') | Some m \<Rightarrow> Inr m),
      sdk_addMethodCall = (\<lambda>atc mc. Inr (atc @ [mc])),
      TextEncoder_encode = map of_char,
      Buffer_from_base64 = map of_char,
      Buffer_toString = map (\<lambda>b. char_of (unat b))\<rparr>"

definition scripted_params :: suggested_params where
  "scripted_params = \<lparr>sp_fee = 1000, sp_firstValid = 1, sp_lastValid = 1001, sp_genesisID = ''testnet-v1.0''\<rparr>"

definition scripted_confirmation :: confirmation where
  "scripted_confirmation = \<lparr>confirmedRound = Some 42, assetIndex = Some 7, applicationIndex = Some 9\<rparr>"

definition scripted_state :: "state_item list" where
  "scripted_state =
     [\<lparr>si_key = ''counter'', si_value = \<lparr>tv_type = 2, tv_bytes = '''', tv_uint = 3\<rparr>\<rparr>,
      \<lparr>si_key = ''owner'', si_value = \<lparr>tv_type = 1, tv_bytes = ''alice'', tv_uint = 0\<rparr>\<rparr>]"

definition scripted_node :: network where
  "scripted_node client =
     \<lparr>node_getTransactionParams = (\<lambda>tr. Inr scripted_params),
      node_sendRawTransaction = (\<lambda>tr stxn. Inr ''TXID''),
      node_waitForConfirmation = (\<lambda>tr txId rounds. Inr scripted_confirmation),
      node_compile = (\<lambda>tr src. Inr \<lparr>compiled_result = ''AQ==''\<rparr>),
      node_getApplicationByID = (\<lambda>tr appId. Inr \<lparr>app_id = appId,
                                                app_params = \<lparr>global_state = (if appId = 5 then Some scripted_state
                                                                              else None)\<rparr>\<rparr>),
      node_accountInformation = (\<lambda>tr a. Inr \<lparr>ai_amount = 1000000, ai_status = ''Offline'', ai_assets = None,
                                            ai_created_apps = None,
                                            ai_apps_local_state =
                                              Some [\<lparr>als_id = 5, als_key_value = Some scripted_state\<rparr>]\<rparr>),
      node_execute = (\<lambda>tr atc rounds. Inr \<lparr>res_confirmedRound = 42, res_txIDs = [''TXID''],
                                           res_methodResults = [\<lparr>returnValue = Some (AbiUint 1)\<rparr>]\<rparr>)\<rparr>"

text \<open>The same node, rejecting every submitted transaction.\<close>

definition rejecting_node :: network where
  "rejecting_node client =
     (scripted_node client)\<lparr>node_sendRawTransaction := (\<lambda>tr stxn. Inl (Error ''rejected''))\<rparr>"

text \<open>The same SDK, unable to generate a key pair.\<close>

definition refusing_sdk :: algosdk where
  "refusing_sdk = scripted_sdk\<lparr>sdk_generateAccount := (\<lambda>tr. Inl (Error ''no randomness''))\<rparr>"

definition alice :: account where
  "alice = \<lparr>addr = Address ''ALICE'', sk = [1, 2, 3]\<rparr>"

definition bob :: account where
  "bob = \<lparr>addr = Address ''BOB'', sk = [4, 5, 6]\<rparr>"

section \<open>Running a sequence step by step\<close>

lemma and_then_external:
  "and_then (external c a) f tr =
     (case a tr of Inl e \<Rightarrow> (Inl e, tr @ [Failed c e]) | Inr v \<Rightarrow> f v (tr @ [Called c]))"
  by (simp add: and_then_def external_def split: sum.splits)

lemma and_then_console_log: "and_then (console_log t vs) f tr = f () (tr @ [ConsoleLog t vs])"
  by (simp add: and_then_def console_log_def)

lemma and_then_console_error: "and_then (console_error t e) f tr = f () (tr @ [ConsoleError t e])"
  by (simp add: and_then_def console_error_def)

lemma try_catch_cases:
  "try_catch m h tr = (case m tr of (Inl e, tr') \<Rightarrow> h e tr' | (Inr v, tr') \<Rightarrow> (Inr v, tr'))"
  by (simp add: try_catch_def)

lemma requests_built_append: "requests_built (xs @ ys) = requests_built xs @ requests_built ys"
  by (simp add: requests_built_def)

lemma requests_built_Nil: "requests_built [] = []"
  by (simp add: requests_built_def)

lemma requests_built_Cons: "requests_built (e # es) = built e @ requests_built es"
  by (simp add: requests_built_def)

lemmas requests_built_simps = requests_built_append requests_built_Nil requests_built_Cons

lemmas sdk_calls = algosdk_generateAccount_def algosdk_secretKeyToMnemonic_def
  algosdk_mnemonicToSecretKey_def algosdk_multisigAddress_def algosdk_makeTxn_def signTxn_def
  algosdk_assignGroupID_def algosdk_signMultisigTransaction_def
  algosdk_appendSignMultisigTransaction_def algosdk_LogicSigAccount_def lsig_sign_def
  algosdk_signLogicSigTransaction_def algosdk_ABIContract_def getMethodByName_def addMethodCall_def

lemmas node_calls = getTransactionParams_do_def sendRawTransaction_do_def
  algosdk_waitForConfirmation_def compile_do_def getApplicationByID_do_def
  accountInformation_do_def atc_execute_def

lemmas step = and_then_external and_then_console_log and_then_console_error try_catch_cases
  raise_def done_with_def Let_def

text \<open>Unfolding everything, to run a function on the scripted SDK and node.\<close>

lemmas fixtures = scripted_sdk_def refusing_sdk_def scripted_node_def rejecting_node_def scripted_params_def
  scripted_confirmation_def scripted_state_def alice_def bob_def getAlgodClient_def

lemmas evaluate = and_then_def try_catch_def external_def console_log_def console_error_def
  raise_def done_with_def Let_def returning_def sdk_calls node_calls fixtures

section \<open>The request an opt-in is built from\<close>

text \<open>
  C5. For every account and asset identifier, \<^verbatim>\<open>optInToAsset\<close> hands the SDK's
  asset-transfer builder exactly one request, as soon as the suggested parameters have
  arrived: sender and receiver are both the account's address, the amount is zero, the
  asset index is the given one, no clawback sender is set. Apart from the suggested
  parameters the request depends on nothing the node says. The function of the same name
  in the combined examples file builds the same request.
\<close>

theorem optInToAsset_request:
  "requests_built (snd (optInToAsset sdk net account assetId tr)) =
     requests_built tr @
     (case node_getTransactionParams (net getAlgodClient) tr of
        Inl e \<Rightarrow> []
      | Inr suggestedParams \<Rightarrow>
          [AssetTransferTxn
             \<lparr>xfer_sender = AddrObject (addr account),
              xfer_receiver = AddrObject (addr account),
              xfer_assetSender = None,
              xfer_amount = 0,
              xfer_assetIndex = assetId,
              xfer_suggestedParams = suggestedParams\<rparr>])
   \<and> requests_built (snd (examples_optInToAsset sdk net account assetId tr)) =
     requests_built (snd (optInToAsset sdk net account assetId tr))"
  by (simp add: optInToAsset_def examples_optInToAsset_def sdk_calls node_calls step
      requests_built_simps split: sum.splits)

section \<open>The note of a payment\<close>

text \<open>
  C9. \<^verbatim>\<open>sendPayment\<close> of the transaction operations file hands the payment builder
  exactly one request once the suggested parameters have arrived. Its note is absent when
  the note argument is omitted or is the empty string, and is what the platform's
  \<^verbatim>\<open>TextEncoder\<close> (a UTF-8 encoder) makes of the string otherwise.
\<close>

theorem sendPayment_note:
  "requests_built (snd (sendPayment sdk net sender receiver amount note tr)) =
     requests_built tr @
     (case node_getTransactionParams (net getAlgodClient) tr of
        Inl e \<Rightarrow> []
      | Inr suggestedParams \<Rightarrow>
          [PaymentTxn
             \<lparr>pay_sender = AddrObject (addr sender),
              pay_receiver = AddrText (address_string receiver),
              pay_amount = amount,
              pay_note = (case note of
                            None \<Rightarrow> None
                          | Some text \<Rightarrow> if text = '''' then None else Some (TextEncoder_encode sdk text)),
              pay_rekeyTo = None,
              pay_lease = None,
              pay_suggestedParams = suggestedParams\<rparr>])"
  by (simp add: sendPayment_def sdk_calls node_calls step requests_built_simps
      split: sum.splits option.splits)

section \<open>What a computation adds to the trace\<close>

lemma only_done_with: "only P (done_with v)"
  by (simp add: only_def done_with_def)

lemma only_raise: "only P (raise e)"
  by (simp add: only_def raise_def)

lemma only_external: "P (Called c) \<Longrightarrow> (\<And>e. P (Failed c e)) \<Longrightarrow> only P (external c a)"
  by (auto simp: only_def external_def split: sum.splits)

lemma only_console_log: "P (ConsoleLog t vs) \<Longrightarrow> only P (console_log t vs)"
  by (simp add: only_def console_log_def)

lemma only_console_error: "P (ConsoleError t e) \<Longrightarrow> only P (console_error t e)"
  by (simp add: only_def console_error_def)

lemma only_and_then:
  assumes "only P m" and "\<And>v. only P (f v)"
  shows "only P (and_then m f)"
  unfolding only_def
proof
  fix tr
  from assms(1) obtain evs where m: "snd (m tr) = tr @ evs" "\<forall>e \<in> set evs. P e"
    unfolding only_def by blast
  show "\<exists>evs. snd (and_then m f tr) = tr @ evs \<and> (\<forall>e \<in> set evs. P e)"
  proof (cases "fst (m tr)")
    case (Inl e)
    then have "and_then m f tr = (Inl e, tr @ evs)"
      using m(1) by (cases "m tr") (simp add: and_then_def)
    with m(2) show ?thesis by auto
  next
    case (Inr v)
    then have eq: "and_then m f tr = f v (tr @ evs)"
      using m(1) by (cases "m tr") (simp add: and_then_def)
    from assms(2) [of v] obtain evs' where
      "snd (f v (tr @ evs)) = (tr @ evs) @ evs'" "\<forall>e \<in> set evs'. P e"
      unfolding only_def by blast
    with m(2) eq show ?thesis by (intro exI [of _ "evs @ evs'"]) auto
  qed
qed

lemma only_try_catch:
  assumes "only P m" and "\<And>e. only P (h e)"
  shows "only P (try_catch m h)"
  unfolding only_def
proof
  fix tr
  from assms(1) obtain evs where m: "snd (m tr) = tr @ evs" "\<forall>e \<in> set evs. P e"
    unfolding only_def by blast
  show "\<exists>evs. snd (try_catch m h tr) = tr @ evs \<and> (\<forall>e \<in> set evs. P e)"
  proof (cases "fst (m tr)")
    case (Inr v)
    then have "try_catch m h tr = (Inr v, tr @ evs)"
      using m(1) by (cases "m tr") (simp add: try_catch_def)
    with m(2) show ?thesis by auto
  next
    case (Inl e)
    then have eq: "try_catch m h tr = h e (tr @ evs)"
      using m(1) by (cases "m tr") (simp add: try_catch_def)
    from assms(2) [of e] obtain evs' where
      "snd (h e (tr @ evs)) = (tr @ evs) @ evs'" "\<forall>e \<in> set evs'. P e"
      unfolding only_def by blast
    with m(2) eq show ?thesis by (intro exI [of _ "evs @ evs'"]) auto
  qed
qed

lemma only_map_io_set: "(\<And>x. x \<in> set xs \<Longrightarrow> only P (f x)) \<Longrightarrow> only P (map_io f xs)"
  by (induction xs) (auto intro!: only_done_with only_and_then)

lemma only_map_io: "(\<And>x. only P (f x)) \<Longrightarrow> only P (map_io f xs)"
  by (rule only_map_io_set)

lemma only_for_each: "(\<And>x. only P (f x)) \<Longrightarrow> only P (for_each f xs)"
  by (induction xs) (auto intro!: only_done_with only_and_then)

lemma only_case_option:
  "only P a \<Longrightarrow> (\<And>y. only P (b y)) \<Longrightarrow> only P (case x of None \<Rightarrow> a | Some y \<Rightarrow> b y)"
  by (cases x) auto

lemma only_case_list:
  "only P a \<Longrightarrow> (\<And>y ys. only P (b y ys)) \<Longrightarrow> only P (case xs of [] \<Rightarrow> a | y # ys \<Rightarrow> b y ys)"
  by (cases xs) auto

lemma only_case_prod: "(\<And>a b. only P (f a b)) \<Longrightarrow> only P (case p of (a, b) \<Rightarrow> f a b)"
  by (cases p) auto

lemma only_if: "only P a \<Longrightarrow> only P b \<Longrightarrow> only P (if c then a else b)"
  by simp

lemma only_let: "only P (f x) \<Longrightarrow> only P (Let x f)"
  by simp

lemma only_append_signatures:
  "(\<And>b p k. P (Called (AppendSignMultisigTransaction b p k))) \<Longrightarrow>
   (\<And>b p k e. P (Failed (AppendSignMultisigTransaction b p k) e)) \<Longrightarrow>
   only P (append_signatures sdk multisigParams signedTxn signers)"
  by (induction signers arbitrary: signedTxn)
     (auto intro!: only_done_with only_and_then only_external simp: sdk_calls)

lemmas only_intros = only_done_with only_raise only_console_log only_console_error
  only_and_then only_try_catch only_map_io only_for_each only_case_option only_case_list
  only_case_prod only_if only_let only_append_signatures only_external

lemma run_result:
  "only P m \<Longrightarrow> m tr = (r, tr') \<Longrightarrow> \<exists>evs. tr' = tr @ evs \<and> (\<forall>e \<in> set evs. P e)"
  unfolding only_def by (metis snd_conv)

text \<open>The cases of one step.\<close>

lemma and_then_run:
  "and_then m f tr = (r, tr') \<Longrightarrow>
     (\<exists>e. m tr = (Inl e, tr') \<and> r = Inl e) \<or> (\<exists>v tr1. m tr = (Inr v, tr1) \<and> f v tr1 = (r, tr'))"
  by (cases "m tr") (auto simp: and_then_def split: sum.splits)

lemma rethrow_run:
  "try_catch m (\<lambda>error. and_then (console_error label error) (\<lambda>_. raise error)) tr = (r, tr') \<Longrightarrow>
     (\<exists>v. m tr = (Inr v, tr') \<and> r = Inr v) \<or>
     (\<exists>e tr1. m tr = (Inl e, tr1) \<and> r = Inl e \<and> tr' = tr1 @ [ConsoleError label e])"
  by (cases "m tr")
     (auto simp: try_catch_def and_then_def console_error_def raise_def split: sum.splits)

lemma external_run:
  "external c a tr = (r, tr') \<Longrightarrow>
     (\<exists>e. a tr = Inl e \<and> r = Inl e \<and> tr' = tr @ [Failed c e]) \<or>
     (\<exists>v. a tr = Inr v \<and> r = Inr v \<and> tr' = tr @ [Called c])"
  by (cases "a tr") (fastforce simp: external_def)+

lemma returning_Inl: "returning wrap m tr = (Inl err, tr') \<longleftrightarrow> m tr = (Inl err, tr')"
  by (cases "m tr") (auto simp: returning_def and_then_def done_with_def split: sum.splits)

text \<open>The bodies of all operations, to unfold them.\<close>

lemmas account_ops = generateAccount_def recoverAccount_def createMultisigAccount_def
  checkAccountInfo_def rekeyAccount_def sendWithRekeyedAccount_def runAccountExamples_def

lemmas transaction_ops = sendPayment_def createAsset_def configureAsset_def optInToAsset_def
  transferAsset_def freezeAsset_def revokeAsset_def destroyAsset_def sendAtomicTransactions_def
  sendTransactionWithLease_def runTransactionExamples_def

lemmas contract_ops = compileProgram_def createLogicSignature_def createDelegatedLogicSignature_def
  sendWithLogicSignature_def createApplication_def updateApplication_def optInToApplication_def
  callApplication_def deleteApplication_def closeOutFromApplication_def clearApplicationState_def
  readGlobalState_def readLocalState_def runSmartContractExamples_def

lemmas examples_ops = examples_generateAccount_def examples_recoverAccount_def
  examples_sendPayment_def examples_createAsset_def examples_optInToAsset_def
  examples_transferAsset_def examples_sendAtomicTransactions_def examples_compileProgram_def
  examples_createLogicSignature_def examples_createApplication_def examples_callApplication_def
  examples_createMultisigAccount_def sendMultisigTransaction_def callABIMethod_def runExamples_def

lemmas unfold_ops = run.simps run_account_op.simps run_transaction_op.simps run_contract_op.simps
  run_examples_op.simps returning_def account_ops transaction_ops contract_ops examples_ops
  sdk_calls node_calls property_of_undefined_def

section \<open>One failed step ends a run\<close>

lemma fails_onceI:
  "(\<forall>e \<in> set before. \<not> failure e) \<Longrightarrow> (\<forall>l \<in> set logs. \<exists>label. l = ConsoleError label err) \<Longrightarrow>
   fails_once err (before @ Failed c err # logs)"
  unfolding fails_once_def by blast

lemma fails_once_prepend:
  assumes "fails_once err evs" and "\<forall>e \<in> set quiet. \<not> failure e"
  shows "fails_once err (quiet @ evs)"
proof -
  from assms(1) obtain before c logs where evs: "evs = before @ Failed c err # logs"
    and before: "\<forall>e \<in> set before. \<not> failure e"
    and logs: "\<forall>l \<in> set logs. \<exists>label. l = ConsoleError label err"
    unfolding fails_once_def by blast
  have "fails_once err ((quiet @ before) @ Failed c err # logs)"
    using assms(2) before logs by (intro fails_onceI) auto
  then show ?thesis by (simp add: evs)
qed

lemma fails_once_log:
  assumes "fails_once err evs"
  shows "fails_once err (evs @ [ConsoleError label err])"
proof -
  from assms obtain before c logs where evs: "evs = before @ Failed c err # logs"
    and before: "\<forall>e \<in> set before. \<not> failure e"
    and logs: "\<forall>l \<in> set logs. \<exists>label. l = ConsoleError label err"
    unfolding fails_once_def by blast
  have "fails_once err (before @ Failed c err # (logs @ [ConsoleError label err]))"
    using before logs by (intro fails_onceI) auto
  then show ?thesis by (simp add: evs)
qed

lemma disciplined_done_with: "disciplined (done_with v)"
  by (simp add: disciplined_def done_with_def)

lemma disciplined_console_log: "disciplined (console_log t vs)"
  by (simp add: disciplined_def console_log_def)

lemma disciplined_external: "disciplined (external c a)"
  unfolding disciplined_def
proof
  fix tr
  show "\<exists>evs. snd (external c a tr) = tr @ evs \<and>
          (case fst (external c a tr) of
             Inr v \<Rightarrow> \<forall>e \<in> set evs. \<not> failure e
           | Inl err \<Rightarrow> fails_once err evs)"
  proof (cases "a tr")
    case (Inl e)
    have "fails_once e ([] @ Failed c e # [])" by (rule fails_onceI) simp_all
    with Inl show ?thesis by (simp add: external_def)
  next
    case (Inr v)
    then show ?thesis by (simp add: external_def)
  qed
qed

lemma disciplined_and_then:
  assumes "disciplined m" and "\<And>v. disciplined (f v)"
  shows "disciplined (and_then m f)"
  unfolding disciplined_def
proof
  fix tr
  from assms(1) obtain evs where m: "snd (m tr) = tr @ evs"
    and shape: "case fst (m tr) of Inr v \<Rightarrow> \<forall>e \<in> set evs. \<not> failure e | Inl err \<Rightarrow> fails_once err evs"
    unfolding disciplined_def by blast
  show "\<exists>evs. snd (and_then m f tr) = tr @ evs \<and>
          (case fst (and_then m f tr) of
             Inr v \<Rightarrow> \<forall>e \<in> set evs. \<not> failure e
           | Inl err \<Rightarrow> fails_once err evs)"
  proof (cases "fst (m tr)")
    case (Inl e)
    then have "and_then m f tr = (Inl e, tr @ evs)"
      using m by (cases "m tr") (simp add: and_then_def)
    with shape Inl show ?thesis by simp
  next
    case (Inr v)
    then have eq: "and_then m f tr = f v (tr @ evs)"
      using m by (cases "m tr") (simp add: and_then_def)
    from shape Inr have quiet: "\<forall>e \<in> set evs. \<not> failure e" by simp
    from assms(2) [of v] obtain evs' where f: "snd (f v (tr @ evs)) = (tr @ evs) @ evs'"
      and shape': "case fst (f v (tr @ evs)) of
                     Inr v \<Rightarrow> \<forall>e \<in> set evs'. \<not> failure e
                   | Inl err \<Rightarrow> fails_once err evs'"
      unfolding disciplined_def by blast
    show ?thesis
    proof (intro exI [of _ "evs @ evs'"] conjI)
      show "snd (and_then m f tr) = tr @ evs @ evs'" using eq f by simp
      show "case fst (and_then m f tr) of
              Inr v \<Rightarrow> \<forall>e \<in> set (evs @ evs'). \<not> failure e
            | Inl err \<Rightarrow> fails_once err (evs @ evs')"
        using shape' quiet eq by (auto split: sum.splits intro: fails_once_prepend)
    qed
  qed
qed

text \<open>The \<^verbatim>\<open>catch\<close> block of every function that has one: log, then throw the same value.\<close>

lemma disciplined_rethrow:
  assumes "disciplined m"
  shows "disciplined (try_catch m (\<lambda>error. and_then (console_error label error) (\<lambda>_. raise error)))"
  unfolding disciplined_def
proof
  fix tr
  let ?h = "\<lambda>error. and_then (console_error label error) (\<lambda>_. raise error)"
  from assms obtain evs where m: "snd (m tr) = tr @ evs"
    and shape: "case fst (m tr) of Inr v \<Rightarrow> \<forall>e \<in> set evs. \<not> failure e | Inl err \<Rightarrow> fails_once err evs"
    unfolding disciplined_def by blast
  show "\<exists>evs. snd (try_catch m ?h tr) = tr @ evs \<and>
          (case fst (try_catch m ?h tr) of
             Inr v \<Rightarrow> \<forall>e \<in> set evs. \<not> failure e
           | Inl err \<Rightarrow> fails_once err evs)"
  proof (cases "fst (m tr)")
    case (Inr v)
    then have "try_catch m ?h tr = (Inr v, tr @ evs)"
      using m by (cases "m tr") (simp add: try_catch_def)
    with shape Inr show ?thesis by simp
  next
    case (Inl e)
    then have "try_catch m ?h tr = (Inl e, tr @ evs @ [ConsoleError label e])"
      using m by (cases "m tr") (simp add: try_catch_def and_then_def console_error_def raise_def)
    moreover from shape Inl have "fails_once e (evs @ [ConsoleError label e])"
      by (simp add: fails_once_log)
    ultimately show ?thesis by simp
  qed
qed

lemma disciplined_map_io: "(\<And>x. disciplined (f x)) \<Longrightarrow> disciplined (map_io f xs)"
  by (induction xs) (auto intro!: disciplined_done_with disciplined_and_then)

lemma disciplined_for_each: "(\<And>x. disciplined (f x)) \<Longrightarrow> disciplined (for_each f xs)"
  by (induction xs) (auto intro!: disciplined_done_with disciplined_and_then)

lemma disciplined_case_option:
  "disciplined a \<Longrightarrow> (\<And>y. disciplined (b y)) \<Longrightarrow> disciplined (case x of None \<Rightarrow> a | Some y \<Rightarrow> b y)"
  by (cases x) auto

lemma disciplined_case_list:
  "disciplined a \<Longrightarrow> (\<And>y ys. disciplined (b y ys)) \<Longrightarrow>
   disciplined (case xs of [] \<Rightarrow> a | y # ys \<Rightarrow> b y ys)"
  by (cases xs) auto

lemma disciplined_case_prod: "(\<And>a b. disciplined (f a b)) \<Longrightarrow> disciplined (case p of (a, b) \<Rightarrow> f a b)"
  by (cases p) auto

lemma disciplined_if: "disciplined a \<Longrightarrow> disciplined b \<Longrightarrow> disciplined (if c then a else b)"
  by simp

lemma disciplined_let: "disciplined (f x) \<Longrightarrow> disciplined (Let x f)"
  by simp

lemma disciplined_append_signatures: "disciplined (append_signatures sdk multisigParams signedTxn signers)"
  by (induction signers arbitrary: signedTxn)
     (auto intro!: disciplined_done_with disciplined_and_then disciplined_external simp: sdk_calls)

lemmas disciplined_intros = disciplined_done_with disciplined_console_log disciplined_rethrow
  disciplined_and_then disciplined_map_io disciplined_for_each disciplined_case_option
  disciplined_case_list disciplined_case_prod disciplined_if disciplined_let
  disciplined_append_signatures disciplined_external

lemma disciplined_account_op:
  "op \<noteq> Do_runAccountExamples \<Longrightarrow> disciplined (run_account_op sdk net op)"
  by (cases op; simp only: unfold_ops; (intro disciplined_intros allI)?; simp)

lemma disciplined_transaction_op:
  "op \<noteq> Do_runTransactionExamples \<Longrightarrow> disciplined (run_transaction_op sdk net op)"
  by (cases op; simp only: unfold_ops; (intro disciplined_intros allI)?; simp)

lemma disciplined_contract_op:
  "op \<noteq> Do_runSmartContractExamples \<Longrightarrow> disciplined (run_contract_op sdk net op)"
  by (cases op; simp only: unfold_ops; (intro disciplined_intros allI)?; simp)

lemma disciplined_examples_op:
  "op \<noteq> Do_runExamples \<Longrightarrow> disciplined (run_examples_op sdk net op)"
  by (cases op; simp only: unfold_ops; (intro disciplined_intros allI)?; simp)

lemma run_disciplined: "\<not> driver op \<Longrightarrow> disciplined (run sdk net op)"
  by (cases op)
     (auto intro: disciplined_account_op disciplined_transaction_op disciplined_contract_op
        disciplined_examples_op)

lemma rethrow_logs_last:
  "try_catch m (\<lambda>error. and_then (console_error label error) (\<lambda>_. raise error)) tr = (Inl err, tr') \<Longrightarrow>
   \<exists>tr1. tr' = tr1 @ [ConsoleError label err]"
  by (cases "m tr")
     (auto simp: try_catch_def and_then_def console_error_def raise_def split: sum.splits)

lemma account_op_logs_last:
  "account_context op = Some label \<Longrightarrow> op \<noteq> Do_runAccountExamples \<Longrightarrow>
   run_account_op sdk net op tr = (Inl err, tr') \<Longrightarrow> \<exists>tr1. tr' = tr1 @ [ConsoleError label err]"
  by (cases op; simp add: returning_Inl account_ops Let_def; (drule rethrow_logs_last)?; simp)

lemma transaction_op_logs_last:
  "transaction_context op = Some label \<Longrightarrow> op \<noteq> Do_runTransactionExamples \<Longrightarrow>
   run_transaction_op sdk net op tr = (Inl err, tr') \<Longrightarrow> \<exists>tr1. tr' = tr1 @ [ConsoleError label err]"
  by (cases op; simp add: returning_Inl transaction_ops Let_def done_with_def;
      (drule rethrow_logs_last)?; simp)

lemma contract_op_logs_last:
  "contract_context op = Some label \<Longrightarrow> op \<noteq> Do_runSmartContractExamples \<Longrightarrow>
   run_contract_op sdk net op tr = (Inl err, tr') \<Longrightarrow> \<exists>tr1. tr' = tr1 @ [ConsoleError label err]"
  by (cases op; simp add: returning_Inl contract_ops Let_def; (drule rethrow_logs_last)?; simp)

lemma examples_op_logs_last:
  "examples_context op = Some label \<Longrightarrow> op \<noteq> Do_runExamples \<Longrightarrow>
   run_examples_op sdk net op tr = (Inl err, tr') \<Longrightarrow> \<exists>tr1. tr' = tr1 @ [ConsoleError label err]"
  by (cases op; simp add: returning_Inl examples_ops Let_def done_with_def;
      (drule rethrow_logs_last)?; simp)

lemma run_logs_last:
  "error_context op = Some label \<Longrightarrow> \<not> driver op \<Longrightarrow>
   run sdk net op tr = (Inl err, tr') \<Longrightarrow> \<exists>tr1. tr' = tr1 @ [ConsoleError label err]"
  by (cases op)
     (auto dest: account_op_logs_last transaction_op_logs_last contract_op_logs_last
        examples_op_logs_last)

lemma no_catch_no_log: "error_context op = None \<Longrightarrow> only (\<lambda>e. \<not> error_log e) (run sdk net op)"
  apply (cases op)
  subgoal for x by (cases x; simp only: unfold_ops; (intro only_intros allI)?; simp)
  subgoal for x by (cases x; simp only: unfold_ops; (intro only_intros allI)?; simp)
  subgoal for x by (cases x; simp only: unfold_ops; (intro only_intros allI)?; simp)
  subgoal for x by (cases x; simp only: unfold_ops; (intro only_intros allI)?; simp)
  done

text \<open>
  The \<^verbatim>\<open>catch\<close> block of a driver: log, and return. Around a body that itself logs no
  error, the run returns; either no step failed and no error was logged, or it ends with
  the one failed step followed by the log of its error.
\<close>

lemma swallow_run:
  assumes m: "disciplined m" and quiet: "only (\<lambda>e. \<not> error_log e) m"
    and ran: "and_then (try_catch m (\<lambda>error. console_error label error)) (\<lambda>v. done_with NoValue) tr = (r, tr')"
  shows "r = Inr NoValue \<and>
         (\<exists>evs. tr' = tr @ evs \<and>
            ((\<forall>e \<in> set evs. \<not> failure e \<and> \<not> error_log e) \<or>
             (\<exists>before c err. evs = before @ [Failed c err, ConsoleError label err] \<and>
                (\<forall>e \<in> set before. \<not> failure e \<and> \<not> error_log e))))"
proof -
  from m obtain evs where evs: "snd (m tr) = tr @ evs"
    and shape: "case fst (m tr) of Inr v \<Rightarrow> \<forall>e \<in> set evs. \<not> failure e | Inl err \<Rightarrow> fails_once err evs"
    unfolding disciplined_def by blast
  from quiet obtain evs' where "snd (m tr) = tr @ evs'" "\<forall>e \<in> set evs'. \<not> error_log e"
    unfolding only_def by blast
  with evs have nolog: "\<forall>e \<in> set evs. \<not> error_log e" by simp
  show ?thesis
  proof (cases "fst (m tr)")
    case (Inr v)
    with evs have "m tr = (Inr v, tr @ evs)" by (cases "m tr") simp
    with ran have "r = Inr NoValue" "tr' = tr @ evs"
      by (simp_all add: and_then_def try_catch_def done_with_def)
    with shape Inr nolog show ?thesis by auto
  next
    case (Inl err)
    with evs have "m tr = (Inl err, tr @ evs)" by (cases "m tr") simp
    with ran have r: "r = Inr NoValue" and tr': "tr' = tr @ evs @ [ConsoleError label err]"
      by (simp_all add: and_then_def try_catch_def console_error_def done_with_def)
    from shape Inl obtain before c logs where split: "evs = before @ Failed c err # logs"
      and before: "\<forall>e \<in> set before. \<not> failure e"
      and logs: "\<forall>l \<in> set logs. \<exists>label'. l = ConsoleError label' err"
      unfolding fails_once_def by auto
    from logs nolog split have "logs = []" by (cases logs) auto
    with split have "evs @ [ConsoleError label err] = before @ [Failed c err, ConsoleError label err]"
      by simp
    moreover from split nolog before have "\<forall>e \<in> set before. \<not> failure e \<and> \<not> error_log e"
      by simp
    ultimately show ?thesis using r tr' by blast
  qed
qed

lemma driver_logs_and_returns:
  assumes "driver op" and "run sdk net op tr = (r, tr')"
  shows "r = Inr NoValue \<and>
         (\<exists>evs label. error_context op = Some label \<and> tr' = tr @ evs \<and>
            ((\<forall>e \<in> set evs. \<not> failure e \<and> \<not> error_log e) \<or>
             (\<exists>before c err. evs = before @ [Failed c err, ConsoleError label err] \<and>
                (\<forall>e \<in> set before. \<not> failure e \<and> \<not> error_log e))))"
proof -
  from assms(1) consider "op = AccountOp Do_runAccountExamples"
    | "op = TransactionOp Do_runTransactionExamples"
    | "op = ContractOp Do_runSmartContractExamples"
    | "op = ExamplesOp Do_runExamples"
    by (cases op rule: driver.cases) simp_all
  then show ?thesis
  proof cases
    case 1
    from assms(2) have "r = Inr NoValue \<and>
         (\<exists>evs. tr' = tr @ evs \<and>
            ((\<forall>e \<in> set evs. \<not> failure e \<and> \<not> error_log e) \<or>
             (\<exists>before c err. evs = before @ [Failed c err, ConsoleError ''Error running account examples:'' err] \<and>
                (\<forall>e \<in> set before. \<not> failure e \<and> \<not> error_log e))))"
      unfolding 1
      apply (simp only: unfold_ops)
      apply (erule swallow_run [rotated 2])
       apply ((intro disciplined_intros allI)?; simp?)
      apply ((intro only_intros allI)?; simp?)
      done
    with 1 show ?thesis by auto
  next
    case 2
    from assms(2) have "r = Inr NoValue \<and>
         (\<exists>evs. tr' = tr @ evs \<and>
            ((\<forall>e \<in> set evs. \<not> failure e \<and> \<not> error_log e) \<or>
             (\<exists>before c err. evs = before @ [Failed c err, ConsoleError ''Error running transaction examples:'' err] \<and>
                (\<forall>e \<in> set before. \<not> failure e \<and> \<not> error_log e))))"
      unfolding 2
      apply (simp only: unfold_ops)
      apply (erule swallow_run [rotated 2])
       apply ((intro disciplined_intros allI)?; simp?)
      apply ((intro only_intros allI)?; simp?)
      done
    with 2 show ?thesis by auto
  next
    case 3
    from assms(2) have "r = Inr NoValue \<and>
         (\<exists>evs. tr' = tr @ evs \<and>
            ((\<forall>e \<in> set evs. \<not> failure e \<and> \<not> error_log e) \<or>
             (\<exists>before c err. evs = before @ [Failed c err, ConsoleError ''Error running smart contract examples:'' err] \<and>
                (\<forall>e \<in> set before. \<not> failure e \<and> \<not> error_log e))))"
      unfolding 3
      apply (simp only: unfold_ops)
      apply (erule swallow_run [rotated 2])
       apply ((intro disciplined_intros allI)?; simp?)
      apply ((intro only_intros allI)?; simp?)
      done
    with 3 show ?thesis by auto
  next
    case 4
    from assms(2) have "r = Inr NoValue \<and>
         (\<exists>evs. tr' = tr @ evs \<and>
            ((\<forall>e \<in> set evs. \<not> failure e \<and> \<not> error_log e) \<or>
             (\<exists>before c err. evs = before @ [Failed c err, ConsoleError ''Error running examples:'' err] \<and>
                (\<forall>e \<in> set before. \<not> failure e \<and> \<not> error_log e))))"
      unfolding 4
      apply (simp only: unfold_ops)
      apply (erule swallow_run [rotated 2])
       apply ((intro disciplined_intros allI)?; simp?)
      apply ((intro only_intros allI)?; simp?)
      done
    with 4 show ?thesis by auto
  qed
qed

section \<open>Errors are logged and thrown again\<close>

text \<open>
  C8, as amended. A driver never throws: when one of its steps fails it makes no further
  call, gives the very error of that step to \<^verbatim>\<open>console.error\<close> with its own text as its
  last action, and returns; it logs no error otherwise. Every
  other operation returns only when none of its steps failed (a step being a call into
  the SDK or to the node, or a read of a property of \<^verbatim>\<open>undefined\<close>); when a step fails it
  makes no further call and throws the very error of that step. An operation written with
  \<^verbatim>\<open>try\<close>/\<^verbatim>\<open>catch\<close> gives the error to \<^verbatim>\<open>console.error\<close> with its own text as its last
  action; \<^verbatim>\<open>generateAccount\<close>, \<^verbatim>\<open>recoverAccount\<close> and \<^verbatim>\<open>createMultisigAccount\<close>, written
  without \<^verbatim>\<open>try\<close>, log no error at all.
\<close>

theorem errors_logged_and_rethrown:
  assumes "run sdk net op tr = (r, tr')"
  shows "if driver op
         then r = Inr NoValue \<and>
              (\<exists>evs label. error_context op = Some label \<and> tr' = tr @ evs \<and>
                 ((\<forall>e \<in> set evs. \<not> failure e \<and> \<not> error_log e) \<or>
                  (\<exists>before c err. evs = before @ [Failed c err, ConsoleError label err] \<and>
                     (\<forall>e \<in> set before. \<not> failure e \<and> \<not> error_log e))))
         else \<exists>evs. tr' = tr @ evs \<and>
                (case r of
                   Inr v \<Rightarrow> \<forall>e \<in> set evs. \<not> failure e
                 | Inl err \<Rightarrow>
                     fails_once err evs \<and>
                     (case error_context op of
                        None \<Rightarrow> \<forall>e \<in> set evs. \<not> error_log e
                      | Some label \<Rightarrow> last evs = ConsoleError label err))"
proof (cases "driver op")
  case True
  from driver_logs_and_returns [OF True assms] True show ?thesis by simp
next
  case False
  from run_disciplined [OF False, of sdk net] obtain evs where evs: "snd (run sdk net op tr) = tr @ evs"
    and shape: "case fst (run sdk net op tr) of
                  Inr v \<Rightarrow> \<forall>e \<in> set evs. \<not> failure e
                | Inl err \<Rightarrow> fails_once err evs"
    unfolding disciplined_def by blast
  from evs assms have tr': "tr' = tr @ evs" by simp
  have "case r of
          Inr v \<Rightarrow> \<forall>e \<in> set evs. \<not> failure e
        | Inl err \<Rightarrow>
            fails_once err evs \<and>
            (case error_context op of
               None \<Rightarrow> \<forall>e \<in> set evs. \<not> error_log e
             | Some label \<Rightarrow> last evs = ConsoleError label err)"
  proof (cases r)
    case (Inr v)
    with shape assms show ?thesis by simp
  next
    case (Inl err)
    with shape assms have once: "fails_once err evs" by simp
    then have nonempty: "evs \<noteq> []" unfolding fails_once_def by auto
    have "case error_context op of
            None \<Rightarrow> \<forall>e \<in> set evs. \<not> error_log e
          | Some label \<Rightarrow> last evs = ConsoleError label err"
    proof (cases "error_context op")
      case None
      from run_result [OF no_catch_no_log [OF None] assms] tr' show ?thesis
        using None by auto
    next
      case (Some label)
      from run_logs_last [OF Some False] assms Inl obtain tr1 where
        "tr' = tr1 @ [ConsoleError label err]" by blast
      with tr' nonempty have "last evs = ConsoleError label err"
        by (metis last_appendR last_snoc)
      with Some show ?thesis by simp
    qed
    with once Inl show ?thesis by simp
  qed
  with False tr' show ?thesis by auto
qed

text \<open>
  A rejected payment: the error of \<^verbatim>\<open>sendRawTransaction\<close> is logged with the text of
  \<^verbatim>\<open>sendPayment\<close> and thrown, and nothing is waited for. A driver whose first key
  generation fails: the error is logged with the driver's text, and the driver returns.
\<close>

theorem errors_logged_and_rethrown_witness:
  "run scripted_sdk rejecting_node (TransactionOp (Do_sendPayment alice (PartyAccount bob) 1000000 None)) [] =
     (Inl (Error ''rejected''),
      [Called (GetTransactionParams getAlgodClient),
       Called (MakeTxn (PaymentTxn
         \<lparr>pay_sender = AddrObject (Address ''ALICE''), pay_receiver = AddrText ''BOB'',
          pay_amount = 1000000, pay_note = None, pay_rekeyTo = None, pay_lease = None,
          pay_suggestedParams = scripted_params\<rparr>)),
       Called (SignTxn
         \<lparr>txn_fields = PaymentTxn
            \<lparr>pay_sender = AddrObject (Address ''ALICE''), pay_receiver = AddrText ''BOB'',
             pay_amount = 1000000, pay_note = None, pay_rekeyTo = None, pay_lease = None,
             pay_suggestedParams = scripted_params\<rparr>,
          txn_group = None\<rparr> [1, 2, 3]),
       Failed (SendRawTransaction getAlgodClient (OneTxn [1, 2, 3])) (Error ''rejected''),
       ConsoleError ''Error sending payment:'' (Error ''rejected'')])
   \<and> fails_once (Error ''rejected'')
       (snd (run scripted_sdk rejecting_node
               (TransactionOp (Do_sendPayment alice (PartyAccount bob) 1000000 None)) []))
   \<and> run refusing_sdk scripted_node (TransactionOp Do_runTransactionExamples) [] =
     (Inr NoValue,
      [ConsoleLog ''===== ALGORAND TRANSACTION EXAMPLES ====='' [],
       Failed GenerateAccount (Error ''no randomness''),
       ConsoleError ''Error running transaction examples:'' (Error ''no randomness'')])
   \<and> error_context (TransactionOp Do_runTransactionExamples) = Some ''Error running transaction examples:''"
proof -
  let ?op = "TransactionOp (Do_sendPayment alice (PartyAccount bob) 1000000 None)"
  let ?evs = "[Called (GetTransactionParams getAlgodClient),
       Called (MakeTxn (PaymentTxn
         \<lparr>pay_sender = AddrObject (Address ''ALICE''), pay_receiver = AddrText ''BOB'',
          pay_amount = 1000000, pay_note = None, pay_rekeyTo = None, pay_lease = None,
          pay_suggestedParams = scripted_params\<rparr>)),
       Called (SignTxn
         \<lparr>txn_fields = PaymentTxn
            \<lparr>pay_sender = AddrObject (Address ''ALICE''), pay_receiver = AddrText ''BOB'',
             pay_amount = 1000000, pay_note = None, pay_rekeyTo = None, pay_lease = None,
             pay_suggestedParams = scripted_params\<rparr>,
          txn_group = None\<rparr> [1, 2, 3]),
       Failed (SendRawTransaction getAlgodClient (OneTxn [1, 2, 3])) (Error ''rejected''),
       ConsoleError ''Error sending payment:'' (Error ''rejected'')]"
  have ran: "run scripted_sdk rejecting_node ?op [] = (Inl (Error ''rejected''), ?evs)"
    by (simp add: sendPayment_def evaluate address_string_def)
  have driven: "run refusing_sdk scripted_node (TransactionOp Do_runTransactionExamples) [] =
     (Inr NoValue,
      [ConsoleLog ''===== ALGORAND TRANSACTION EXAMPLES ====='' [],
       Failed GenerateAccount (Error ''no randomness''),
       ConsoleError ''Error running transaction examples:'' (Error ''no randomness'')])"
    by (simp add: runTransactionExamples_def evaluate)
  from errors_logged_and_rethrown [OF ran] have "fails_once (Error ''rejected'') ?evs"
    by simp
  moreover from errors_logged_and_rethrown [OF driven]
  have "error_context (TransactionOp Do_runTransactionExamples) = Some ''Error running transaction examples:''"
    by simp
  ultimately show ?thesis using ran driven by simp
qed

text \<open>So do the other three drivers.\<close>

lemma drivers_log_and_return:
  "run refusing_sdk scripted_node (AccountOp Do_runAccountExamples) [] =
     (Inr NoValue,
      [ConsoleLog ''===== ALGORAND ACCOUNT MANAGEMENT EXAMPLES ====='' [],
       ConsoleLog (CHR 0x0A # ''----- Generating Accounts -----'') [],
       Failed GenerateAccount (Error ''no randomness''),
       ConsoleError ''Error running account examples:'' (Error ''no randomness'')])"
  "run refusing_sdk scripted_node (ContractOp Do_runSmartContractExamples) [] =
     (Inr NoValue,
      [ConsoleLog ''===== ALGORAND SMART CONTRACT EXAMPLES ====='' [],
       Failed GenerateAccount (Error ''no randomness''),
       ConsoleError ''Error running smart contract examples:'' (Error ''no randomness'')])"
  "run refusing_sdk scripted_node (ExamplesOp Do_runExamples) [] =
     (Inr NoValue,
      [ConsoleLog ''===== ALGORAND SDK EXAMPLES ====='' [],
       ConsoleLog (CHR 0x0A # ''----- Account Management -----'') [],
       Failed GenerateAccount (Error ''no randomness''),
       ConsoleError ''Error running examples:'' (Error ''no randomness'')])"
  by (simp_all add: runAccountExamples_def generateAccount_def runSmartContractExamples_def
      runExamples_def examples_generateAccount_def evaluate)

text \<open>
  C8 as stated fails: \<^verbatim>\<open>recoverAccount\<close> has no \<^verbatim>\<open>try\<close>; given a phrase the SDK refuses,
  it throws the SDK's error without logging it.
\<close>

theorem recoverAccount_error_not_logged:
  "run scripted_sdk scripted_node (AccountOp (Do_recoverAccount ''x'')) [] =
     (Inl (Error ''invalid mnemonic''),
      [Failed (MnemonicToSecretKey ''x'') (Error ''invalid mnemonic'')])"
  by (simp add: recoverAccount_def evaluate)

section \<open>The round budget of every wait\<close>

lemma waits_five_simps:
  "waits_five (ConsoleLog t vs)" "waits_five (ConsoleError t e)"
  "waits_five (Called c) \<longleftrightarrow> budget_of c = None \<or> budget_of c = Some 5"
  "waits_five (Failed c e) \<longleftrightarrow> budget_of c = None \<or> budget_of c = Some 5"
  by (simp_all add: waits_five_def)

lemma waits_five_account_op: "only waits_five (run_account_op sdk net op)"
  by (cases op; simp only: unfold_ops; (intro only_intros allI)?; simp add: waits_five_simps)

lemma waits_five_transaction_op: "only waits_five (run_transaction_op sdk net op)"
  by (cases op; simp only: unfold_ops; (intro only_intros allI)?; simp add: waits_five_simps)

lemma waits_five_contract_op: "only waits_five (run_contract_op sdk net op)"
  by (cases op; simp only: unfold_ops; (intro only_intros allI)?; simp add: waits_five_simps)

lemma waits_five_examples_op: "only waits_five (run_examples_op sdk net op)"
  by (cases op; simp only: unfold_ops; (intro only_intros allI)?; simp add: waits_five_simps)

text \<open>
  C7. Whatever operation is called, with whatever arguments, every call it makes that
  waits for inclusion (\<^verbatim>\<open>algosdk.waitForConfirmation\<close>, and \<^verbatim>\<open>atc.execute\<close> of the ABI method
  call) is made with the round budget 5. No argument of any operation reaches the budget,
  so a caller cannot configure it.
\<close>

theorem wait_budget_is_five: "only waits_five (run sdk net op)"
  by (cases op)
     (simp_all add: waits_five_account_op waits_five_transaction_op waits_five_contract_op
        waits_five_examples_op)

theorem wait_budget_is_five_witness:
  "map wait_budget
     (snd (run scripted_sdk scripted_node
             (TransactionOp (Do_sendPayment alice (PartyAccount bob) 1000000 None)) [])) =
     [None, None, None, None, None, Some 5, None]
   \<and> map wait_budget
     (snd (run scripted_sdk scripted_node
             (ExamplesOp (Do_callABIMethod alice 5 ''increment'' [AbiText ''Hello, ABI!''])) [])) =
     [None, None, None, None, Some 5, None, None]"
  using wait_budget_is_five [of scripted_sdk scripted_node
      "TransactionOp (Do_sendPayment alice (PartyAccount bob) 1000000 None)"]
    wait_budget_is_five [of scripted_sdk scripted_node
      "ExamplesOp (Do_callABIMethod alice 5 ''increment'' [AbiText ''Hello, ABI!''])"]
  by (simp add: sendPayment_def callABIMethod_def evaluate address_string_def shown_opt_def
      property_of_undefined_def)

section \<open>What a submitting operation returns\<close>

lemma passes_done_with: "passes v (done_with v)"
  by (simp add: passes_def done_with_def)

lemma passes_and_then:
  assumes "only (\<lambda>e. True) m" and "\<And>x. passes v (k x)"
  shows "passes v (and_then m k)"
  unfolding passes_def
proof (intro conjI allI impI)
  fix tr
  have "only (\<lambda>e. True) (and_then m k)"
    using assms unfolding passes_def only_def
    by (intro only_and_then [unfolded only_def]) auto
  then show "\<exists>evs. snd (and_then m k tr) = tr @ evs"
    unfolding only_def by blast
next
  fix tr out tr'
  assume "and_then m k tr = (Inr out, tr')"
  from and_then_run [OF this] obtain x tr1 where "k x tr1 = (Inr out, tr')" by auto
  with assms(2) show "out = v" unfolding passes_def by blast
qed

lemma passes_let: "passes v (f x) \<Longrightarrow> passes v (Let x f)"
  by simp

lemma returns_answer_external:
  assumes "W c a" and "\<And>v. passes (g v) (k v)"
  shows "returns_answer W g (and_then (external c a) k)"
  unfolding returns_answer_def
proof (intro allI impI)
  fix tr out tr'
  assume "and_then (external c a) k tr = (Inr out, tr')"
  from and_then_run [OF this] obtain v tr1 where ext: "external c a tr = (Inr v, tr1)"
    and k: "k v tr1 = (Inr out, tr')" by auto
  from external_run [OF ext] have answer: "a tr = Inr v" and tr1: "tr1 = tr @ [Called c]" by auto
  from assms(2) [of v] k have out: "out = g v" unfolding passes_def by blast
  from assms(2) [of v] obtain post where "snd (k v tr1) = tr1 @ post"
    unfolding passes_def by blast
  with k tr1 have "tr' = tr @ [] @ Called c # post" by simp
  with assms(1) answer out
  show "\<exists>pre post c a v. W c a \<and> tr' = tr @ pre @ Called c # post \<and> a (tr @ pre) = Inr v \<and> out = g v"
    by (metis append_Nil2)
qed

lemma returns_answer_wait:
  assumes "\<And>v. passes (g v) (k v)"
  shows "returns_answer (confirmation_wait net) g
           (and_then (external (WaitForConfirmation client txId 5)
                        (\<lambda>tr. node_waitForConfirmation (net client) tr txId 5)) k)"
  using assms by (intro returns_answer_external) (auto simp: confirmation_wait_def)

lemma returns_answer_execute:
  assumes "\<And>v. passes (g v) (k v)"
  shows "returns_answer (group_execution net) g
           (and_then (external (AtcExecute client atc 5)
                        (\<lambda>tr. node_execute (net client) tr atc 5)) k)"
  using assms by (intro returns_answer_external) (auto simp: group_execution_def)

lemma returns_answer_and_then:
  assumes "only (\<lambda>e. True) m" and "\<And>v. returns_answer W g (f v)"
  shows "returns_answer W g (and_then m f)"
  unfolding returns_answer_def
proof (intro allI impI)
  fix tr out tr'
  assume "and_then m f tr = (Inr out, tr')"
  from and_then_run [OF this] obtain x tr1 where m: "m tr = (Inr x, tr1)"
    and f: "f x tr1 = (Inr out, tr')" by auto
  from run_result [OF assms(1) m] obtain evs where tr1: "tr1 = tr @ evs" by blast
  from assms(2) [of x] f obtain pre post c a v where
    "W c a" "tr' = tr1 @ pre @ Called c # post" "a (tr1 @ pre) = Inr v" "out = g v"
    unfolding returns_answer_def by blast
  then have "W c a \<and> tr' = tr @ (evs @ pre) @ Called c # post \<and> a (tr @ (evs @ pre)) = Inr v \<and> out = g v"
    by (simp add: tr1)
  then show "\<exists>pre post c a v. W c a \<and> tr' = tr @ pre @ Called c # post \<and> a (tr @ pre) = Inr v \<and> out = g v"
    by blast
qed

lemma returns_answer_rethrow:
  assumes "returns_answer W g m"
  shows "returns_answer W g (try_catch m (\<lambda>error. and_then (console_error label error) (\<lambda>_. raise error)))"
  unfolding returns_answer_def
proof (intro allI impI)
  fix tr out tr'
  assume "try_catch m (\<lambda>error. and_then (console_error label error) (\<lambda>_. raise error)) tr = (Inr out, tr')"
  from rethrow_run [OF this] have "m tr = (Inr out, tr')" by auto
  with assms
  show "\<exists>pre post c a v. W c a \<and> tr' = tr @ pre @ Called c # post \<and> a (tr @ pre) = Inr v \<and> out = g v"
    unfolding returns_answer_def by blast
qed

lemma returns_answer_returning:
  assumes "returns_answer W g m"
  shows "returns_answer W (\<lambda>v. wrap (g v)) (returning wrap m)"
  unfolding returns_answer_def
proof (intro allI impI)
  fix tr out tr'
  assume "returning wrap m tr = (Inr out, tr')"
  then have "and_then m (\<lambda>v. done_with (wrap v)) tr = (Inr out, tr')"
    by (simp add: returning_def)
  from and_then_run [OF this] obtain x where "m tr = (Inr x, tr')" "out = wrap x"
    by (auto simp: done_with_def)
  with assms
  show "\<exists>pre post c a v. W c a \<and> tr' = tr @ pre @ Called c # post \<and> a (tr @ pre) = Inr v \<and>
          out = wrap (g v)"
    unfolding returns_answer_def by blast
qed

lemma returns_answer_let: "returns_answer W g (f x) \<Longrightarrow> returns_answer W g (Let x f)"
  by simp

lemmas answer_rules = returns_answer_rethrow returns_answer_let returns_answer_wait
  returns_answer_execute returns_answer_and_then passes_done_with passes_let passes_and_then
  only_intros

lemmas unfold_bodies = account_ops transaction_ops contract_ops examples_ops sdk_calls node_calls
  property_of_undefined_def

lemma account_op_returns_report:
  "returned_from (AccountOp op) = Some g \<Longrightarrow>
   returns_answer (confirmation_wait net) g (run_account_op sdk net op)"
  by (cases op; clarsimp; rule returns_answer_returning [where g = "\<lambda>c. c"];
      simp only: unfold_bodies; (rule answer_rules allI | simp)+)

lemma transaction_op_returns_report:
  "returned_from (TransactionOp op) = Some g \<Longrightarrow>
   returns_answer (confirmation_wait net) g (run_transaction_op sdk net op)"
  by (cases op; clarsimp; (rule returns_answer_returning [where g = "\<lambda>c. c"] | rule returns_answer_returning);
      simp only: unfold_bodies; (rule answer_rules allI | simp)+)

lemma contract_op_returns_report:
  "returned_from (ContractOp op) = Some g \<Longrightarrow>
   returns_answer (confirmation_wait net) g (run_contract_op sdk net op)"
  by (cases op; clarsimp; (rule returns_answer_returning [where g = "\<lambda>c. c"] | rule returns_answer_returning);
      simp only: unfold_bodies; (rule answer_rules allI | simp)+)

lemma examples_op_returns_report:
  "returned_from (ExamplesOp op) = Some g \<Longrightarrow>
   returns_answer (confirmation_wait net) g (run_examples_op sdk net op)"
  by (cases op; clarsimp; (rule returns_answer_returning [where g = "\<lambda>c. c"] | rule returns_answer_returning);
      simp only: unfold_bodies; (rule answer_rules allI | simp)+)

lemma run_returns_report:
  "returned_from op = Some g \<Longrightarrow> returns_answer (confirmation_wait net) g (run sdk net op)"
  by (cases op)
     (simp_all add: account_op_returns_report transaction_op_returns_report
        contract_op_returns_report examples_op_returns_report)

lemma callABIMethod_returns_result:
  "returns_answer (group_execution net) AtcResultValue
     (run sdk net (ExamplesOp (Do_callABIMethod sender appId methodName methodArgs)))"
  by (simp; rule returns_answer_returning [where g = "\<lambda>c. c"];
      simp only: unfold_bodies; (rule answer_rules allI | simp)+)

text \<open>
  C3, as amended. An operation that sends a signed transaction and waits for it with
  \<^verbatim>\<open>algosdk.waitForConfirmation\<close> returns, when it returns, what \<open>returned_from\<close> says of the
  confirmation record the node reported to that wait of five rounds: the record itself,
  except that the two \<^verbatim>\<open>createAsset\<close> return its \<^verbatim>\<open>assetIndex\<close> and the two
  \<^verbatim>\<open>createApplication\<close> its \<^verbatim>\<open>applicationIndex\<close>. \<^verbatim>\<open>callABIMethod\<close> returns the result that
  \<^verbatim>\<open>atc.execute\<close> reported. No step failed in a run that returns; a run in which a step
  failed throws that step's error.
\<close>

theorem confirmation_record_returned:
  "(returned_from op = Some g \<and> run sdk net op tr = (r, tr') \<longrightarrow>
      (case r of
         Inl err \<Rightarrow> \<exists>evs. tr' = tr @ evs \<and> fails_once err evs
       | Inr out \<Rightarrow>
           \<exists>pre post client txId c.
             tr' = tr @ pre @ Called (WaitForConfirmation client txId 5) # post \<and>
             (\<forall>e \<in> set (pre @ post). \<not> failure e) \<and>
             node_waitForConfirmation (net client) (tr @ pre) txId 5 = Inr c \<and> out = g c)) \<and>
   (run sdk net (ExamplesOp (Do_callABIMethod sender appId methodName methodArgs)) tr = (r, tr') \<longrightarrow>
      (case r of
         Inl err \<Rightarrow> \<exists>evs. tr' = tr @ evs \<and> fails_once err evs
       | Inr out \<Rightarrow>
           \<exists>pre post client atc result.
             tr' = tr @ pre @ Called (AtcExecute client atc 5) # post \<and>
             (\<forall>e \<in> set (pre @ post). \<not> failure e) \<and>
             node_execute (net client) (tr @ pre) atc 5 = Inr result \<and> out = AtcResultValue result))"
proof (intro conjI impI)
  assume "returned_from op = Some g \<and> run sdk net op tr = (r, tr')"
  then have g: "returned_from op = Some g" and ran: "run sdk net op tr = (r, tr')" by simp_all
  from g have "\<not> driver op" by (cases op rule: driver.cases) auto
  from run_disciplined [OF this, of sdk net] ran obtain evs where evs: "tr' = tr @ evs"
    and shape: "case r of Inr v \<Rightarrow> \<forall>e \<in> set evs. \<not> failure e | Inl err \<Rightarrow> fails_once err evs"
    unfolding disciplined_def by (metis fst_conv snd_conv)
  show "case r of
          Inl err \<Rightarrow> \<exists>evs. tr' = tr @ evs \<and> fails_once err evs
        | Inr out \<Rightarrow>
            \<exists>pre post client txId c.
              tr' = tr @ pre @ Called (WaitForConfirmation client txId 5) # post \<and>
              (\<forall>e \<in> set (pre @ post). \<not> failure e) \<and>
              node_waitForConfirmation (net client) (tr @ pre) txId 5 = Inr c \<and> out = g c"
  proof (cases r)
    case (Inl err)
    with evs shape show ?thesis by auto
  next
    case (Inr out)
    with run_returns_report [OF g, of net sdk] ran obtain pre post call a c where
      "confirmation_wait net call a" "tr' = tr @ pre @ Called call # post" "a (tr @ pre) = Inr c" "out = g c"
      unfolding returns_answer_def by blast
    then obtain client txId where
      "tr' = tr @ pre @ Called (WaitForConfirmation client txId 5) # post"
      "node_waitForConfirmation (net client) (tr @ pre) txId 5 = Inr c" "out = g c"
      unfolding confirmation_wait_def by auto
    moreover from this(1) evs shape Inr have "\<forall>e \<in> set (pre @ post). \<not> failure e" by auto
    ultimately have "\<exists>pre post client txId c.
        tr' = tr @ pre @ Called (WaitForConfirmation client txId 5) # post \<and>
        (\<forall>e \<in> set (pre @ post). \<not> failure e) \<and>
        node_waitForConfirmation (net client) (tr @ pre) txId 5 = Inr c \<and> out = g c"
      by blast
    with Inr show ?thesis by simp
  qed
next
  let ?op = "ExamplesOp (Do_callABIMethod sender appId methodName methodArgs)"
  assume ran: "run sdk net ?op tr = (r, tr')"
  have "\<not> driver ?op" by simp
  from run_disciplined [OF this, of sdk net] ran obtain evs where evs: "tr' = tr @ evs"
    and shape: "case r of Inr v \<Rightarrow> \<forall>e \<in> set evs. \<not> failure e | Inl err \<Rightarrow> fails_once err evs"
    unfolding disciplined_def by (metis fst_conv snd_conv)
  show "case r of
          Inl err \<Rightarrow> \<exists>evs. tr' = tr @ evs \<and> fails_once err evs
        | Inr out \<Rightarrow>
            \<exists>pre post client atc result.
              tr' = tr @ pre @ Called (AtcExecute client atc 5) # post \<and>
              (\<forall>e \<in> set (pre @ post). \<not> failure e) \<and>
              node_execute (net client) (tr @ pre) atc 5 = Inr result \<and> out = AtcResultValue result"
  proof (cases r)
    case (Inl err)
    with evs shape show ?thesis by auto
  next
    case (Inr out)
    with callABIMethod_returns_result [of net sdk sender appId methodName methodArgs] ran
    obtain pre post call a result where
      "group_execution net call a" "tr' = tr @ pre @ Called call # post" "a (tr @ pre) = Inr result"
      "out = AtcResultValue result"
      unfolding returns_answer_def by blast
    then obtain client atc where
      "tr' = tr @ pre @ Called (AtcExecute client atc 5) # post"
      "node_execute (net client) (tr @ pre) atc 5 = Inr result" "out = AtcResultValue result"
      unfolding group_execution_def by auto
    moreover from this(1) evs shape Inr have "\<forall>e \<in> set (pre @ post). \<not> failure e" by auto
    ultimately have "\<exists>pre post client atc result.
        tr' = tr @ pre @ Called (AtcExecute client atc 5) # post \<and>
        (\<forall>e \<in> set (pre @ post). \<not> failure e) \<and>
        node_execute (net client) (tr @ pre) atc 5 = Inr result \<and> out = AtcResultValue result"
      by blast
    with Inr show ?thesis by simp
  qed
qed

text \<open>
  On the scripted node, \<^verbatim>\<open>rekeyAccount\<close> returns the reported record and
  \<^verbatim>\<open>createApplication\<close> the application index 9 of that record.
\<close>

theorem confirmation_record_returned_witness:
  "returned_from (AccountOp (Do_rekeyAccount alice bob)) = Some ConfirmationValue
   \<and> fst (run scripted_sdk scripted_node (AccountOp (Do_rekeyAccount alice bob)) []) =
       Inr (ConfirmationValue scripted_confirmation)
   \<and> fst (run scripted_sdk scripted_node
            (ContractOp (Do_createApplication alice ''approve'' ''clear'' None None None None)) []) =
       Inr (IdValue (Some 9))"
  using confirmation_record_returned [of "AccountOp (Do_rekeyAccount alice bob)" ConfirmationValue
      scripted_sdk scripted_node "[]"]
  by (simp add: rekeyAccount_def createApplication_def compileProgram_def or_one_def evaluate
      shown_opt_def)

text \<open>
  C3 as stated fails: \<^verbatim>\<open>createAsset\<close> returns the asset index taken from the
  confirmation record, not the record.
\<close>

theorem createAsset_returns_asset_index:
  "fst (run scripted_sdk scripted_node
          (TransactionOp (Do_createAsset alice ''Example Token'' ''EX'' 1000000 0 None None)) []) =
     Inr (IdValue (Some 7))"
  by (simp add: createAsset_def evaluate shown_opt_def)

section \<open>The group identifier of an atomic group\<close>














lemma object_after_member: "i < length after \<Longrightarrow> object_after after i x \<in> set after"
  by (simp add: object_after_def)

text \<open>
  The function of the same name in the combined examples file, with its two fixed
  receivers, signs after the assignment and with one group identifier as well.
\<close>

lemma examples_group_assigned_before_signing:
  assumes contract: "assigns_one_group sdk"
    and run: "examples_sendAtomicTransactions sdk net sender receiver1 receiver2 amount tr = (r, tr')"
  shows "\<exists>evs. tr' = tr @ evs \<and> well_grouped evs"
proof -
  have group: "\<exists>g. txn_group (object_after after 0 x) = Some g \<and> txn_group (object_after after 1 y) = Some g"
    if "sdk_assignGroupID sdk [x, y] = Inr after" for x y after
  proof -
    from contract that obtain g where "length after = 2" "\<forall>t \<in> set after. txn_group t = Some g"
      unfolding assigns_one_group_def by fastforce
    then show ?thesis by (intro exI [of _ g]) (simp add: object_after_member)
  qed
  show ?thesis
    using run
    apply (simp add: examples_sendAtomicTransactions_def sdk_calls node_calls step
        split: sum.splits)
    apply (auto simp: well_grouped_def dest!: group)
    done
qed

section \<open>Recovering a generated account\<close>

text \<open>
  C1. Provided the SDK's phrase functions do what the spec asks of them
  (\<open>phrase_round_trip\<close>): for the account and the phrase that \<^verbatim>\<open>generateAccount\<close>
  returns, \<^verbatim>\<open>recoverAccount\<close> of that phrase returns (it does not throw), whenever it is
  called, and the text of the recovered address is the text of the generated one. This
  holds for the two functions of the account examples file and for those of the combined
  examples file, in any pairing.
\<close>

theorem recovered_address_is_generated_address:
  assumes contract: "phrase_round_trip sdk"
    and generated: "generateAccount sdk tr = (Inr (account, mnemonic), tr1) \<or>
                    examples_generateAccount sdk tr = (Inr (account, mnemonic), tr1)"
  shows "\<exists>recovered. fst (recoverAccount sdk mnemonic tr2) = Inr recovered \<and>
           fst (examples_recoverAccount sdk mnemonic tr2) = Inr recovered \<and>
           toString (addr recovered) = toString (addr account)"
proof -
  from generated have account: "sdk_generateAccount sdk tr = Inr account"
    and phrase: "sdk_secretKeyToMnemonic sdk (sk account) = Inr mnemonic"
    by (auto simp: generateAccount_def examples_generateAccount_def sdk_calls step
        split: sum.splits)
  from contract account phrase obtain recovered where
    decoded: "sdk_mnemonicToSecretKey sdk mnemonic = Inr recovered"
    and same: "toString (addr recovered) = toString (addr account)"
    unfolding phrase_round_trip_def by blast
  from decoded have "fst (recoverAccount sdk mnemonic tr2) = Inr recovered"
    "fst (examples_recoverAccount sdk mnemonic tr2) = Inr recovered"
    by (simp_all add: recoverAccount_def examples_recoverAccount_def sdk_calls step)
  with same show ?thesis by blast
qed

lemma scripted_sdk_phrase_round_trip: "phrase_round_trip scripted_sdk"
  by (simp add: phrase_round_trip_def scripted_sdk_def list_all_iff)

theorem recovered_address_is_generated_address_witness:
  "phrase_round_trip scripted_sdk
   \<and> fst (generateAccount scripted_sdk []) = Inr (\<lparr>addr = Address ''A'', sk = [1]\<rparr>, ''w'')
   \<and> fst (recoverAccount scripted_sdk ''w'' [ConsoleLog ''later'' []]) = Inr \<lparr>addr = Address ''A'', sk = [1]\<rparr>"
proof -
  have generated: "generateAccount scripted_sdk [] =
      (Inr (\<lparr>addr = Address ''A'', sk = [1]\<rparr>, ''w''),
       [Called GenerateAccount, ConsoleLog ''Generated Account Address:'' [ShownText ''A''],
        Called (SecretKeyToMnemonic [1]), ConsoleLog ''Account Mnemonic:'' [ShownText ''w'']])"
    by (simp add: generateAccount_def evaluate)
  from recovered_address_is_generated_address [OF scripted_sdk_phrase_round_trip disjI1, OF generated,
      of "[ConsoleLog ''later'' []]"]
  obtain recovered where "fst (recoverAccount scripted_sdk ''w'' [ConsoleLog ''later'' []]) = Inr recovered"
      "toString (addr recovered) = ''A''"
    by auto
  moreover have "fst (recoverAccount scripted_sdk ''w'' [ConsoleLog ''later'' []]) =
      Inr \<lparr>addr = Address ''A'', sk = [1]\<rparr>"
    by (simp add: recoverAccount_def evaluate)
  ultimately show ?thesis using generated scripted_sdk_phrase_round_trip by simp
qed

section \<open>The multisig address\<close>

text \<open>
  C2. \<^verbatim>\<open>createMultisigAccount\<close> makes no call to the node, and what it returns (or throws)
  is what the SDK's \<^verbatim>\<open>multisigAddress\<close> makes of version 1, the threshold and the ordered
  addresses: it does not depend on anything that happened before, so two calls with the
  same list and threshold return the same address. The same holds for the function of
  that name in the combined examples file.
\<close>

theorem multisig_address_is_deterministic:
  "fst (createMultisigAccount sdk addresses threshold tr) =
     (case sdk_multisigAddress sdk \<lparr>msig_version = 1, msig_threshold = threshold, msig_addrs = addresses\<rparr> of
        Inl e \<Rightarrow> Inl e
      | Inr multisigAddress \<Rightarrow>
          Inr (\<lparr>msig_version = 1, msig_threshold = threshold, msig_addrs = addresses\<rparr>, multisigAddress))
   \<and> fst (createMultisigAccount sdk addresses threshold tr) =
       fst (createMultisigAccount sdk addresses threshold tr')
   \<and> filter touches_network (snd (createMultisigAccount sdk addresses threshold tr)) =
       filter touches_network tr
   \<and> fst (examples_createMultisigAccount sdk addresses threshold tr) =
       fst (createMultisigAccount sdk addresses threshold tr')
   \<and> filter touches_network (snd (examples_createMultisigAccount sdk addresses threshold tr)) =
       filter touches_network tr"
  by (simp add: createMultisigAccount_def examples_createMultisigAccount_def sdk_calls step
      split: sum.splits)

text \<open>
  By contrast \<^verbatim>\<open>generateAccount\<close> draws randomness: on the scripted SDK two calls at
  different moments return different accounts.
\<close>

lemma generateAccount_depends_on_the_moment:
  "fst (generateAccount scripted_sdk []) \<noteq> fst (generateAccount scripted_sdk [ConsoleLog ''later'' []])"
  by (simp add: generateAccount_def evaluate)

section \<open>Decoding application state\<close>

lemma find_in_append:
  "find P (xs @ ys) = (case find P xs of None \<Rightarrow> find P ys | Some x \<Rightarrow> Some x)"
  by (induction xs) auto

lemma decode_state_lookup:
  "decode_state sdk items state key =
     (if key = ''__proto__'' then state key
      else case find (\<lambda>stateItem. base64_text sdk (si_key stateItem) = key) (rev items) of
             None \<Rightarrow> state key
           | Some stateItem \<Rightarrow> Some (state_item_value sdk stateItem))"
proof (induction items arbitrary: state)
  case Nil
  show ?case by simp
next
  case (Cons stateItem rest)
  show ?case
    by (simp add: Cons.IH Let_def set_property_def find_in_append split: option.splits)
qed

lemma decode_state_empty:
  "decode_state sdk items Map.empty =
     (\<lambda>key. if key = ''__proto__'' then None
            else map_option
                   (\<lambda>stateItem. if tv_type (si_value stateItem) = 1
                                 then TextValue (base64_text sdk (tv_bytes (si_value stateItem)))
                                 else IntValue (tv_uint (si_value stateItem)))
                   (find (\<lambda>stateItem. base64_text sdk (si_key stateItem) = key) (rev items)))"
  by (rule ext) (simp add: decode_state_lookup state_item_value_def split: option.splits)

text \<open>
  C6. The object \<^verbatim>\<open>readGlobalState\<close> and \<^verbatim>\<open>readLocalState\<close> return maps each key (the
  base64-decoded key of an entry, as text) to the decoded value of the last entry with
  that key: the base64-decoded payload as text when the entry's type discriminant is 1,
  the entry's integer field for every other discriminant. Decoding is the platform's:
  \<^verbatim>\<open>Buffer.from(s, 'base64')\<close> for the bytes and \<^verbatim>\<open>toString()\<close> of those bytes for the
  text, for keys and payloads alike. (The key \<^verbatim>\<open>__proto__\<close> never becomes a property.)
  When the node's answer fails, so does the read.
\<close>

theorem state_entries_decoded:
  "fst (readGlobalState sdk net appId tr) =
     (case node_getApplicationByID (net getAlgodClient) tr appId of
        Inl e \<Rightarrow> Inl e
      | Inr application \<Rightarrow>
          Inr (\<lambda>key. if key = ''__proto__'' then None
                     else map_option
                            (\<lambda>stateItem. if tv_type (si_value stateItem) = 1
                                          then TextValue (Buffer_toString sdk (Buffer_from_base64 sdk (tv_bytes (si_value stateItem))))
                                          else IntValue (tv_uint (si_value stateItem)))
                            (find (\<lambda>stateItem. Buffer_toString sdk (Buffer_from_base64 sdk (si_key stateItem)) = key)
                               (rev (or_empty (global_state (app_params application)))))))
   \<and> fst (readLocalState sdk net account appId tr) =
     (case node_accountInformation (net getAlgodClient) tr (address_string account) of
        Inl e \<Rightarrow> Inl e
      | Inr accountInfo \<Rightarrow>
          Inr (\<lambda>key. if key = ''__proto__'' then None
                     else map_option
                            (\<lambda>stateItem. if tv_type (si_value stateItem) = 1
                                          then TextValue (Buffer_toString sdk (Buffer_from_base64 sdk (tv_bytes (si_value stateItem))))
                                          else IntValue (tv_uint (si_value stateItem)))
                            (find (\<lambda>stateItem. Buffer_toString sdk (Buffer_from_base64 sdk (si_key stateItem)) = key)
                               (rev (case find (\<lambda>app. als_id app = appId)
                                            (or_empty (ai_apps_local_state accountInfo)) of
                                       None \<Rightarrow> []
                                     | Some appLocalState \<Rightarrow> or_empty (als_key_value appLocalState))))))"
  unfolding base64_text_def [symmetric]
  by (simp add: readGlobalState_def readLocalState_def node_calls step or_empty_def
      decode_state_empty [symmetric] split: sum.splits option.splits)

text \<open>On the scripted node, application 5 has an integer entry and a text entry.\<close>

lemma scripted_state_read:
  "map_sum id (\<lambda>state. (state ''counter'', state ''owner'', state ''other''))
     (fst (readGlobalState scripted_sdk scripted_node 5 [])) =
   Inr (Some (IntValue 3), Some (TextValue ''alice''), None)"
  by code_simp

section \<open>Reading state that is not there\<close>

text \<open>
  C10. When the account information has no \<^verbatim>\<open>apps-local-state\<close> list, or the list has no
  entry for the requested application, \<^verbatim>\<open>readLocalState\<close> logs and returns the empty
  object and does not throw; so does \<^verbatim>\<open>readGlobalState\<close> when the application has no
  \<^verbatim>\<open>global-state\<close> list.
\<close>

theorem missing_state_reads_empty:
  "(node_accountInformation (net getAlgodClient) tr (address_string account) = Inr accountInfo \<and>
    (\<forall>apps. ai_apps_local_state accountInfo = Some apps \<longrightarrow> (\<forall>app \<in> set apps. als_id app \<noteq> appId)) \<longrightarrow>
      readLocalState sdk net account appId tr =
        (Inr Map.empty,
         tr @ [Called (AccountInformation getAlgodClient (address_string account)),
               ConsoleLog ''Local State:'' [ShownState Map.empty]])) \<and>
   (node_getApplicationByID (net getAlgodClient) tr appId = Inr application \<and>
    global_state (app_params application) = None \<longrightarrow>
      readGlobalState sdk net appId tr =
        (Inr Map.empty,
         tr @ [Called (GetApplicationByID getAlgodClient appId),
               ConsoleLog ''Global State:'' [ShownState Map.empty]]))"
proof (intro conjI impI)
  assume h: "node_accountInformation (net getAlgodClient) tr (address_string account) = Inr accountInfo \<and>
    (\<forall>apps. ai_apps_local_state accountInfo = Some apps \<longrightarrow> (\<forall>app \<in> set apps. als_id app \<noteq> appId))"
  then have "find (\<lambda>app. als_id app = appId) apps = None"
    if "ai_apps_local_state accountInfo = Some apps" for apps
    using that by (auto simp: find_None_iff)
  with h show "readLocalState sdk net account appId tr =
        (Inr Map.empty,
         tr @ [Called (AccountInformation getAlgodClient (address_string account)),
               ConsoleLog ''Local State:'' [ShownState Map.empty]])"
    by (simp add: readLocalState_def node_calls step split: option.splits)
next
  assume "node_getApplicationByID (net getAlgodClient) tr appId = Inr application \<and>
    global_state (app_params application) = None"
  then show "readGlobalState sdk net appId tr =
        (Inr Map.empty,
         tr @ [Called (GetApplicationByID getAlgodClient appId),
               ConsoleLog ''Global State:'' [ShownState Map.empty]])"
    by (simp add: readGlobalState_def node_calls step)
qed

text \<open>
  On the scripted node the account has local state for application 5 only, and
  application 9 has no global state.
\<close>

theorem missing_state_reads_empty_witness:
  "readLocalState scripted_sdk scripted_node (PartyAccount alice) 9 [] =
     (Inr Map.empty,
      [Called (AccountInformation getAlgodClient ''ALICE''), ConsoleLog ''Local State:'' [ShownState Map.empty]])
   \<and> readGlobalState scripted_sdk scripted_node 9 [] =
     (Inr Map.empty,
      [Called (GetApplicationByID getAlgodClient 9), ConsoleLog ''Global State:'' [ShownState Map.empty]])"
  using missing_state_reads_empty [of scripted_node "[]" "PartyAccount alice"
      "\<lparr>ai_amount = 1000000, ai_status = ''Offline'', ai_assets = None, ai_created_apps = None,
        ai_apps_local_state = Some [\<lparr>als_id = 5, als_key_value = Some scripted_state\<rparr>]\<rparr>"
      9 scripted_sdk "\<lparr>app_id = 9, app_params = \<lparr>global_state = None\<rparr>\<rparr>"]
  by (simp add: scripted_node_def address_string_def alice_def)

end
